theory Spec2Isabelle
  imports Main "HOL-Library.Word"
begin

unbundle bit_operations_syntax

section \<open>Build-time configuration and basic types\<close>

text \<open>
  The headers \<^verbatim>\<open>flogfs.h\<close>, \<^verbatim>\<open>flogfs_private.h\<close> and \<^verbatim>\<open>flogfs_conf_implement.h\<close> are not
  part of the sources at hand; \<^verbatim>\<open>flogfs.c\<close> is.  The build-time constants are therefore a
  parameter \<open>cf\<close> of every function that uses one.
\<close>

record conf =
  FS_NUM_BLOCKS :: nat
  FS_PAGES_PER_BLOCK :: nat
  FS_SECTORS_PER_PAGE :: nat
  FS_SECTOR_SIZE :: nat
  FS_PREALLOCATE_SIZE :: nat
  FLOG_MAX_FNAME_LEN :: nat
  FLOG_FILE_TAIL_SECTOR :: nat
  FLOG_FILE_INVALIDATION_SECTOR :: nat
  FLOG_INODE_TAIL_SECTOR :: nat
  FLOG_INODE_INVALIDATION_SECTOR :: nat

text \<open>The configuration of the concrete scenarios of the specification (section 8.3).\<close>

definition conf0 :: conf where
  "conf0 = \<lparr> FS_NUM_BLOCKS = 16, FS_PAGES_PER_BLOCK = 64, FS_SECTORS_PER_PAGE = 4,
     FS_SECTOR_SIZE = 512, FS_PREALLOCATE_SIZE = 4, FLOG_MAX_FNAME_LEN = 32,
     FLOG_FILE_TAIL_SECTOR = 2, FLOG_FILE_INVALIDATION_SECTOR = 3,
     FLOG_INODE_TAIL_SECTOR = 2, FLOG_INODE_INVALIDATION_SECTOR = 3 \<rparr>"

type_synonym byte = "8 word"
type_synonym flog_block_idx_t = "16 word"
type_synonym flog_block_age_t = "32 word"
type_synonym flog_timestamp_t = "32 word"
type_synonym flog_file_id_t = "32 word"
type_synonym flog_sector_nbytes_t = "16 word"

text \<open>The all-ones sentinels: erased flash reads as all-ones.\<close>

definition FLOG_BLOCK_IDX_INVALID :: flog_block_idx_t where
  "FLOG_BLOCK_IDX_INVALID = - 1"

definition FLOG_BLOCK_AGE_INVALID :: flog_block_age_t where
  "FLOG_BLOCK_AGE_INVALID = - 1"

definition FLOG_TIMESTAMP_INVALID :: flog_timestamp_t where
  "FLOG_TIMESTAMP_INVALID = - 1"

definition FLOG_FILE_ID_INVALID :: flog_file_id_t where
  "FLOG_FILE_ID_INVALID = - 1"

definition FLOG_SECTOR_NBYTES_INVALID :: flog_sector_nbytes_t where
  "FLOG_SECTOR_NBYTES_INVALID = - 1"

section \<open>The preallocation list\<close>

record flog_block_alloc_t =
  ba_block :: flog_block_idx_t
  ba_age :: flog_block_age_t

text \<open>
  \<open>pa_blocks\<close> is the array \<^verbatim>\<open>blocks[FS_PREALLOCATE_SIZE]\<close>; its length is fixed and only the
  first \<open>pa_n\<close> entries are in use.
\<close>

record flog_prealloc_list_t =
  pa_blocks :: "flog_block_alloc_t list"
  pa_n :: "16 word"
  pa_age_sum :: flog_block_age_t

text \<open>
  The inner loop of \<^verbatim>\<open>flog_prealloc_push\<close>: \<^verbatim>\<open>for(j = ...; j > i; j--) blocks[j] = blocks[j - 1]\<close>.
\<close>

fun shift_older :: "flog_block_alloc_t list \<Rightarrow> nat \<Rightarrow> nat \<Rightarrow> flog_block_alloc_t list" where
  "shift_older bs i 0 = bs"
| "shift_older bs i (Suc j) =
     (if Suc j > i then shift_older (bs[Suc j := bs ! j]) i j else bs)"

text \<open>
  The outer loop \<^verbatim>\<open>for(i = n - 1; i; i--)\<close>: index 0 is never examined, since the loop
  stops as soon as \<open>i\<close> is 0.
\<close>

fun prealloc_search ::
  "conf \<Rightarrow> flog_block_idx_t \<Rightarrow> flog_block_age_t \<Rightarrow> flog_prealloc_list_t \<Rightarrow> nat
     \<Rightarrow> flog_prealloc_list_t" where
  "prealloc_search cf block age p 0 = p"
| "prealloc_search cf block age p (Suc k) =
     (if age \<le> ba_age (pa_blocks p ! Suc k) then
        (let sz = FS_PREALLOCATE_SIZE cf;
             full = (unat (pa_n p) = sz);
             sum1 = (if full then pa_age_sum p - ba_age (pa_blocks p ! (sz - 1))
                     else pa_age_sum p);
             bs1 = shift_older (pa_blocks p) (Suc k) (min (unat (pa_n p)) (sz - 1));
             n1 = (if unat (pa_n p) < sz then pa_n p + 1 else pa_n p)
         in \<lparr> pa_blocks = bs1[Suc k := \<lparr> ba_block = block, ba_age = age \<rparr>],
              pa_n = n1, pa_age_sum = sum1 + age \<rparr>)
      else prealloc_search cf block age p k)"

definition flog_prealloc_push ::
  "conf \<Rightarrow> flog_block_idx_t \<Rightarrow> flog_block_age_t \<Rightarrow> flog_prealloc_list_t
     \<Rightarrow> flog_prealloc_list_t" where
  "flog_prealloc_push cf block age p =
     (if pa_n p = 0 then
        \<lparr> pa_blocks = (pa_blocks p)[0 := \<lparr> ba_block = block, ba_age = age \<rparr>],
          pa_n = 1, pa_age_sum = pa_age_sum p + age \<rparr>
      else if unat (pa_n p) = FS_PREALLOCATE_SIZE cf
              \<and> ba_age (pa_blocks p ! (unat (pa_n p) - 1)) < age then p
      else prealloc_search cf block age p (unat (pa_n p - 1)))"

text \<open>
  The shifting loop of \<^verbatim>\<open>flog_prealloc_pop\<close>, \<^verbatim>\<open>for(i = 0; i < n; i++) blocks[i] = blocks[i + 1]\<close>,
  with \<open>k\<close> iterations left.
\<close>

fun shift_forward :: "flog_block_alloc_t list \<Rightarrow> nat \<Rightarrow> nat \<Rightarrow> flog_block_alloc_t list" where
  "shift_forward bs i 0 = bs"
| "shift_forward bs i (Suc k) = shift_forward (bs[i := bs ! Suc i]) (Suc i) k"

text \<open>
  \<^verbatim>\<open>flog_prealloc_pop\<close>.  On an empty list the C code returns a struct whose \<^verbatim>\<open>age\<close> was
  never assigned; \<open>u\<close> stands for that indeterminate value.
\<close>

definition flog_prealloc_pop ::
  "flog_block_age_t \<Rightarrow> flog_prealloc_list_t \<Rightarrow> flog_block_alloc_t \<times> flog_prealloc_list_t" where
  "flog_prealloc_pop u p =
     (if pa_n p = 0 then (\<lparr> ba_block = FLOG_BLOCK_IDX_INVALID, ba_age = u \<rparr>, p)
      else
        (pa_blocks p ! 0,
         p \<lparr> pa_n := pa_n p - 1,
             pa_blocks := shift_forward (pa_blocks p) 0 (unat (pa_n p - 1)) \<rparr>))"

text \<open>The list states that pushes can produce, starting from the empty list.\<close>

inductive prealloc_reachable :: "conf \<Rightarrow> flog_prealloc_list_t \<Rightarrow> bool" for cf where
  reach_empty:
    "length bs = FS_PREALLOCATE_SIZE cf \<Longrightarrow>
     prealloc_reachable cf \<lparr> pa_blocks = bs, pa_n = 0, pa_age_sum = 0 \<rparr>"
| reach_push:
    "prealloc_reachable cf p \<Longrightarrow> prealloc_reachable cf (flog_prealloc_push cf block age p)"

section \<open>Records on flash\<close>

text \<open>
  A buffer is a function from byte offsets to bytes.  Multi-byte fields are little-endian
  (specification, section 6.3).
\<close>

type_synonym mem = "nat \<Rightarrow> byte"

definition ld16 :: "mem \<Rightarrow> nat \<Rightarrow> 16 word" where
  "ld16 m off = ucast (m off) OR push_bit 8 (ucast (m (off + 1)))"

definition ld32 :: "mem \<Rightarrow> nat \<Rightarrow> 32 word" where
  "ld32 m off = ucast (m off) OR push_bit 8 (ucast (m (off + 1)))
     OR push_bit 16 (ucast (m (off + 2))) OR push_bit 24 (ucast (m (off + 3)))"

definition st16 :: "mem \<Rightarrow> nat \<Rightarrow> 16 word \<Rightarrow> mem" where
  "st16 m off v = m(off := ucast v, off + 1 := ucast (drop_bit 8 v))"

definition st32 :: "mem \<Rightarrow> nat \<Rightarrow> 32 word \<Rightarrow> mem" where
  "st32 m off v = m(off := ucast v, off + 1 := ucast (drop_bit 8 v),
     off + 2 := ucast (drop_bit 16 v), off + 3 := ucast (drop_bit 24 v))"

text \<open>
  Modelled from the spec: the struct declarations of \<^verbatim>\<open>flogfs_private.h\<close> are missing.  The
  fields are those of section 3 of the specification, in natural packing with 32-bit
  alignment (section 6.3).  The block age is the first field of sector 0 of every block, the
  timestamp the first field of every invalidation sector and \<^verbatim>\<open>next_block\<close> the first field
  of every tail sector, because \<^verbatim>\<open>flogfs.c\<close> reads them through the "universal" headers
  for blocks of any type.
\<close>

definition sector0_age :: "mem \<Rightarrow> flog_block_age_t" where
  "sector0_age m = ld32 m 0"

definition file_sector0_file_id :: "mem \<Rightarrow> flog_file_id_t" where
  "file_sector0_file_id m = ld32 m 4"

definition sizeof_file_sector0_header :: nat where
  "sizeof_file_sector0_header = 8"

definition tail_next_block :: "mem \<Rightarrow> flog_block_idx_t" where
  "tail_next_block m = ld16 m 0"

definition tail_next_age :: "mem \<Rightarrow> flog_block_age_t" where
  "tail_next_age m = ld32 m 4"

definition tail_timestamp :: "mem \<Rightarrow> flog_timestamp_t" where
  "tail_timestamp m = ld32 m 8"

definition tail_bytes_in_block :: "mem \<Rightarrow> 32 word" where
  "tail_bytes_in_block m = ld32 m 12"

definition sizeof_file_tail_sector_header :: nat where
  "sizeof_file_tail_sector_header = 16"

definition invalidation_timestamp :: "mem \<Rightarrow> flog_timestamp_t" where
  "invalidation_timestamp m = ld32 m 0"

definition file_invalidation_next_age :: "mem \<Rightarrow> flog_block_age_t" where
  "file_invalidation_next_age m = ld32 m 4"

definition inode_invalidation_last_block :: "mem \<Rightarrow> flog_block_idx_t" where
  "inode_invalidation_last_block m = ld16 m 4"

definition alloc_file_id :: "mem \<Rightarrow> flog_file_id_t" where
  "alloc_file_id m = ld32 m 0"

definition alloc_first_block :: "mem \<Rightarrow> flog_block_idx_t" where
  "alloc_first_block m = ld16 m 4"

definition alloc_first_block_age :: "mem \<Rightarrow> flog_block_age_t" where
  "alloc_first_block_age m = ld32 m 8"

definition alloc_timestamp :: "mem \<Rightarrow> flog_timestamp_t" where
  "alloc_timestamp m = ld32 m 12"

definition sizeof_inode_file_allocation_header :: nat where
  "sizeof_inode_file_allocation_header = 16"

text \<open>The filename array of an allocation record, as the bytes that follow its header.\<close>

definition alloc_filename :: "conf \<Rightarrow> mem \<Rightarrow> byte list" where
  "alloc_filename cf m =
     map (\<lambda>i. m (sizeof_inode_file_allocation_header + i)) [0..<FLOG_MAX_FNAME_LEN cf]"

definition spare_type_id :: "mem \<Rightarrow> byte" where
  "spare_type_id m = m 0"

definition spare_nbytes :: "mem \<Rightarrow> flog_sector_nbytes_t" where
  "spare_nbytes m = ld16 m 2"

definition spare_inode_index :: "mem \<Rightarrow> 16 word" where
  "spare_inode_index m = ld16 m 2"

text \<open>
  Modelled from the spec: the block type codes of \<^verbatim>\<open>flogfs_private.h\<close> are missing.
  UNALLOCATED is the all-ones value of erased flash (section 3.1); the other two codes are
  any two distinct programmed values.
\<close>

definition FLOG_BLOCK_TYPE_UNALLOCATED :: byte where
  "FLOG_BLOCK_TYPE_UNALLOCATED = 0xFF"

definition FLOG_BLOCK_TYPE_INODE :: byte where
  "FLOG_BLOCK_TYPE_INODE = 1"

definition FLOG_BLOCK_TYPE_FILE :: byte where
  "FLOG_BLOCK_TYPE_FILE = 2"

section \<open>The flash driver\<close>

datatype flog_result_t = FLOG_FAILURE | FLOG_SUCCESS

text \<open>
  Modelled from the spec: the flash driver is an external collaborator whose code is not
  in the repository; this is its contract of section 6.1.  The array holds data and spare
  bytes per block and sector; \<open>fl_cdata\<close> and \<open>fl_cspare\<close> are the device cache that holds
  one page, \<open>fl_block\<close> and \<open>fl_page\<close> say which.  Opening a page reads it into the cache,
  reads copy from the cache, writes stage into the cache, commit programs the cache into
  the array, and programming and staging only clear bits.  Erasing sets a block of the
  array to all-ones.
\<close>

record flash_t =
  fl_data :: "nat \<Rightarrow> nat \<Rightarrow> mem"
  fl_spare :: "nat \<Rightarrow> nat \<Rightarrow> mem"
  fl_bad :: "nat \<Rightarrow> bool"
  fl_open_ok :: "nat \<Rightarrow> nat \<Rightarrow> bool"
  fl_block :: nat
  fl_page :: nat
  fl_cdata :: "nat \<Rightarrow> mem"
  fl_cspare :: "nat \<Rightarrow> mem"

definition flash_open_page :: "conf \<Rightarrow> nat \<Rightarrow> nat \<Rightarrow> flash_t \<Rightarrow> flog_result_t \<times> flash_t" where
  "flash_open_page cf block page fl =
     (if fl_open_ok fl block page then
        (FLOG_SUCCESS,
         fl \<lparr> fl_block := block, fl_page := page,
              fl_cdata := (\<lambda>s. fl_data fl block (page * FS_SECTORS_PER_PAGE cf + s)),
              fl_cspare := (\<lambda>s. fl_spare fl block (page * FS_SECTORS_PER_PAGE cf + s)) \<rparr>)
      else (FLOG_FAILURE, fl))"

definition flash_block_is_bad :: "flash_t \<Rightarrow> flog_result_t" where
  "flash_block_is_bad fl = (if fl_bad fl (fl_block fl) then FLOG_SUCCESS else FLOG_FAILURE)"

text \<open>
  \<^verbatim>\<open>flash_read_sector(dst, sector, offset, n)\<close>: the bytes of the cached sector from
  \<open>offset\<close> on; the caller takes the first \<open>n\<close> of them.
\<close>

definition flash_read_sector :: "conf \<Rightarrow> nat \<Rightarrow> nat \<Rightarrow> flash_t \<Rightarrow> mem" where
  "flash_read_sector cf sector offset fl =
     (\<lambda>i. fl_cdata fl (sector mod FS_SECTORS_PER_PAGE cf) (offset + i))"

definition flash_read_spare :: "conf \<Rightarrow> nat \<Rightarrow> flash_t \<Rightarrow> mem" where
  "flash_read_spare cf sector fl = fl_cspare fl (sector mod FS_SECTORS_PER_PAGE cf)"

definition flash_write_sector :: "conf \<Rightarrow> mem \<Rightarrow> nat \<Rightarrow> nat \<Rightarrow> nat \<Rightarrow> flash_t \<Rightarrow> flash_t" where
  "flash_write_sector cf src sector offset n fl =
     fl \<lparr> fl_cdata := (\<lambda>s i.
            if s = sector mod FS_SECTORS_PER_PAGE cf \<and> offset \<le> i \<and> i < offset + n
            then fl_cdata fl s i AND src (i - offset) else fl_cdata fl s i) \<rparr>"

definition sizeof_spare :: nat where
  "sizeof_spare = 4"

definition flash_write_spare :: "conf \<Rightarrow> mem \<Rightarrow> nat \<Rightarrow> flash_t \<Rightarrow> flash_t" where
  "flash_write_spare cf src sector fl =
     fl \<lparr> fl_cspare := (\<lambda>s i.
            if s = sector mod FS_SECTORS_PER_PAGE cf \<and> i < sizeof_spare
            then fl_cspare fl s i AND src i else fl_cspare fl s i) \<rparr>"

definition flash_commit :: "conf \<Rightarrow> flash_t \<Rightarrow> flash_t" where
  "flash_commit cf fl =
     fl \<lparr> fl_data := (\<lambda>b s.
            if b = fl_block fl \<and> s div FS_SECTORS_PER_PAGE cf = fl_page fl
            then (\<lambda>i. fl_data fl b s i AND fl_cdata fl (s mod FS_SECTORS_PER_PAGE cf) i)
            else fl_data fl b s),
          fl_spare := (\<lambda>b s.
            if b = fl_block fl \<and> s div FS_SECTORS_PER_PAGE cf = fl_page fl
            then (\<lambda>i. fl_spare fl b s i AND fl_cspare fl (s mod FS_SECTORS_PER_PAGE cf) i)
            else fl_spare fl b s) \<rparr>"

definition flash_erase_block :: "nat \<Rightarrow> flash_t \<Rightarrow> flog_result_t \<times> flash_t" where
  "flash_erase_block block fl =
     (FLOG_SUCCESS,
      fl \<lparr> fl_data := (\<lambda>b. if b = block then (\<lambda>s i. 0xFF) else fl_data fl b),
           fl_spare := (\<lambda>b. if b = block then (\<lambda>s i. 0xFF) else fl_spare fl b) \<rparr>)"

section \<open>The file system state\<close>

datatype flog_state_t = FLOG_STATE_RESET | FLOG_STATE_MOUNTED

text \<open>
  File descriptors belong to the caller and are linked into the open-file lists through
  their \<^verbatim>\<open>next\<close> pointers.  A pointer is an address, 0 is the null pointer, and the
  descriptors live in two stores indexed by address.  The fields are those of section 3.5
  of the specification (the declarations are in the missing \<^verbatim>\<open>flogfs.h\<close>).
\<close>

type_synonym addr = nat

record flog_read_file_t =
  rf_read_head :: "32 word"
  rf_block :: flog_block_idx_t
  rf_sector :: "16 word"
  rf_offset :: "16 word"
  rf_sector_remaining_bytes :: "16 word"
  rf_id :: flog_file_id_t
  rf_next :: addr

record flog_write_file_t =
  wf_write_head :: "32 word"
  wf_block :: flog_block_idx_t
  wf_block_age :: flog_block_age_t
  wf_sector :: "16 word"
  wf_offset :: "16 word"
  wf_sector_remaining_bytes :: "16 word"
  wf_bytes_in_block :: "32 word"
  wf_id :: flog_file_id_t
  wf_sector_buffer :: mem
  wf_next :: addr

text \<open>
  The single static instance \<^verbatim>\<open>flogfs\<close> of \<^verbatim>\<open>flogfs_t\<close> (the two locks left out), followed
  by what lies outside it: the flash device and the two descriptor stores.
\<close>

record world =
  read_head :: addr
  write_head :: addr
  max_file_id :: "32 word"
  fs_state :: flog_state_t
  mean_block_age :: "32 word"
  prealloc :: flog_prealloc_list_t
  fs_t :: flog_timestamp_t
  inode0 :: flog_block_idx_t
  num_files :: flog_file_id_t
  num_free_blocks :: flog_block_idx_t
  current_open_block :: flog_block_idx_t
  current_open_page :: "16 word"
  page_open :: bool
  page_open_result :: flog_result_t
  dirty_block_block :: flog_block_idx_t
  dirty_block_file :: addr
  allocate_head :: flog_block_idx_t
  flash :: flash_t
  rfiles :: "addr \<Rightarrow> flog_read_file_t"
  wfiles :: "addr \<Rightarrow> flog_write_file_t"

section \<open>The flash cache shim\<close>

definition flog_open_page ::
  "conf \<Rightarrow> 16 word \<Rightarrow> 16 word \<Rightarrow> world \<Rightarrow> flog_result_t \<times> world" where
  "flog_open_page cf block page w =
     (if page_open w \<and> current_open_block w = block \<and> current_open_page w = page
      then (page_open_result w, w)
      else
        (let (r, fl) = flash_open_page cf (unat block) (unat page) (flash w)
         in (r, w \<lparr> flash := fl, page_open_result := r, page_open := True,
                    current_open_block := block, current_open_page := page \<rparr>)))"

definition flog_open_sector ::
  "conf \<Rightarrow> 16 word \<Rightarrow> 16 word \<Rightarrow> world \<Rightarrow> flog_result_t \<times> world" where
  "flog_open_sector cf block sector w =
     flog_open_page cf block (of_nat (unat sector div FS_SECTORS_PER_PAGE cf)) w"

definition flog_close_sector :: "world \<Rightarrow> world" where
  "flog_close_sector w = w \<lparr> page_open := False \<rparr>"

section \<open>The block allocator\<close>

text \<open>
  \<^verbatim>\<open>flog_allocate_block_iterate\<close>.  The local \<^verbatim>\<open>block\<close> gets its index set to the invalid
  sentinel and its age is assigned only when the block is free; \<open>u\<close> is the
  indeterminate age otherwise.
\<close>

definition flog_allocate_block_iterate ::
  "conf \<Rightarrow> flog_block_age_t \<Rightarrow> world \<Rightarrow> flog_block_alloc_t \<times> world" where
  "flog_allocate_block_iterate cf u w =
     (let w1 = snd (flog_open_sector cf (allocate_head w) 0 w);
          sector0 = flash_read_sector cf 0 0 (flash w1);
          (block, w3) =
            (if sector0_age sector0 = FLOG_BLOCK_AGE_INVALID then
               (\<lparr> ba_block = allocate_head w1, ba_age = 0 \<rparr>, w1)
             else
               (let w2 = snd (flog_open_sector cf (allocate_head w1)
                                (of_nat (FLOG_FILE_INVALIDATION_SECTOR cf)) w1);
                    inval = flash_read_sector cf (FLOG_FILE_INVALIDATION_SECTOR cf) 0 (flash w2)
                in if invalidation_timestamp inval \<noteq> FLOG_TIMESTAMP_INVALID then
                     (\<lparr> ba_block = allocate_head w2, ba_age = sector0_age sector0 \<rparr>, w2)
                   else (\<lparr> ba_block = FLOG_BLOCK_IDX_INVALID, ba_age = u \<rparr>, w2)))
      in (block,
          w3 \<lparr> allocate_head :=
                 of_nat ((unat (allocate_head w3) + 1) mod FS_NUM_BLOCKS cf) \<rparr>))"

text \<open>
  The search loop of \<^verbatim>\<open>flog_allocate_block\<close>, \<^verbatim>\<open>for(i = FS_NUM_BLOCKS; i; i--)\<close>, with \<open>i\<close>
  iterations left; \<open>block\<close> is the value of the local before the iteration.
\<close>

fun allocate_search ::
  "conf \<Rightarrow> flog_block_age_t \<Rightarrow> flog_block_alloc_t \<Rightarrow> world \<Rightarrow> nat
     \<Rightarrow> flog_block_alloc_t \<times> world" where
  "allocate_search cf u block w 0 = (block, w)"
| "allocate_search cf u block w (Suc i) =
     (let (block', w') = flog_allocate_block_iterate cf u w
      in if ba_block block' \<noteq> FLOG_BLOCK_IDX_INVALID then (block', w')
         else allocate_search cf u block' w' i)"

definition flog_allocate_block ::
  "conf \<Rightarrow> flog_block_age_t \<Rightarrow> world \<Rightarrow> flog_block_alloc_t \<times> world" where
  "flog_allocate_block cf u w =
     (if num_free_blocks w = 0 then
        (\<lparr> ba_block = FLOG_BLOCK_IDX_INVALID, ba_age = u \<rparr>, w)
      else
        (let (block, p) = flog_prealloc_pop u (prealloc w);
             w1 = w \<lparr> prealloc := p \<rparr>
         in if ba_block block \<noteq> FLOG_BLOCK_IDX_INVALID then (block, w1)
            else allocate_search cf u block w1
                   (unat (of_nat (FS_NUM_BLOCKS cf) :: flog_block_idx_t))))"

text \<open>\<^verbatim>\<open>flog_prealloc_iterate\<close>; nothing in \<^verbatim>\<open>flogfs.c\<close> calls it.\<close>

definition flog_prealloc_iterate :: "conf \<Rightarrow> flog_block_age_t \<Rightarrow> world \<Rightarrow> world" where
  "flog_prealloc_iterate cf u w =
     (let (block, w1) = flog_allocate_block_iterate cf u w
      in w1 \<lparr> prealloc := flog_prealloc_push cf (ba_block block) (ba_age block) (prealloc w1) \<rparr>)"

text \<open>
  What the allocator reads of a block, as a function of the flash array alone: a block is
  free with age 0 when the age in its sector 0 is all-ones, free with that age when its
  invalidation sector carries a timestamp, and in use otherwise.
\<close>

definition block_candidate :: "conf \<Rightarrow> flash_t \<Rightarrow> nat \<Rightarrow> flog_block_age_t option" where
  "block_candidate cf fl b =
     (if sector0_age (fl_data fl b 0) = FLOG_BLOCK_AGE_INVALID then Some 0
      else if invalidation_timestamp (fl_data fl b (FLOG_FILE_INVALIDATION_SECTOR cf))
                \<noteq> FLOG_TIMESTAMP_INVALID
      then Some (sector0_age (fl_data fl b 0))
      else None)"

text \<open>
  The shim is coherent with the device when the page it believes open is the page in the
  device cache and the cache holds what the array holds.  \<open>flash_ready\<close> adds that every
  page of the device can be opened.
\<close>

definition cache_coherent :: "conf \<Rightarrow> world \<Rightarrow> bool" where
  "cache_coherent cf w \<longleftrightarrow>
     (page_open w \<longrightarrow>
        fl_block (flash w) = unat (current_open_block w) \<and>
        fl_page (flash w) = unat (current_open_page w) \<and>
        fl_cdata (flash w) =
          (\<lambda>s. fl_data (flash w) (fl_block (flash w))
                  (fl_page (flash w) * FS_SECTORS_PER_PAGE cf + s)) \<and>
        fl_cspare (flash w) =
          (\<lambda>s. fl_spare (flash w) (fl_block (flash w))
                  (fl_page (flash w) * FS_SECTORS_PER_PAGE cf + s)))"

definition flash_ready :: "conf \<Rightarrow> world \<Rightarrow> bool" where
  "flash_ready cf w \<longleftrightarrow> cache_coherent cf w \<and> (\<forall>b p. fl_open_ok (flash w) b p)"

text \<open>The sanity conditions on a configuration that the code takes for granted.\<close>

definition conf_ok :: "conf \<Rightarrow> bool" where
  "conf_ok cf \<longleftrightarrow>
     0 < FS_NUM_BLOCKS cf \<and> FS_NUM_BLOCKS cf < 65535 \<and>
     0 < FS_SECTORS_PER_PAGE cf \<and> 0 < FS_PAGES_PER_BLOCK cf \<and>
     FS_PAGES_PER_BLOCK cf * FS_SECTORS_PER_PAGE cf < 65536 \<and>
     FLOG_FILE_TAIL_SECTOR cf < FS_SECTORS_PER_PAGE cf \<and>
     FLOG_FILE_INVALIDATION_SECTOR cf < FS_SECTORS_PER_PAGE cf \<and>
     FLOG_INODE_TAIL_SECTOR cf < FS_SECTORS_PER_PAGE cf \<and>
     FLOG_INODE_INVALIDATION_SECTOR cf < FS_SECTORS_PER_PAGE cf"

text \<open>
  Two states agree on the file system when they differ at most in the cache bookkeeping of
  the shim and in the page held by the device cache.
\<close>

definition same_fs :: "world \<Rightarrow> world \<Rightarrow> bool" where
  "same_fs w w' \<longleftrightarrow>
     w' \<lparr> flash := flash w, page_open_result := page_open_result w, page_open := page_open w,
          current_open_block := current_open_block w,
          current_open_page := current_open_page w \<rparr> = w \<and>
     fl_data (flash w') = fl_data (flash w) \<and> fl_spare (flash w') = fl_spare (flash w) \<and>
     fl_bad (flash w') = fl_bad (flash w) \<and> fl_open_ok (flash w') = fl_open_ok (flash w)"

section \<open>Concrete devices and states\<close>

text \<open>
  An erased device, a device on which block 0 carries the header of the first inode block
  (age 0, timestamp 0, type INODE, index 0) while every other block is erased, and the
  state of the zero-initialised static instance after \<^verbatim>\<open>flogfs_init\<close>.
\<close>

definition flash_erased :: flash_t where
  "flash_erased = \<lparr> fl_data = (\<lambda>b s i. 0xFF), fl_spare = (\<lambda>b s i. 0xFF),
     fl_bad = (\<lambda>b. False), fl_open_ok = (\<lambda>b p. True), fl_block = 0, fl_page = 0,
     fl_cdata = (\<lambda>s i. 0xFF), fl_cspare = (\<lambda>s i. 0xFF) \<rparr>"

definition flash_formatted :: flash_t where
  "flash_formatted = flash_erased
     \<lparr> fl_data := (\<lambda>b s i. if b = 0 \<and> s = 0 \<and> i < 8 then 0 else 0xFF),
       fl_spare := (\<lambda>b s i. if b = 0 \<and> s = 0 then (if i = 0 then FLOG_BLOCK_TYPE_INODE else 0)
                              else 0xFF) \<rparr>"

definition rfile0 :: flog_read_file_t where
  "rfile0 = \<lparr> rf_read_head = 0, rf_block = 0, rf_sector = 0, rf_offset = 0,
     rf_sector_remaining_bytes = 0, rf_id = 0, rf_next = 0 \<rparr>"

definition wfile0 :: flog_write_file_t where
  "wfile0 = \<lparr> wf_write_head = 0, wf_block = 0, wf_block_age = 0, wf_sector = 0, wf_offset = 0,
     wf_sector_remaining_bytes = 0, wf_bytes_in_block = 0, wf_id = 0,
     wf_sector_buffer = (\<lambda>i. 0), wf_next = 0 \<rparr>"

definition world_reset :: "conf \<Rightarrow> flash_t \<Rightarrow> world" where
  "world_reset cf fl = \<lparr> read_head = 0, write_head = 0, max_file_id = 0,
     fs_state = FLOG_STATE_RESET, mean_block_age = 0,
     prealloc = \<lparr> pa_blocks = replicate (FS_PREALLOCATE_SIZE cf) \<lparr> ba_block = 0, ba_age = 0 \<rparr>,
                  pa_n = 0, pa_age_sum = 0 \<rparr>,
     fs_t = 0, inode0 = 0, num_files = 0, num_free_blocks = 0,
     current_open_block = 0, current_open_page = 0, page_open = False,
     page_open_result = FLOG_FAILURE,
     dirty_block_block = FLOG_BLOCK_IDX_INVALID, dirty_block_file = 0, allocate_head = 0,
     flash = fl, rfiles = (\<lambda>a. rfile0), wfiles = (\<lambda>a. wfile0) \<rparr>"

definition world_formatted :: world where
  "world_formatted = (world_reset conf0 flash_formatted) \<lparr> num_free_blocks := 15 \<rparr>"

definition world_prealloc :: world where
  "world_prealloc = world_formatted
     \<lparr> prealloc := \<lparr> pa_blocks = [\<lparr> ba_block = 5, ba_age = 2 \<rparr>, \<lparr> ba_block = 6, ba_age = 7 \<rparr>,
                                   \<lparr> ba_block = 0, ba_age = 0 \<rparr>, \<lparr> ba_block = 0, ba_age = 0 \<rparr>],
                    pa_n = 2, pa_age_sum = 9 \<rparr> \<rparr>"

text \<open>
  A state whose preallocation list holds one entry, and that entry holds the invalid
  sentinel: \<^verbatim>\<open>flog_prealloc_iterate\<close> pushes what the scan step returns without looking at it,
  and the scan step returns the sentinel for a block in use.
\<close>

definition world_sentinel :: world where
  "world_sentinel = world_formatted
     \<lparr> prealloc := \<lparr> pa_blocks = [\<lparr> ba_block = FLOG_BLOCK_IDX_INVALID, ba_age = 9 \<rparr>,
                                   \<lparr> ba_block = 0, ba_age = 0 \<rparr>, \<lparr> ba_block = 0, ba_age = 0 \<rparr>,
                                   \<lparr> ba_block = 0, ba_age = 0 \<rparr>],
                    pa_n = 1, pa_age_sum = 9 \<rparr> \<rparr>"

section \<open>Writing files\<close>

text \<open>
  Dereferencing a null pointer and writing behind the end of a buffer are faults of the
  program; the model returns them as values.
\<close>

datatype fault = NullDereference | BufferOverflow

definition flog_increment_sector :: "conf \<Rightarrow> 16 word \<Rightarrow> 16 word" where
  "flog_increment_sector cf sector =
     (if int (unat sector) = int (FLOG_FILE_TAIL_SECTOR cf) - 1
        then of_nat (FS_SECTORS_PER_PAGE cf)
      else if int (unat sector) = int (FS_PAGES_PER_BLOCK cf * FS_SECTORS_PER_PAGE cf) - 1
        then of_nat (FLOG_FILE_TAIL_SECTOR cf)
      else sector + 1)"

definition write_file_update ::
  "addr \<Rightarrow> (flog_write_file_t \<Rightarrow> flog_write_file_t) \<Rightarrow> world \<Rightarrow> world" where
  "write_file_update file g w = w \<lparr> wfiles := (wfiles w)(file := g (wfiles w file)) \<rparr>"

text \<open>
  The bytes that the driver reads through the pointer \<^verbatim>\<open>data\<close> when it is asked to write
  \<open>n\<close> of them: the null pointer is only harmless when \<open>n\<close> is 0.
\<close>

definition read_user :: "mem option \<Rightarrow> nat \<Rightarrow> mem option" where
  "read_user data n =
     (case data of Some d \<Rightarrow> Some d | None \<Rightarrow> if n = 0 then Some (\<lambda>i. 0xFF) else None)"

text \<open>
  The second branch of \<^verbatim>\<open>flog_commit_file_sector\<close>: the sector is not the tail sector.
  The local spare struct has its \<^verbatim>\<open>nothing\<close> byte never assigned; \<open>us\<close> is the
  indeterminate content of that struct.
\<close>

definition commit_other_sector ::
  "conf \<Rightarrow> mem \<Rightarrow> addr \<Rightarrow> mem option \<Rightarrow> 16 word \<Rightarrow> world \<Rightarrow> fault + flog_result_t \<times> world" where
  "commit_other_sector cf us file data n w =
     (let f = wfiles w file;
          w1 = (if dirty_block_file w = file
                then w \<lparr> dirty_block_block := FLOG_BLOCK_IDX_INVALID \<rparr> else w);
          spare = st16 (us(0 := FLOG_BLOCK_TYPE_FILE)) 2 (wf_offset f + n);
          buf = (if wf_sector f = 0
                 then st32 (st32 (wf_sector_buffer f) 4 (wf_id f)) 0 (wf_block_age f)
                 else wf_sector_buffer f);
          w2 = snd (flog_open_sector cf (wf_block f) (wf_sector f) w1);
          fl1 = (if wf_offset f \<noteq> 0
                 then flash_write_sector cf buf (unat (wf_sector f)) 0 (unat (wf_offset f)) (flash w2)
                 else flash w2)
      in case read_user data (unat n) of
           None \<Rightarrow> Inl NullDereference
         | Some d \<Rightarrow>
            (let fl2 = flash_write_sector cf d (unat (wf_sector f)) (unat (wf_offset f)) (unat n) fl1;
                 fl3 = flash_write_spare cf spare (unat (wf_sector f)) fl2;
                 fl4 = flash_commit cf fl3;
                 sector' = flog_increment_sector cf (wf_sector f);
                 offset' = (if unat sector' = FLOG_FILE_TAIL_SECTOR cf
                            then of_nat sizeof_file_tail_sector_header else 0)
             in Inr (FLOG_SUCCESS,
                  write_file_update file (\<lambda>_. f \<lparr> wf_sector_buffer := buf, wf_sector := sector',
                       wf_offset := offset',
                       wf_bytes_in_block := wf_bytes_in_block f + ucast n,
                       wf_sector_remaining_bytes := of_nat (FS_SECTOR_SIZE cf) - offset',
                       wf_write_head := wf_write_head f + ucast n \<rparr>)
                    (w2 \<lparr> flash := fl4 \<rparr>))))"

text \<open>
  The first branch of \<^verbatim>\<open>flog_commit_file_sector\<close>, from the call of
  \<^verbatim>\<open>flog_allocate_block\<close> on: the sector is the tail sector and the dirty block has been
  flushed.  Neither \<^verbatim>\<open>type_id\<close> nor \<^verbatim>\<open>nothing\<close> of the local spare struct is assigned here.
\<close>

definition commit_tail_sector ::
  "conf \<Rightarrow> flog_block_age_t \<Rightarrow> mem \<Rightarrow> addr \<Rightarrow> mem option \<Rightarrow> 16 word \<Rightarrow> world
     \<Rightarrow> fault + flog_result_t \<times> world" where
  "commit_tail_sector cf u us file data n w =
     (let (next_block, w2) = flog_allocate_block cf u w
      in if ba_block next_block = FLOG_BLOCK_IDX_INVALID then Inr (FLOG_FAILURE, w2)
         else
          (let w3 = w2 \<lparr> dirty_block_block := ba_block next_block, dirty_block_file := file,
                         fs_t := fs_t w2 + 1 \<rparr>;
               f = wfiles w3 file;
               payload = (of_nat (FS_SECTOR_SIZE cf) - of_nat sizeof_file_tail_sector_header
                            :: 16 word);
               bytes_in_block = wf_bytes_in_block f + ucast payload;
               buf = st32 (st32 (st16 (st32 (wf_sector_buffer f) 4 (ba_age next_block + 1))
                        0 (ba_block next_block)) 8 (fs_t w3)) 12 bytes_in_block;
               spare = st16 us 2 payload;
               tail = FLOG_FILE_TAIL_SECTOR cf;
               rest = unat (of_nat (FS_SECTOR_SIZE cf) - wf_offset f :: 16 word);
               w4 = snd (flog_open_sector cf (wf_block f) (of_nat tail) w3);
               fl1 = flash_write_sector cf buf tail 0 (unat (wf_offset f)) (flash w4)
           in case read_user data rest of
                None \<Rightarrow> Inl NullDereference
              | Some d \<Rightarrow>
                 (let fl2 = flash_write_sector cf d tail (unat (wf_offset f)) rest fl1;
                      fl3 = flash_write_spare cf spare tail fl2;
                      fl4 = flash_commit cf fl3
                  in Inr (FLOG_SUCCESS,
                       write_file_update file (\<lambda>_. f \<lparr> wf_sector_buffer := buf,
                            wf_block := ba_block next_block, wf_block_age := ba_age next_block,
                            wf_sector := 0,
                            wf_sector_remaining_bytes :=
                              of_nat (FS_SECTOR_SIZE cf) - of_nat sizeof_file_sector0_header,
                            wf_bytes_in_block := 0,
                            wf_offset := of_nat sizeof_file_sector0_header,
                            wf_write_head := wf_write_head f + ucast n \<rparr>)
                         (w4 \<lparr> flash := fl4 \<rparr>)))))"

text \<open>
  \<^verbatim>\<open>flog_commit_file_sector\<close>.  In the tail branch it calls \<^verbatim>\<open>flog_flush_dirty_block\<close>, which
  calls \<^verbatim>\<open>flog_flush_write\<close> on the file of the dirty block, which is this function again;
  the recursion need not end, so the function is partial.
\<close>

partial_function (option) flog_commit_file_sector ::
  "conf \<Rightarrow> flog_block_age_t \<Rightarrow> mem \<Rightarrow> addr \<Rightarrow> mem option \<Rightarrow> 16 word \<Rightarrow> world
     \<Rightarrow> (fault + flog_result_t \<times> world) option" where
  "flog_commit_file_sector cf u us file data n w =
     (if file = 0 then Some (Inl NullDereference)
      else if unat (wf_sector (wfiles w file)) = FLOG_FILE_TAIL_SECTOR cf then
        Option.bind
          (if dirty_block_block w \<noteq> FLOG_BLOCK_IDX_INVALID then
             Option.bind (flog_commit_file_sector cf u us (dirty_block_file w) None 0 w)
               (\<lambda>r. case r of
                      Inl e \<Rightarrow> Some (Inl e)
                    | Inr (res, w') \<Rightarrow>
                        Some (Inr (w' \<lparr> dirty_block_block := FLOG_BLOCK_IDX_INVALID \<rparr>)))
           else Some (Inr w))
          (\<lambda>r. case r of
             Inl e \<Rightarrow> Some (Inl e)
           | Inr w1 \<Rightarrow> Some (commit_tail_sector cf u us file data n w1))
      else Some (commit_other_sector cf us file data n w))"

definition flog_flush_write ::
  "conf \<Rightarrow> flog_block_age_t \<Rightarrow> mem \<Rightarrow> addr \<Rightarrow> world \<Rightarrow> (fault + flog_result_t \<times> world) option" where
  "flog_flush_write cf u us file w = flog_commit_file_sector cf u us file None 0 w"

definition flog_flush_dirty_block ::
  "conf \<Rightarrow> flog_block_age_t \<Rightarrow> mem \<Rightarrow> world \<Rightarrow> (fault + world) option" where
  "flog_flush_dirty_block cf u us w =
     (if dirty_block_block w \<noteq> FLOG_BLOCK_IDX_INVALID then
        Option.bind (flog_flush_write cf u us (dirty_block_file w) w)
          (\<lambda>r. case r of
                 Inl e \<Rightarrow> Some (Inl e)
               | Inr (res, w') \<Rightarrow>
                   Some (Inr (w' \<lparr> dirty_block_block := FLOG_BLOCK_IDX_INVALID \<rparr>)))
      else Some (Inr w))"

text \<open>
  The loop of \<^verbatim>\<open>flogfs_write\<close>.  After a commit the code advances \<^verbatim>\<open>src\<close>, \<^verbatim>\<open>nbytes\<close> and
  \<^verbatim>\<open>count\<close> by \<^verbatim>\<open>file->sector_remaining_bytes\<close>, read again from the descriptor that the
  commit has just updated.
\<close>

partial_function (option) flogfs_write_loop ::
  "conf \<Rightarrow> flog_block_age_t \<Rightarrow> mem \<Rightarrow> addr \<Rightarrow> mem \<Rightarrow> 32 word \<Rightarrow> 32 word \<Rightarrow> world
     \<Rightarrow> (fault + 32 word \<times> world) option" where
  "flogfs_write_loop cf u us file src nbytes count w =
     (if nbytes = 0 then Some (Inr (count, w))
      else if ucast (wf_sector_remaining_bytes (wfiles w file)) \<le> nbytes then
        Option.bind
          (flog_commit_file_sector cf u us file (Some src)
             (wf_sector_remaining_bytes (wfiles w file)) w)
          (\<lambda>r. case r of
             Inl e \<Rightarrow> Some (Inl e)
           | Inr (res, w') \<Rightarrow>
               if res = FLOG_FAILURE then Some (Inr (count, w'))
               else
                 flogfs_write_loop cf u us file
                   (\<lambda>i. src (i + unat (wf_sector_remaining_bytes (wfiles w' file))))
                   (nbytes - ucast (wf_sector_remaining_bytes (wfiles w' file)))
                   (count + ucast (wf_sector_remaining_bytes (wfiles w' file))) w')
      else
        Some (Inr (count + nbytes,
          write_file_update file
            (\<lambda>f. f \<lparr> wf_sector_buffer := (\<lambda>i.
                        if unat (wf_offset f) \<le> i \<and> i < unat (wf_offset f) + unat nbytes
                        then src (i - unat (wf_offset f)) else wf_sector_buffer f i),
                     wf_sector_remaining_bytes := wf_sector_remaining_bytes f - ucast nbytes,
                     wf_offset := wf_offset f + ucast nbytes,
                     wf_bytes_in_block := wf_bytes_in_block f + nbytes,
                     wf_write_head := wf_write_head f + nbytes \<rparr>) w)))"

definition flogfs_write ::
  "conf \<Rightarrow> flog_block_age_t \<Rightarrow> mem \<Rightarrow> addr \<Rightarrow> mem \<Rightarrow> 32 word \<Rightarrow> world
     \<Rightarrow> (fault + 32 word \<times> world) option" where
  "flogfs_write cf u us file src nbytes w =
     (if file = 0 \<and> nbytes \<noteq> 0 then Some (Inl NullDereference)
      else flogfs_write_loop cf u us file src nbytes 0 w)"

section \<open>The lists of open files\<close>

text \<open>
  The loop of \<^verbatim>\<open>flogfs_close_read\<close>: \<^verbatim>\<open>while(iter->next)\<close>, leaving through \<^verbatim>\<open>break\<close> once
  the descriptor is unlinked.  It runs forever on a cyclic list that does not hold the
  descriptor, and it dereferences \<^verbatim>\<open>iter\<close> at once, also when the list is empty.
\<close>

partial_function (option) close_read_loop :: "addr \<Rightarrow> addr \<Rightarrow> world \<Rightarrow> (fault + world) option" where
  "close_read_loop file iter w =
     (if iter = 0 then Some (Inl NullDereference)
      else if rf_next (rfiles w iter) \<noteq> 0 then
        (if rf_next (rfiles w iter) = file then
           Some (Inr (w \<lparr> rfiles := (rfiles w)
                    (iter := (rfiles w iter) \<lparr> rf_next := rf_next (rfiles w file) \<rparr>) \<rparr>))
         else close_read_loop file (rf_next (rfiles w iter)) w)
      else Some (Inr w))"

definition flogfs_close_read :: "addr \<Rightarrow> world \<Rightarrow> (fault + flog_result_t \<times> world) option" where
  "flogfs_close_read file w =
     (if read_head w = file then Some (Inr (FLOG_SUCCESS, w \<lparr> read_head := 0 \<rparr>))
      else
        Option.bind (close_read_loop file (read_head w) w)
          (\<lambda>r. case r of
                 Inl e \<Rightarrow> Some (Inl e)
               | Inr w' \<Rightarrow> Some (Inr (FLOG_FAILURE, w'))))"

partial_function (option) close_write_loop :: "addr \<Rightarrow> addr \<Rightarrow> world \<Rightarrow> (fault + world) option" where
  "close_write_loop file iter w =
     (if iter = 0 then Some (Inl NullDereference)
      else if wf_next (wfiles w iter) \<noteq> 0 then
        (if wf_next (wfiles w iter) = file then
           Some (Inr (w \<lparr> wfiles := (wfiles w)
                    (iter := (wfiles w iter) \<lparr> wf_next := wf_next (wfiles w file) \<rparr>) \<rparr>))
         else close_write_loop file (wf_next (wfiles w iter)) w)
      else Some (Inr w))"

definition flogfs_close_write ::
  "conf \<Rightarrow> flog_block_age_t \<Rightarrow> mem \<Rightarrow> addr \<Rightarrow> world \<Rightarrow> (fault + flog_result_t \<times> world) option" where
  "flogfs_close_write cf u us file w =
     (if write_head w = file then flog_flush_write cf u us file (w \<lparr> write_head := 0 \<rparr>)
      else
        Option.bind (close_write_loop file (write_head w) w)
          (\<lambda>r. case r of
                 Inl e \<Rightarrow> Some (Inl e)
               | Inr w' \<Rightarrow> Some (Inr (FLOG_FAILURE, w'))))"

text \<open>
  The open-file list as the sequence of descriptors reached from a head pointer through
  the \<^verbatim>\<open>next\<close> pointers, when that sequence ends with the null pointer within \<open>k\<close> steps.
\<close>

fun read_list :: "(addr \<Rightarrow> flog_read_file_t) \<Rightarrow> addr \<Rightarrow> nat \<Rightarrow> addr list option" where
  "read_list rs a 0 = (if a = 0 then Some [] else None)"
| "read_list rs a (Suc k) =
     (if a = 0 then Some []
      else map_option (\<lambda>xs. a # xs) (read_list rs (rf_next (rs a)) k))"

fun write_list :: "(addr \<Rightarrow> flog_write_file_t) \<Rightarrow> addr \<Rightarrow> nat \<Rightarrow> addr list option" where
  "write_list ws a 0 = (if a = 0 then Some [] else None)"
| "write_list ws a (Suc k) =
     (if a = 0 then Some []
      else map_option (\<lambda>xs. a # xs) (write_list ws (wf_next (ws a)) k))"

section \<open>The inode chain\<close>

text \<open>
  Modelled from the spec: \<^verbatim>\<open>FS_SECTORS_PER_BLOCK\<close> is a macro of the missing headers; a block
  has \<open>FS_PAGES_PER_BLOCK\<close> pages of \<open>FS_SECTORS_PER_PAGE\<close> sectors (section 2).
\<close>

definition FS_SECTORS_PER_BLOCK :: "conf \<Rightarrow> nat" where
  "FS_SECTORS_PER_BLOCK cf = FS_PAGES_PER_BLOCK cf * FS_SECTORS_PER_PAGE cf"

record flog_inode_iterator_t =
  it_block :: flog_block_idx_t
  it_next_block :: flog_block_idx_t
  it_inode_idx :: "16 word"
  it_inode_block_idx :: "16 word"
  it_sector :: "16 word"

definition flog_universal_get_next_block ::
  "conf \<Rightarrow> flog_block_idx_t \<Rightarrow> world \<Rightarrow> flog_block_idx_t \<times> world" where
  "flog_universal_get_next_block cf block w =
     (if block = FLOG_BLOCK_IDX_INVALID then (block, w)
      else
        (let w1 = snd (flog_open_sector cf block (of_nat (FLOG_FILE_TAIL_SECTOR cf)) w)
         in (tail_next_block (flash_read_sector cf (FLOG_FILE_TAIL_SECTOR cf) 0 (flash w1)),
             w1)))"

definition flog_inode_iterator_init ::
  "conf \<Rightarrow> flog_block_idx_t \<Rightarrow> world \<Rightarrow> flog_inode_iterator_t \<times> world" where
  "flog_inode_iterator_init cf inode0_idx w =
     (let w1 = snd (flog_open_sector cf inode0_idx (of_nat (FLOG_INODE_TAIL_SECTOR cf)) w);
          next_block =
            tail_next_block (flash_read_sector cf (FLOG_INODE_TAIL_SECTOR cf) 0 (flash w1));
          w2 = snd (flog_open_sector cf inode0_idx 0 w1);
          spare = flash_read_spare cf 0 (flash w2)
      in (\<lparr> it_block = inode0_idx, it_next_block = next_block, it_inode_idx = 0,
            it_inode_block_idx = spare_inode_index spare,
            it_sector = of_nat (FS_SECTORS_PER_PAGE cf) \<rparr>, w2))"

definition flog_inode_iterator_next ::
  "conf \<Rightarrow> flog_inode_iterator_t \<Rightarrow> world \<Rightarrow> flog_inode_iterator_t \<times> world" where
  "flog_inode_iterator_next cf iter w =
     (let it1 = iter \<lparr> it_sector := it_sector iter + 2, it_inode_idx := it_inode_idx iter + 1 \<rparr>
      in if FS_SECTORS_PER_BLOCK cf \<le> unat (it_sector it1) then
           (if it_next_block it1 \<noteq> FLOG_BLOCK_IDX_INVALID then
              (let (nb, w1) = flog_universal_get_next_block cf (it_next_block it1) w
               in (it1 \<lparr> it_block := it_next_block it1, it_next_block := nb,
                         it_sector := of_nat (FS_SECTORS_PER_PAGE cf) \<rparr>, w1))
            else (it1 \<lparr> it_sector := it_sector it1 - 2 - 1 \<rparr>, w))
         else (it1, w))"

text \<open>
  \<^verbatim>\<open>strncmp\<close> of the C library on two byte buffers, from index \<open>i\<close> on with \<open>n\<close>
  characters left to compare.
\<close>

fun strncmp_from :: "mem \<Rightarrow> mem \<Rightarrow> nat \<Rightarrow> nat \<Rightarrow> int" where
  "strncmp_from s1 s2 i 0 = 0"
| "strncmp_from s1 s2 i (Suc n) =
     (if s1 i \<noteq> s2 i then int (unat (s1 i)) - int (unat (s2 i))
      else if s1 i = 0 then 0
      else strncmp_from s1 s2 (Suc i) n)"

definition strncmp :: "mem \<Rightarrow> mem \<Rightarrow> nat \<Rightarrow> int" where
  "strncmp s1 s2 n = strncmp_from s1 s2 0 n"

record flog_file_find_result_t =
  fr_file_id :: flog_file_id_t
  fr_first_block :: flog_block_idx_t

text \<open>
  The loop of \<^verbatim>\<open>flog_find_file\<close>.  \<open>result\<close> is the local of that name: it is assigned at
  every entry whose name matches and keeps that value when the search goes on.
\<close>

partial_function (option) find_file_loop ::
  "conf \<Rightarrow> mem \<Rightarrow> flog_file_find_result_t \<Rightarrow> flog_inode_iterator_t \<Rightarrow> world
     \<Rightarrow> (flog_file_find_result_t \<times> flog_inode_iterator_t \<times> world) option" where
  "find_file_loop cf filename result iter w =
     (let w1 = snd (flog_open_sector cf (it_block iter) (it_sector iter) w);
          entry = flash_read_sector cf (unat (it_sector iter)) 0 (flash w1)
      in if alloc_file_id entry = FLOG_FILE_ID_INVALID then
           Some (result \<lparr> fr_first_block := FLOG_BLOCK_IDX_INVALID \<rparr>, iter, w1)
         else if strncmp filename (\<lambda>i. entry (sizeof_inode_file_allocation_header + i))
                   (FLOG_MAX_FNAME_LEN cf) \<noteq> 0 then
           (case flog_inode_iterator_next cf iter w1 of
              (iter', w') \<Rightarrow> find_file_loop cf filename result iter' w')
         else
           (let result' = \<lparr> fr_file_id = alloc_file_id entry,
                            fr_first_block = alloc_first_block entry \<rparr>;
                w2 = snd (flog_open_sector cf (it_block iter) (it_sector iter + 1) w1);
                inval = flash_read_sector cf (unat (it_sector iter + 1)) 0 (flash w2)
            in if invalidation_timestamp inval \<noteq> FLOG_TIMESTAMP_INVALID then
                 (case flog_inode_iterator_next cf iter w2 of
                    (iter', w') \<Rightarrow> find_file_loop cf filename result' iter' w')
               else Some (result', iter, w2)))"

definition flog_find_file ::
  "conf \<Rightarrow> flog_file_find_result_t \<Rightarrow> mem \<Rightarrow> world
     \<Rightarrow> (flog_file_find_result_t \<times> flog_inode_iterator_t \<times> world) option" where
  "flog_find_file cf ur filename w =
     (case flog_inode_iterator_init cf (inode0 w) w of
        (iter, w1) \<Rightarrow> find_file_loop cf filename ur iter w1)"

text \<open>
  \<^verbatim>\<open>flogfs_ls_iterate\<close>.  \<open>dst\<close> is the caller's buffer \<^verbatim>\<open>fname_dst\<close>; the result is the
  return value with the buffer and the iterator as the call leaves them.
\<close>

partial_function (option) flogfs_ls_iterate ::
  "conf \<Rightarrow> flog_inode_iterator_t \<Rightarrow> mem \<Rightarrow> world
     \<Rightarrow> (8 word \<times> mem \<times> flog_inode_iterator_t \<times> world) option" where
  "flogfs_ls_iterate cf iter dst w =
     (let w1 = snd (flog_open_sector cf (it_block iter) (it_sector iter) w);
          file_id = ld32 (flash_read_sector cf (unat (it_sector iter)) 0 (flash w1)) 0
      in if file_id = FLOG_FILE_ID_INVALID then Some (0, dst, iter, w1)
         else
           (let w2 = snd (flog_open_sector cf (it_block iter) (it_sector iter + 1) w1);
                timestamp = ld32 (flash_read_sector cf (unat (it_sector iter + 1)) 0 (flash w2)) 0
            in if timestamp = FLOG_TIMESTAMP_INVALID then
                 (let w3 = snd (flog_open_sector cf (it_block iter) (it_sector iter) w2);
                      name = flash_read_sector cf (unat (it_sector iter))
                               sizeof_inode_file_allocation_header (flash w3);
                      dst1 = (\<lambda>i. if i < FLOG_MAX_FNAME_LEN cf then name i else dst i);
                      dst2 = dst1 (FLOG_MAX_FNAME_LEN cf - 1 := 0)
                  in case flog_inode_iterator_next cf iter w3 of
                       (iter', w') \<Rightarrow> Some (1, dst2, iter', w'))
               else
                 (case flog_inode_iterator_next cf iter w2 of
                    (iter', w') \<Rightarrow> flogfs_ls_iterate cf iter' dst w')))"

definition flogfs_start_ls :: "conf \<Rightarrow> world \<Rightarrow> flog_inode_iterator_t \<times> world" where
  "flogfs_start_ls cf w = flog_inode_iterator_init cf (inode0 w) w"

text \<open>
  The inode chain as it stands in the flash array: the first position, the successor of a
  position, and the two records of the entry at a position.
\<close>

definition inode_first :: "conf \<Rightarrow> flash_t \<Rightarrow> flog_block_idx_t \<Rightarrow> flog_inode_iterator_t" where
  "inode_first cf fl inode0_idx =
     \<lparr> it_block = inode0_idx,
       it_next_block = tail_next_block (fl_data fl (unat inode0_idx) (FLOG_INODE_TAIL_SECTOR cf)),
       it_inode_idx = 0,
       it_inode_block_idx = spare_inode_index (fl_spare fl (unat inode0_idx) 0),
       it_sector = of_nat (FS_SECTORS_PER_PAGE cf) \<rparr>"

definition inode_succ :: "conf \<Rightarrow> flash_t \<Rightarrow> flog_inode_iterator_t \<Rightarrow> flog_inode_iterator_t" where
  "inode_succ cf fl iter =
     (let it1 = iter \<lparr> it_sector := it_sector iter + 2, it_inode_idx := it_inode_idx iter + 1 \<rparr>
      in if FS_SECTORS_PER_BLOCK cf \<le> unat (it_sector it1) then
           (if it_next_block it1 \<noteq> FLOG_BLOCK_IDX_INVALID then
              it1 \<lparr> it_block := it_next_block it1,
                    it_next_block := tail_next_block
                      (fl_data fl (unat (it_next_block it1)) (FLOG_FILE_TAIL_SECTOR cf)),
                    it_sector := of_nat (FS_SECTORS_PER_PAGE cf) \<rparr>
            else it1 \<lparr> it_sector := it_sector it1 - 2 - 1 \<rparr>)
         else it1)"

definition entry_allocation :: "flash_t \<Rightarrow> flog_inode_iterator_t \<Rightarrow> mem" where
  "entry_allocation fl iter = fl_data fl (unat (it_block iter)) (unat (it_sector iter))"

definition entry_invalidation :: "flash_t \<Rightarrow> flog_inode_iterator_t \<Rightarrow> mem" where
  "entry_invalidation fl iter = fl_data fl (unat (it_block iter)) (unat (it_sector iter + 1))"

datatype entry_kind = EntryEnd | EntrySkip | EntryFound

definition entry_kind :: "conf \<Rightarrow> flash_t \<Rightarrow> mem \<Rightarrow> flog_inode_iterator_t \<Rightarrow> entry_kind" where
  "entry_kind cf fl filename iter =
     (if alloc_file_id (entry_allocation fl iter) = FLOG_FILE_ID_INVALID then EntryEnd
      else if strncmp filename
                (\<lambda>i. entry_allocation fl iter (sizeof_inode_file_allocation_header + i))
                (FLOG_MAX_FNAME_LEN cf) \<noteq> 0 then EntrySkip
      else if invalidation_timestamp (entry_invalidation fl iter) \<noteq> FLOG_TIMESTAMP_INVALID
        then EntrySkip
      else EntryFound)"

definition chain_pos :: "conf \<Rightarrow> world \<Rightarrow> nat \<Rightarrow> flog_inode_iterator_t" where
  "chain_pos cf w k = (inode_succ cf (flash w) ^^ k) (inode_first cf (flash w) (inode0 w))"

text \<open>
  A device that holds one file: the first inode entry (sector 4 of block 0) names the file
  \<^verbatim>\<open>a\<close> with id 1 and first block 1, its invalidation sector is unwritten, and block 1
  carries the file's sector 0 with 100 bytes of data behind the header.  The spare of that
  sector gives 108 bytes, the offset plus the count that \<^verbatim>\<open>flog_commit_file_sector\<close> writes.
\<close>

definition inode_entry ::
  "flog_file_id_t \<Rightarrow> flog_block_idx_t \<Rightarrow> flog_block_age_t \<Rightarrow> flog_timestamp_t \<Rightarrow> mem \<Rightarrow> mem" where
  "inode_entry fid fb age ts name =
     st32 (st32 (st16 (st32 (\<lambda>i. if 16 \<le> i then name (i - 16) else 0xFF) 0 fid) 4 fb) 8 age) 12 ts"

definition name_a :: mem where
  "name_a = (\<lambda>i. if i = 0 then 0x61 else if i < 32 then 0 else 0xFF)"

definition name_b :: mem where
  "name_b = (\<lambda>i. if i = 0 then 0x62 else if i < 32 then 0 else 0xFF)"

definition file_sector0 :: mem where
  "file_sector0 = st32 (st32 (\<lambda>i. if 8 \<le> i \<and> i < 108 then 0x41 else 0xFF) 0 1) 4 1"

definition file_spare0 :: mem where
  "file_spare0 = st16 (\<lambda>i. if i = 0 then FLOG_BLOCK_TYPE_FILE else 0xFF) 2 108"

definition flash_one_file :: flash_t where
  "flash_one_file = flash_formatted
     \<lparr> fl_data := (\<lambda>b s. if b = 0 \<and> s = 4 then inode_entry 1 1 1 1 name_a
                          else if b = 1 \<and> s = 0 then file_sector0
                          else fl_data flash_formatted b s),
       fl_spare := (\<lambda>b s. if b = 1 \<and> s = 0 then file_spare0
                           else fl_spare flash_formatted b s) \<rparr>"

definition world_one_file :: world where
  "world_one_file = (world_reset conf0 flash_one_file)
     \<lparr> num_free_blocks := 14, max_file_id := 1, fs_t := 1, fs_state := FLOG_STATE_MOUNTED \<rparr>"

definition ls_name :: "conf \<Rightarrow> flash_t \<Rightarrow> flog_inode_iterator_t \<Rightarrow> mem \<Rightarrow> mem" where
  "ls_name cf fl iter dst =
     (\<lambda>i. if i < FLOG_MAX_FNAME_LEN cf
           then entry_allocation fl iter (sizeof_inode_file_allocation_header + i)
           else dst i) (FLOG_MAX_FNAME_LEN cf - 1 := 0)"

section \<open>States with open files\<close>

text \<open>The value that a call returns, without the state it leaves.\<close>

definition returned :: "(fault + 'a \<times> world) option \<Rightarrow> (fault + 'a) option" where
  "returned r = map_option (map_sum id fst) r"

text \<open>
  The file of \<open>world_one_file\<close> opened twice for reading, as \<^verbatim>\<open>flogfs_open_read\<close> leaves
  the descriptors: the one at address 16 is linked before the one at 32.
\<close>

definition world_two_readers :: world where
  "world_two_readers = world_one_file
     \<lparr> read_head := 16,
       rfiles := (\<lambda>a. rfile0)
         (16 := rfile0 \<lparr> rf_id := 1, rf_block := 1, rf_offset := 8,
                         rf_sector_remaining_bytes := 108, rf_next := 32 \<rparr>,
          32 := rfile0 \<lparr> rf_id := 1, rf_block := 1, rf_offset := 8,
                         rf_sector_remaining_bytes := 108 \<rparr>) \<rparr>"

text \<open>
  Two files open for writing, as after \<^verbatim>\<open>open_write\<close> of a new file (descriptor 16, block
  1), \<^verbatim>\<open>open_write\<close> of a second new file (descriptor 32, block 2, now the dirty block) and
  a write of 100 bytes to the second, which are waiting in its sector buffer.
\<close>

definition world_two_writers :: world where
  "world_two_writers = world_formatted
     \<lparr> write_head := 16, max_file_id := 2, fs_t := 2,
       dirty_block_block := 2, dirty_block_file := 32, allocate_head := 3,
       wfiles := (\<lambda>a. wfile0)
         (16 := wfile0 \<lparr> wf_id := 1, wf_block := 1, wf_block_age := 1, wf_sector := 1,
                         wf_sector_remaining_bytes := 512, wf_next := 32 \<rparr>,
          32 := wfile0 \<lparr> wf_id := 2, wf_block := 2, wf_block_age := 1, wf_sector := 0,
                         wf_offset := 108, wf_sector_remaining_bytes := 404,
                         wf_bytes_in_block := 100, wf_write_head := 100,
                         wf_sector_buffer := (\<lambda>i. 0x42) \<rparr>) \<rparr>"

text \<open>
  A file open for writing on a device without a free block: its next sector is the last
  data sector of its block, 500 bytes are buffered and 12 more fit.
\<close>

definition world_last_sector :: world where
  "world_last_sector = world_formatted
     \<lparr> num_free_blocks := 0, write_head := 16,
       wfiles := (\<lambda>a. wfile0)(16 := wfile0 \<lparr> wf_id := 1, wf_block := 1, wf_block_age := 1,
          wf_sector := 255, wf_offset := 500, wf_sector_remaining_bytes := 12,
          wf_bytes_in_block := 500, wf_write_head := 500,
          wf_sector_buffer := (\<lambda>i. 0x41) \<rparr>) \<rparr>"

text \<open>
  The file of \<open>world_one_file\<close> with a second sector: after the 100 bytes of sector 0,
  sector 1 of block 1 holds 50 more.  The descriptor at address 16 stands where
  \<^verbatim>\<open>flogfs_open_read\<close> puts it, at the start of sector 0.
\<close>

definition flash_two_sectors :: flash_t where
  "flash_two_sectors = flash_one_file
     \<lparr> fl_data := (\<lambda>b s. if b = 1 \<and> s = 1 then (\<lambda>i. if i < 50 then 0x42 else 0xFF)
                          else fl_data flash_one_file b s),
       fl_spare := (\<lambda>b s. if b = 1 \<and> s = 1
                           then st16 (\<lambda>i. if i = 0 then FLOG_BLOCK_TYPE_FILE else 0xFF) 2 50
                           else fl_spare flash_one_file b s) \<rparr>"

definition world_two_sectors :: world where
  "world_two_sectors = (world_reset conf0 flash_two_sectors)
     \<lparr> num_free_blocks := 14, max_file_id := 1, fs_t := 1, fs_state := FLOG_STATE_MOUNTED,
       read_head := 16,
       rfiles := (\<lambda>a. rfile0)
         (16 := rfile0 \<lparr> rf_id := 1, rf_block := 1, rf_offset := 8,
                         rf_sector_remaining_bytes := 108 \<rparr>) \<rparr>"

section \<open>Reading files\<close>

definition read_file_update ::
  "addr \<Rightarrow> (flog_read_file_t \<Rightarrow> flog_read_file_t) \<Rightarrow> world \<Rightarrow> world" where
  "read_file_update file g w = w \<lparr> rfiles := (rfiles w)(file := g (rfiles w file)) \<rparr>"

text \<open>
  The first half of the loop body of \<^verbatim>\<open>flogfs_read\<close>, entered when the current sector has
  no bytes left: move to the next sector that holds data.  The result is \<open>True\<close> when the
  code leaves through \<^verbatim>\<open>goto done\<close> because the end of the file is reached.
\<close>

definition read_advance :: "conf \<Rightarrow> addr \<Rightarrow> world \<Rightarrow> bool \<times> world" where
  "read_advance cf file w =
     (let f = rfiles w file;
          header_offset = (\<lambda>sector :: 16 word.
             if unat sector = FLOG_FILE_TAIL_SECTOR cf then of_nat sizeof_file_tail_sector_header
             else if sector = 0 then of_nat sizeof_file_sector0_header
             else (0 :: 16 word))
      in if unat (rf_sector f) = FLOG_FILE_TAIL_SECTOR cf then
           (let w1 = snd (flog_open_sector cf (rf_block f) (of_nat (FLOG_FILE_TAIL_SECTOR cf)) w);
                block = tail_next_block
                          (flash_read_sector cf (FLOG_FILE_TAIL_SECTOR cf) 0 (flash w1));
                w2 = snd (flog_open_sector cf block 0 w1)
            in if file_sector0_file_id (flash_read_sector cf 0 0 (flash w2)) \<noteq> rf_id f
               then (True, w2)
               else
                 (let spare = flash_read_spare cf 0 (flash w2);
                      sector = (if spare_nbytes spare = 0 then 1 else 0)
                  in (False,
                      read_file_update file
                        (\<lambda>_. f \<lparr> rf_block := block, rf_sector := sector,
                                 rf_sector_remaining_bytes := spare_nbytes spare,
                                 rf_offset := header_offset sector \<rparr>) w2)))
         else
           (let sector = flog_increment_sector cf (rf_sector f);
                w1 = snd (flog_open_sector cf (rf_block f) sector w);
                spare = flash_read_spare cf (unat sector) (flash w1)
            in if spare_nbytes spare = FLOG_SECTOR_NBYTES_INVALID then (True, w1)
               else
                 (False,
                  read_file_update file
                    (\<lambda>_. f \<lparr> rf_sector := sector,
                             rf_sector_remaining_bytes := spare_nbytes spare,
                             rf_offset := header_offset sector \<rparr>) w1)))"

text \<open>
  The second half of the loop body: copy \<^verbatim>\<open>MIN(nbytes, file->sector_remaining_bytes)\<close> bytes
  of the current sector and advance the descriptor.  The result carries the number of
  bytes and the bytes themselves.
\<close>

definition read_chunk :: "conf \<Rightarrow> addr \<Rightarrow> 32 word \<Rightarrow> world \<Rightarrow> 16 word \<times> byte list \<times> world" where
  "read_chunk cf file nbytes w =
     (let f = rfiles w file;
          to_read = (ucast (min nbytes (ucast (rf_sector_remaining_bytes f))) :: 16 word);
          w1 = snd (flog_open_sector cf (rf_block f) (rf_sector f) w);
          bytes = map (flash_read_sector cf (unat (rf_sector f)) (unat (rf_offset f)) (flash w1))
                    [0..<unat to_read]
      in (to_read, bytes,
          read_file_update file
            (\<lambda>_. f \<lparr> rf_offset := rf_offset f + to_read,
                     rf_sector_remaining_bytes := rf_sector_remaining_bytes f - to_read,
                     rf_read_head := rf_read_head f + ucast to_read \<rparr>) w1))"

text \<open>
  The loop \<^verbatim>\<open>while(nbytes)\<close> of \<^verbatim>\<open>flogfs_read\<close>; \<open>out\<close> collects what has been copied to
  \<^verbatim>\<open>dst\<close>.  A chain of empty sectors that leads back to itself keeps the loop running, so
  the function is partial.
\<close>

partial_function (option) flogfs_read_loop ::
  "conf \<Rightarrow> addr \<Rightarrow> byte list \<Rightarrow> 32 word \<Rightarrow> 32 word \<Rightarrow> world
     \<Rightarrow> (32 word \<times> byte list \<times> world) option" where
  "flogfs_read_loop cf file out nbytes count w =
     (if nbytes = 0 then Some (count, out, w)
      else
        (case (if rf_sector_remaining_bytes (rfiles w file) = 0 then read_advance cf file w
               else (False, w)) of
           (eof, w1) \<Rightarrow>
             if eof then Some (count, out, w1)
             else
               (case read_chunk cf file nbytes w1 of
                  (to_read, bytes, w2) \<Rightarrow>
                    flogfs_read_loop cf file (out @ bytes) (nbytes - ucast to_read)
                      (count + ucast to_read) w2)))"

definition flogfs_read ::
  "conf \<Rightarrow> addr \<Rightarrow> 32 word \<Rightarrow> world \<Rightarrow> (fault + 32 word \<times> byte list \<times> world) option" where
  "flogfs_read cf file nbytes w =
     (if file = 0 \<and> nbytes \<noteq> 0 then Some (Inl NullDereference)
      else map_option Inr (flogfs_read_loop cf file [] nbytes 0 w))"

text \<open>
  The end of a file as the flash array shows it from the position of a descriptor: at
  the tail sector, the block that the tail header names does not carry the file's id in
  its sector 0; elsewhere, the spare of the next sector has never been written.
\<close>

definition at_end_of_file :: "conf \<Rightarrow> flash_t \<Rightarrow> flog_read_file_t \<Rightarrow> bool" where
  "at_end_of_file cf fl f \<longleftrightarrow>
     (if unat (rf_sector f) = FLOG_FILE_TAIL_SECTOR cf then
        file_sector0_file_id
          (fl_data fl
             (unat (tail_next_block (fl_data fl (unat (rf_block f)) (FLOG_FILE_TAIL_SECTOR cf))))
             0) \<noteq> rf_id f
      else
        spare_nbytes (fl_spare fl (unat (rf_block f))
                        (unat (flog_increment_sector cf (rf_sector f))))
          = FLOG_SECTOR_NBYTES_INVALID)"

text \<open>
  The descriptor that the first half of the loop body leaves when it does not find the end
  of the file, as a function of the flash array.
\<close>

definition read_successor :: "conf \<Rightarrow> flash_t \<Rightarrow> flog_read_file_t \<Rightarrow> flog_read_file_t" where
  "read_successor cf fl f =
     (let header_offset = (\<lambda>sector :: 16 word.
             if unat sector = FLOG_FILE_TAIL_SECTOR cf then of_nat sizeof_file_tail_sector_header
             else if sector = 0 then of_nat sizeof_file_sector0_header
             else (0 :: 16 word))
      in if unat (rf_sector f) = FLOG_FILE_TAIL_SECTOR cf then
           (let block = tail_next_block
                          (fl_data fl (unat (rf_block f)) (FLOG_FILE_TAIL_SECTOR cf));
                spare = fl_spare fl (unat block) 0;
                sector = (if spare_nbytes spare = 0 then 1 else 0)
            in f \<lparr> rf_block := block, rf_sector := sector,
                    rf_sector_remaining_bytes := spare_nbytes spare,
                    rf_offset := header_offset sector \<rparr>)
         else
           (let sector = flog_increment_sector cf (rf_sector f);
                spare = fl_spare fl (unat (rf_block f)) (unat sector)
            in f \<lparr> rf_sector := sector,
                    rf_sector_remaining_bytes := spare_nbytes spare,
                    rf_offset := header_offset sector \<rparr>))"

text \<open>
  The end of the file lies at most \<open>k\<close> sectors ahead of the descriptor, and the number
  of bytes that the spares announce from the descriptor up to there.
\<close>

fun file_ends :: "conf \<Rightarrow> flash_t \<Rightarrow> flog_read_file_t \<Rightarrow> nat \<Rightarrow> bool" where
  "file_ends cf fl f 0 = at_end_of_file cf fl f"
| "file_ends cf fl f (Suc k) =
     (at_end_of_file cf fl f \<or> file_ends cf fl (read_successor cf fl f) k)"

fun bytes_ahead :: "conf \<Rightarrow> flash_t \<Rightarrow> flog_read_file_t \<Rightarrow> nat \<Rightarrow> nat" where
  "bytes_ahead cf fl f 0 = unat (rf_sector_remaining_bytes f)"
| "bytes_ahead cf fl f (Suc k) =
     unat (rf_sector_remaining_bytes f) +
       (if at_end_of_file cf fl f then 0 else bytes_ahead cf fl (read_successor cf fl f) k)"

text \<open>
  The loop returns, and it has copied the bytes ahead of the descriptor or \<open>nbytes\<close> of
  them, whichever is less.
\<close>

definition read_result ::
  "conf \<Rightarrow> addr \<Rightarrow> nat \<Rightarrow> byte list \<Rightarrow> 32 word \<Rightarrow> 32 word \<Rightarrow> world \<Rightarrow> bool" where
  "read_result cf fd k out nbytes count w \<longleftrightarrow>
     (\<exists>count' out' w'.
        flogfs_read_loop cf fd out nbytes count w = Some (count', out @ out', w')
        \<and> unat count' = unat count + min (unat nbytes) (bytes_ahead cf (flash w) (rfiles w fd) k)
        \<and> length out' = min (unat nbytes) (bytes_ahead cf (flash w) (rfiles w fd) k))"

section \<open>Mounting\<close>

text \<open>
  \<^verbatim>\<open>flog_invalidate_chain\<close>: the loop \<^verbatim>\<open>while(1)\<close> over the blocks of a file.  It follows the
  \<^verbatim>\<open>next_block\<close> fields that it reads from flash and need not end.
\<close>

definition sizeof_file_invalidation_sector :: nat where
  "sizeof_file_invalidation_sector = 8"

partial_function (option) flog_invalidate_chain ::
  "conf \<Rightarrow> flog_block_idx_t \<Rightarrow> world \<Rightarrow> world option" where
  "flog_invalidate_chain cf base w =
     (let w1 = snd (flog_open_sector cf base (of_nat (FLOG_FILE_TAIL_SECTOR cf)) w);
          tail = flash_read_sector cf (FLOG_FILE_TAIL_SECTOR cf) 0 (flash w1);
          w2 = snd (flog_open_sector cf base (of_nat (FLOG_FILE_INVALIDATION_SECTOR cf)) w1);
          inval = flash_read_sector cf (FLOG_FILE_INVALIDATION_SECTOR cf) 0 (flash w2)
      in if invalidation_timestamp inval \<noteq> FLOG_TIMESTAMP_INVALID then
           (if file_invalidation_next_age inval = FLOG_BLOCK_AGE_INVALID then Some w2
            else if tail_next_block tail = FLOG_BLOCK_IDX_INVALID then Some w2
            else flog_invalidate_chain cf (tail_next_block tail) w2)
         else
           (let w3 = w2 \<lparr> fs_t := fs_t w2 + 1 \<rparr>;
                buf = st32 (st32 inval 4 (tail_next_age tail)) 0 (fs_t w3);
                w4 = snd (flog_open_sector cf base
                            (of_nat (FLOG_FILE_INVALIDATION_SECTOR cf)) w3);
                fl1 = flash_write_sector cf buf (FLOG_FILE_INVALIDATION_SECTOR cf) 0
                        sizeof_file_invalidation_sector (flash w4);
                w5 = w4 \<lparr> flash := flash_commit cf fl1,
                          num_free_blocks := num_free_blocks w4 + 1 \<rparr>
            in if tail_next_block tail = FLOG_BLOCK_IDX_INVALID then Some w5
               else flog_invalidate_chain cf (tail_next_block tail) w5))"

text \<open>The locals of \<^verbatim>\<open>flogfs_mount\<close> that live across its passes.\<close>

record mount_locals =
  last_allocation_block :: flog_block_idx_t
  last_allocation_age :: flog_block_age_t
  last_allocation_file_id :: flog_file_id_t
  last_allocation_timestamp :: flog_timestamp_t
  last_deletion_first_block :: flog_block_idx_t
  last_deletion_last_block :: flog_block_idx_t
  last_deletion_file_id :: flog_file_id_t
  last_deletion_timestamp :: flog_timestamp_t
  inode0_idx :: flog_block_idx_t
  max_block_age :: flog_block_age_t

text \<open>
  The initial values; the fields that the code leaves unassigned take the indeterminate
  values of \<open>ul\<close>.
\<close>

definition mount_locals_init :: "mount_locals \<Rightarrow> mount_locals" where
  "mount_locals_init ul = ul
     \<lparr> last_allocation_block := FLOG_BLOCK_IDX_INVALID, last_allocation_timestamp := 0,
       last_deletion_timestamp := 0, last_deletion_file_id := FLOG_FILE_ID_INVALID,
       inode0_idx := FLOG_BLOCK_IDX_INVALID, max_block_age := 0 \<rparr>"

datatype scan_result = ScanFailure world | ScanDone mount_locals world

text \<open>
  One iteration of the first loop of \<^verbatim>\<open>flogfs_mount\<close>, for block \<open>i\<close>.  The pages are opened
  with \<^verbatim>\<open>flash_open_page\<close> itself, past the shim.  \<open>ScanFailure\<close> is the \<^verbatim>\<open>goto failure\<close> of
  the \<^verbatim>\<open>default\<close> case.
\<close>

definition mount_scan_block :: "conf \<Rightarrow> nat \<Rightarrow> mount_locals \<Rightarrow> world \<Rightarrow> scan_result" where
  "mount_scan_block cf i l w =
     (case flash_open_page cf i 0 (flash w) of
        (FLOG_FAILURE, fl) \<Rightarrow> ScanDone l (w \<lparr> flash := fl \<rparr>)
      | (FLOG_SUCCESS, fl) \<Rightarrow>
         (let w1 = w \<lparr> flash := fl \<rparr>
          in if flash_block_is_bad fl = FLOG_SUCCESS then ScanDone l w1
             else
              (let spare = flash_read_spare cf 0 fl;
                   sector0 = flash_read_sector cf 0 0 fl;
                   invalidated = (invalidation_timestamp
                       (flash_read_sector cf (FLOG_FILE_INVALIDATION_SECTOR cf) 0 fl)
                          \<noteq> FLOG_TIMESTAMP_INVALID);
                   w2 = (if invalidated
                         then w1 \<lparr> num_free_blocks := num_free_blocks w1 + 1 \<rparr> else w1)
               in if spare_type_id spare = FLOG_BLOCK_TYPE_INODE then
                    (let timestamp = ld32 (flash_read_sector cf
                                             (FLOG_INODE_INVALIDATION_SECTOR cf) 0 fl) 0;
                         l1 = (if timestamp = FLOG_TIMESTAMP_INVALID
                                  \<and> spare_inode_index spare = 0
                               then l \<lparr> inode0_idx := of_nat i \<rparr> else l);
                         l2 = (if max_block_age l1 < sector0_age sector0
                               then l1 \<lparr> max_block_age := sector0_age sector0 \<rparr> else l1)
                     in ScanDone l2 w2)
                  else if spare_type_id spare = FLOG_BLOCK_TYPE_FILE then
                    (let tail = flash_read_sector cf (FLOG_FILE_TAIL_SECTOR cf) 0 fl;
                         l1 = (if tail_timestamp tail = FLOG_TIMESTAMP_INVALID then l
                               else if last_allocation_timestamp l < tail_timestamp tail then
                                 l \<lparr> last_allocation_timestamp := tail_timestamp tail,
                                     last_allocation_block := tail_next_block tail,
                                     last_allocation_age := tail_next_age tail,
                                     last_allocation_file_id := file_sector0_file_id sector0 \<rparr>
                               else l);
                         l2 = (if max_block_age l1 < sector0_age sector0
                               then l1 \<lparr> max_block_age := sector0_age sector0 \<rparr> else l1)
                     in ScanDone l2 w2)
                  else if spare_type_id spare = FLOG_BLOCK_TYPE_UNALLOCATED then
                    ScanDone l (w1 \<lparr> num_free_blocks := num_free_blocks w1 + 1 \<rparr>)
                  else ScanFailure w1)))"

text \<open>The loop \<^verbatim>\<open>for(i = 0; i < FS_NUM_BLOCKS; i++)\<close>, at block \<open>i\<close> with \<open>k\<close> blocks to go.\<close>

fun mount_scan :: "conf \<Rightarrow> nat \<Rightarrow> nat \<Rightarrow> mount_locals \<Rightarrow> world \<Rightarrow> scan_result" where
  "mount_scan cf i 0 l w = ScanDone l w"
| "mount_scan cf i (Suc k) l w =
     (case mount_scan_block cf i l w of
        ScanFailure w' \<Rightarrow> ScanFailure w'
      | ScanDone l' w' \<Rightarrow> mount_scan cf (Suc i) k l' w')"

text \<open>
  The second loop of \<^verbatim>\<open>flogfs_mount\<close>, over the inode entries; it ends at the first entry
  whose file id is all-ones, if there is one.
\<close>

partial_function (option) mount_inode_walk ::
  "conf \<Rightarrow> flog_inode_iterator_t \<Rightarrow> mount_locals \<Rightarrow> world \<Rightarrow> (mount_locals \<times> world) option" where
  "mount_inode_walk cf iter l w =
     (let w1 = snd (flog_open_sector cf (it_block iter) (it_sector iter) w);
          allocation = flash_read_sector cf (unat (it_sector iter)) 0 (flash w1)
      in if alloc_file_id allocation = FLOG_FILE_ID_INVALID then Some (l, w1)
         else
          (let w2 = snd (flog_open_sector cf (it_block iter) (it_sector iter + 1) w1);
               inval = flash_read_sector cf (unat (it_sector iter + 1)) 0 (flash w2);
               w3 = w2 \<lparr> max_file_id := alloc_file_id allocation \<rparr>;
               l1 = (if invalidation_timestamp inval = FLOG_TIMESTAMP_INVALID then
                       (if last_allocation_timestamp l < alloc_timestamp allocation then
                          l \<lparr> last_allocation_block := alloc_first_block allocation,
                              last_allocation_file_id := alloc_file_id allocation,
                              last_allocation_age := alloc_first_block_age allocation,
                              last_allocation_timestamp := alloc_timestamp allocation \<rparr>
                        else l)
                     else
                       (if last_deletion_timestamp l < invalidation_timestamp inval then
                          l \<lparr> last_deletion_first_block := alloc_first_block allocation,
                              last_deletion_last_block := inode_invalidation_last_block inval,
                              last_deletion_file_id := alloc_file_id allocation,
                              last_deletion_timestamp := invalidation_timestamp inval \<rparr>
                        else l))
           in case flog_inode_iterator_next cf iter w3 of
                (iter', w') \<Rightarrow> mount_inode_walk cf iter' l1 w'))"

text \<open>The check of the last allocation: erase and initialise a block that was announced only.\<close>

definition mount_fix_allocation :: "conf \<Rightarrow> mount_locals \<Rightarrow> world \<Rightarrow> world" where
  "mount_fix_allocation cf l w =
     (if 0 < last_allocation_timestamp l then
        (let w1 = snd (flog_open_sector cf (last_allocation_block l) 0 w);
             sector0 = flash_read_sector cf 0 0 (flash w1)
         in if file_sector0_file_id sector0 \<noteq> last_allocation_file_id l then
              (let fl1 = snd (flash_erase_block (unat (last_allocation_block l)) (flash w1));
                   w2 = snd (flog_open_page cf (last_allocation_block l) 0 (w1 \<lparr> flash := fl1 \<rparr>));
                   buf = st32 (st32 sector0 0 (last_allocation_age l)) 4
                           (last_allocation_file_id l);
                   fl2 = flash_write_sector cf buf 0 0 sizeof_file_sector0_header (flash w2);
                   spare = st16 (\<lambda>i. if i = 0 then FLOG_BLOCK_TYPE_FILE else 0) 2 0;
                   fl3 = flash_commit cf (flash_write_spare cf spare 0 fl2)
               in w2 \<lparr> flash := fl3, fs_t := last_allocation_timestamp l + 1 \<rparr>)
            else w1)
      else w)"

text \<open>
  The check of the last deletion.  The code opens the page of the invalidation sector and
  then reads sector 0 from it; it goes on to \<^verbatim>\<open>flog_invalidate_chain\<close> when the timestamp it
  has read is written.
\<close>

definition mount_fix_deletion :: "conf \<Rightarrow> mount_locals \<Rightarrow> world \<Rightarrow> world option" where
  "mount_fix_deletion cf l w =
     (if 0 < last_deletion_timestamp l then
        (let w1 = snd (flog_open_sector cf (last_deletion_last_block l) 0 w);
             sector0 = flash_read_sector cf 0 0 (flash w1)
         in if file_sector0_file_id sector0 = last_deletion_file_id l then
              (let w2 = snd (flog_open_sector cf (last_deletion_last_block l)
                               (of_nat (FLOG_FILE_INVALIDATION_SECTOR cf)) w1);
                   inval = flash_read_sector cf 0 0 (flash w2)
               in if invalidation_timestamp inval \<noteq> FLOG_TIMESTAMP_INVALID
                  then flog_invalidate_chain cf (last_deletion_first_block l) w2
                  else Some w2)
            else Some w1)
      else Some w)"

text \<open>
  \<^verbatim>\<open>flogfs_mount\<close>.  The counter of free blocks is reset before the test for a mounted
  file system.  \<open>None\<close> stands for a call that does not return.
\<close>

definition flogfs_mount :: "conf \<Rightarrow> mount_locals \<Rightarrow> world \<Rightarrow> (flog_result_t \<times> world) option" where
  "flogfs_mount cf ul w =
     (let w0 = w \<lparr> num_free_blocks := 0 \<rparr>
      in if fs_state w0 = FLOG_STATE_MOUNTED then Some (FLOG_SUCCESS, w0)
         else
          (case mount_scan cf 0 (FS_NUM_BLOCKS cf) (mount_locals_init ul) w0 of
             ScanFailure w1 \<Rightarrow> Some (FLOG_FAILURE, w1)
           | ScanDone l w1 \<Rightarrow>
               if inode0_idx l = FLOG_BLOCK_IDX_INVALID then Some (FLOG_FAILURE, w1)
               else
                 (case flog_inode_iterator_init cf (inode0_idx l) w1 of
                    (iter, w2) \<Rightarrow>
                      Option.bind (mount_inode_walk cf iter l w2)
                        (\<lambda>(l', w3).
                           Option.bind (mount_fix_deletion cf l' (mount_fix_allocation cf l' w3))
                             (\<lambda>w4. Some (FLOG_SUCCESS,
                                           w4 \<lparr> fs_state := FLOG_STATE_MOUNTED \<rparr>))))))"

text \<open>A device whose block 5 carries a type code that is none of the three known ones.\<close>

definition flash_corrupt :: flash_t where
  "flash_corrupt = flash_formatted
     \<lparr> fl_spare := (\<lambda>b s. if b = 5 \<and> s = 0 then (\<lambda>i. if i = 0 then 0x07 else 0xFF)
                           else fl_spare flash_formatted b s) \<rparr>"

text \<open>The three type codes that the first pass of the mount knows.\<close>

definition known_type :: "byte \<Rightarrow> bool" where
  "known_type ty \<longleftrightarrow> ty = FLOG_BLOCK_TYPE_INODE \<or> ty = FLOG_BLOCK_TYPE_FILE
     \<or> ty = FLOG_BLOCK_TYPE_UNALLOCATED"

text \<open>Some values for the locals that \<^verbatim>\<open>flogfs_mount\<close> leaves unassigned at first.\<close>

definition mount_locals0 :: mount_locals where
  "mount_locals0 = \<lparr> last_allocation_block = 0, last_allocation_age = 0,
     last_allocation_file_id = 0, last_allocation_timestamp = 0,
     last_deletion_first_block = 0, last_deletion_last_block = 0,
     last_deletion_file_id = 0, last_deletion_timestamp = 0,
     inode0_idx = 0, max_block_age = 0 \<rparr>"

section \<open>Opening a file for writing\<close>

definition sizeof_inode_tail_sector :: nat where
  "sizeof_inode_tail_sector = 12"

definition sizeof_inode_sector0 :: nat where
  "sizeof_inode_sector0 = 8"

text \<open>
  The body of \<^verbatim>\<open>flog_inode_prepare_new\<close> for the last entry of an inode block, after the
  dirty block has been flushed.  All three records are written through one union buffer;
  \<open>ub\<close> is its indeterminate initial content.
\<close>

definition prepare_new_block ::
  "conf \<Rightarrow> flog_block_age_t \<Rightarrow> mem \<Rightarrow> flog_inode_iterator_t \<Rightarrow> world
     \<Rightarrow> flog_result_t \<times> flog_inode_iterator_t \<times> world" where
  "prepare_new_block cf u ub iter w =
     (let (block_alloc, w2) = flog_allocate_block cf u w
      in if ba_block block_alloc = FLOG_BLOCK_IDX_INVALID then (FLOG_FAILURE, iter, w2)
         else
          (let w3 = snd (flog_open_sector cf (it_block iter)
                           (of_nat (FLOG_INODE_TAIL_SECTOR cf)) w2);
               w4 = w3 \<lparr> fs_t := fs_t w3 + 1 \<rparr>;
               buf1 = st32 (st16 (st32 ub 4 (ba_age block_alloc + 1)) 0 (ba_block block_alloc))
                        8 (fs_t w4);
               fl1 = flash_commit cf
                       (flash_write_sector cf buf1 (FLOG_INODE_TAIL_SECTOR cf) 0
                          sizeof_inode_tail_sector (flash w4));
               fl2 = snd (flash_erase_block (unat (ba_block block_alloc)) fl1);
               w5 = snd (flog_open_sector cf (ba_block block_alloc) 0 (w4 \<lparr> flash := fl2 \<rparr>));
               buf2 = st32 (st32 buf1 0 (ba_age block_alloc + 1)) 4 (fs_t w5);
               fl3 = flash_write_sector cf buf2 0 0 sizeof_inode_sector0 (flash w5);
               idx = it_inode_block_idx iter + 1;
               buf3 = st16 (buf2(0 := FLOG_BLOCK_TYPE_INODE)) 2 idx;
               fl4 = flash_commit cf (flash_write_spare cf buf3 0 fl3)
           in (FLOG_SUCCESS,
               iter \<lparr> it_inode_block_idx := idx, it_next_block := ba_block block_alloc \<rparr>,
               w5 \<lparr> flash := fl4 \<rparr>)))"

definition flog_inode_prepare_new ::
  "conf \<Rightarrow> flog_block_age_t \<Rightarrow> mem \<Rightarrow> mem \<Rightarrow> flog_inode_iterator_t \<Rightarrow> world
     \<Rightarrow> (fault + flog_result_t \<times> flog_inode_iterator_t \<times> world) option" where
  "flog_inode_prepare_new cf u us ub iter w =
     (if int (unat (it_sector iter)) = int (FS_SECTORS_PER_PAGE cf) - 2 then
        Option.bind (flog_flush_dirty_block cf u us w)
          (\<lambda>r. case r of
                 Inl e \<Rightarrow> Some (Inl e)
               | Inr w1 \<Rightarrow> Some (Inr (prepare_new_block cf u ub iter w1)))
      else Some (Inr (FLOG_SUCCESS, iter, w)))"

text \<open>A C string: the bytes of the list, then the terminating nul character.\<close>

definition cstring :: "byte list \<Rightarrow> mem" where
  "cstring s = (\<lambda>i. if i < length s then s ! i else 0)"

text \<open>
  \<^verbatim>\<open>flogfs_open_write\<close> for a file that exists: the first loop follows the sealed blocks,
  the second looks for the first sector without data.
\<close>

partial_function (option) open_write_last_block :: "conf \<Rightarrow> addr \<Rightarrow> world \<Rightarrow> world option" where
  "open_write_last_block cf fd w =
     (let w1 = snd (flog_open_sector cf (wf_block (wfiles w fd))
                      (of_nat (FLOG_FILE_TAIL_SECTOR cf)) w);
          tail = flash_read_sector cf (FLOG_FILE_TAIL_SECTOR cf) 0 (flash w1)
      in if tail_timestamp tail = FLOG_TIMESTAMP_INVALID then Some w1
         else open_write_last_block cf fd
                (write_file_update fd
                   (\<lambda>f. f \<lparr> wf_block := tail_next_block tail,
                            wf_write_head := wf_write_head f + tail_bytes_in_block tail \<rparr>) w1))"

partial_function (option) open_write_free_sector :: "conf \<Rightarrow> addr \<Rightarrow> world \<Rightarrow> world option" where
  "open_write_free_sector cf fd w =
     (let w1 = snd (flog_open_sector cf (wf_block (wfiles w fd)) (wf_sector (wfiles w fd)) w);
          spare = flash_read_spare cf (unat (wf_sector (wfiles w fd))) (flash w1)
      in if spare_nbytes spare = FLOG_SECTOR_NBYTES_INVALID then
           Some (write_file_update fd
                   (\<lambda>f. f \<lparr> wf_offset :=
                              (if unat (wf_sector f) = FLOG_FILE_TAIL_SECTOR cf
                               then of_nat sizeof_file_tail_sector_header else 0),
                            wf_sector_remaining_bytes :=
                              of_nat (FS_SECTOR_SIZE cf) -
                              (if unat (wf_sector f) = FLOG_FILE_TAIL_SECTOR cf
                               then of_nat sizeof_file_tail_sector_header else 0) \<rparr>) w1)
         else open_write_free_sector cf fd
                (write_file_update fd
                   (\<lambda>f. f \<lparr> wf_write_head := wf_write_head f + ucast (spare_nbytes spare),
                            wf_sector := flog_increment_sector cf (wf_sector f) \<rparr>) w1))"

definition open_write_existing ::
  "conf \<Rightarrow> addr \<Rightarrow> flog_file_find_result_t \<Rightarrow> world \<Rightarrow> world option" where
  "open_write_existing cf fd find_result w =
     Option.bind
       (open_write_last_block cf fd
          (write_file_update fd
             (\<lambda>f. f \<lparr> wf_block := fr_first_block find_result, wf_id := fr_file_id find_result,
                      wf_sector := 0, wf_write_head := 0 \<rparr>) w))
       (\<lambda>w1.
          (let w2 = snd (flog_open_sector cf (wf_block (wfiles w1 fd)) 0 w1);
               spare = flash_read_spare cf 0 (flash w2)
           in open_write_free_sector cf fd
                (write_file_update fd
                   (\<lambda>f. f \<lparr> wf_write_head := wf_write_head f + ucast (spare_nbytes spare),
                            wf_sector := flog_increment_sector cf (wf_sector f) \<rparr>) w2)))"

text \<open>
  \<^verbatim>\<open>flogfs_open_write\<close> for a file that does not exist, from the call of
  \<^verbatim>\<open>flog_allocate_block\<close> on.  The allocation record is composed in a local buffer with the
  indeterminate initial content \<open>ub\<close>, programmed into the inode entry, and only then is
  the new block erased.  The counter \<open>num_free_blocks\<close> is not touched.
\<close>

definition open_write_new ::
  "conf \<Rightarrow> flog_block_age_t \<Rightarrow> mem \<Rightarrow> addr \<Rightarrow> byte list \<Rightarrow> flog_inode_iterator_t \<Rightarrow> world
     \<Rightarrow> flog_result_t \<times> world" where
  "open_write_new cf u ub fd filename iter w =
     (let hdr = sizeof_inode_file_allocation_header;
          buf0 = (\<lambda>i. if hdr \<le> i \<and> i \<le> hdr + length filename
                       then cstring filename (i - hdr) else ub i);
          buf1 = buf0 (hdr + (FLOG_MAX_FNAME_LEN cf - 1) := 0);
          (alloc_block, w1) = flog_allocate_block cf u w
      in if ba_block alloc_block = FLOG_BLOCK_IDX_INVALID then (FLOG_FAILURE, w1)
         else
          (let w2 = w1 \<lparr> dirty_block_block := ba_block alloc_block, dirty_block_file := fd,
                         max_file_id := max_file_id w1 + 1, fs_t := fs_t w1 + 1 \<rparr>;
               age = ba_age alloc_block + 1;
               buf2 = st32 (st32 (st16 (st32 buf1 0 (max_file_id w2)) 4 (ba_block alloc_block))
                        8 age) 12 (fs_t w2);
               w3 = snd (flog_open_sector cf (it_block iter) (it_sector iter) w2);
               fl1 = flash_commit cf
                       (flash_write_sector cf buf2 (unat (it_sector iter)) 0
                          (hdr + FLOG_MAX_FNAME_LEN cf) (flash w3));
               fl2 = snd (flash_erase_block (unat (ba_block alloc_block)) fl1)
           in (FLOG_SUCCESS,
               write_file_update fd
                 (\<lambda>f. f \<lparr> wf_block := ba_block alloc_block, wf_block_age := age,
                          wf_id := max_file_id w2, wf_bytes_in_block := 0, wf_write_head := 0,
                          wf_sector := 0, wf_offset := of_nat sizeof_file_sector0_header,
                          wf_sector_remaining_bytes :=
                            of_nat (FS_SECTOR_SIZE cf) - of_nat sizeof_file_sector0_header \<rparr>)
                 (w3 \<lparr> flash := fl2 \<rparr>))))"

text \<open>The loop that finds the last descriptor of the open-write list.\<close>

partial_function (option) write_list_last :: "addr \<Rightarrow> world \<Rightarrow> addr option" where
  "write_list_last a w =
     (if wf_next (wfiles w a) \<noteq> 0 then write_list_last (wf_next (wfiles w a)) w else Some a)"

definition write_list_append :: "addr \<Rightarrow> world \<Rightarrow> world option" where
  "write_list_append fd w =
     (let w1 = write_file_update fd (\<lambda>f. f \<lparr> wf_next := 0 \<rparr>) w
      in if write_head w1 = 0 then Some (w1 \<lparr> write_head := fd \<rparr>)
         else Option.bind (write_list_last (write_head w1) w1)
                (\<lambda>a. Some (write_file_update a (\<lambda>f. f \<lparr> wf_next := fd \<rparr>) w1)))"

text \<open>
  \<^verbatim>\<open>flogfs_open_write\<close>.  \<^verbatim>\<open>strcpy\<close> writes behind the filename array of the allocation
  record when the name has \<open>FLOG_MAX_FNAME_LEN\<close> characters or more.
\<close>

definition flogfs_open_write ::
  "conf \<Rightarrow> flog_block_age_t \<Rightarrow> mem \<Rightarrow> flog_file_find_result_t \<Rightarrow> mem \<Rightarrow> addr \<Rightarrow> byte list
     \<Rightarrow> world \<Rightarrow> (fault + flog_result_t \<times> world) option" where
  "flogfs_open_write cf u us ur ub fd filename w =
     (if fd = 0 then Some (Inl NullDereference)
      else
        Option.bind (flog_find_file cf ur (cstring filename) w)
          (\<lambda>(find_result, iter, w1).
             if fr_first_block find_result \<noteq> FLOG_BLOCK_IDX_INVALID then
               Option.bind (open_write_existing cf fd find_result w1)
                 (\<lambda>w2. map_option (\<lambda>w3. Inr (FLOG_SUCCESS, w3)) (write_list_append fd w2))
             else
               Option.bind (flog_inode_prepare_new cf u us ub iter w1)
                 (\<lambda>r. case r of
                    Inl e \<Rightarrow> Some (Inl e)
                  | Inr (res, iter1, w2) \<Rightarrow>
                      if res \<noteq> FLOG_SUCCESS then Some (Inr (FLOG_FAILURE, w2))
                      else if FLOG_MAX_FNAME_LEN cf \<le> length filename
                        then Some (Inl BufferOverflow)
                      else
                        Option.bind (flog_flush_dirty_block cf u us w2)
                          (\<lambda>r. case r of
                             Inl e \<Rightarrow> Some (Inl e)
                           | Inr w3 \<Rightarrow>
                               (case open_write_new cf u ub fd filename iter1 w3 of
                                  (res, w4) \<Rightarrow>
                                    if res \<noteq> FLOG_SUCCESS then Some (Inr (FLOG_FAILURE, w4))
                                    else map_option (\<lambda>w5. Inr (FLOG_SUCCESS, w5))
                                           (write_list_append fd w4))))))"

text \<open>
  The number of free blocks that a scan of the device finds: the blocks whose sector-0
  spare has the UNALLOCATED type code plus the blocks whose invalidation sector carries a
  timestamp.
\<close>

fun count_blocks :: "(nat \<Rightarrow> bool) \<Rightarrow> nat \<Rightarrow> nat" where
  "count_blocks P n =
     (if n = 0 then 0 else count_blocks P (n - 1) + (if P (n - 1) then 1 else 0))"

declare count_blocks.simps [simp del]

definition count_free_blocks :: "conf \<Rightarrow> flash_t \<Rightarrow> nat" where
  "count_free_blocks cf fl =
     count_blocks (\<lambda>b. spare_type_id (fl_spare fl b 0) = FLOG_BLOCK_TYPE_UNALLOCATED)
       (FS_NUM_BLOCKS cf)
     + count_blocks (\<lambda>b. invalidation_timestamp
                               (fl_data fl b (FLOG_FILE_INVALIDATION_SECTOR cf))
                             \<noteq> FLOG_TIMESTAMP_INVALID)
       (FS_NUM_BLOCKS cf)"

section \<open>Reading through the shim\<close>

lemma unat_page_of_sector:
  "unat (of_nat (unat (s :: 16 word) div k) :: 16 word) = unat s div k"
proof -
  have "unat s div k \<le> unat s" by simp
  also have "unat s < 2 ^ 16" using unsigned_less [of s, where 'a = nat] by simp
  finally show ?thesis by (simp add: unat_of_nat)
qed

lemma open_sector_ready:
  assumes "flash_ready cf w" "0 < FS_SECTORS_PER_PAGE cf"
  shows "flash_ready cf (snd (flog_open_sector cf b s w))"
  using assms
  by (auto simp: flash_ready_def cache_coherent_def flog_open_sector_def flog_open_page_def
      flash_open_page_def unat_page_of_sector Let_def split: prod.splits)

lemma open_sector_read:
  assumes "flash_ready cf w" "0 < FS_SECTORS_PER_PAGE cf"
  shows "flash_read_sector cf (unat s) off (flash (snd (flog_open_sector cf b s w)))
         = (\<lambda>i. fl_data (flash w) (unat b) (unat s) (off + i))"
  using assms
  by (auto simp: flash_ready_def cache_coherent_def flog_open_sector_def flog_open_page_def
      flash_open_page_def unat_page_of_sector Let_def flash_read_sector_def split: prod.splits)


lemma open_sector_spare:
  assumes "flash_ready cf w" "0 < FS_SECTORS_PER_PAGE cf"
  shows "flash_read_spare cf (unat s) (flash (snd (flog_open_sector cf b s w)))
         = fl_spare (flash w) (unat b) (unat s)"
  using assms
  by (auto simp: flash_ready_def cache_coherent_def flog_open_sector_def flog_open_page_def
      flash_open_page_def unat_page_of_sector Let_def flash_read_spare_def split: prod.splits)

lemma same_fs_refl: "same_fs w w"
  by (simp add: same_fs_def)

lemma same_fs_trans: "same_fs a b \<Longrightarrow> same_fs b c \<Longrightarrow> same_fs a c"
  unfolding same_fs_def
  apply (cases a, cases b, cases c)
  apply simp
  done

lemma same_fs_fields:
  assumes "same_fs w w'"
  shows "prealloc w' = prealloc w" "num_free_blocks w' = num_free_blocks w"
    "allocate_head w' = allocate_head w" "read_head w' = read_head w"
    "write_head w' = write_head w" "fs_state w' = fs_state w" "fs_t w' = fs_t w"
    "dirty_block_block w' = dirty_block_block w" "dirty_block_file w' = dirty_block_file w"
    "rfiles w' = rfiles w" "wfiles w' = wfiles w" "inode0 w' = inode0 w"
    "max_file_id w' = max_file_id w" "mean_block_age w' = mean_block_age w"
    "num_files w' = num_files w"
    "fl_data (flash w') = fl_data (flash w)" "fl_spare (flash w') = fl_spare (flash w)"
    "fl_bad (flash w') = fl_bad (flash w)" "fl_open_ok (flash w') = fl_open_ok (flash w)"
  using assms unfolding same_fs_def
  by (cases w, cases w', simp)+

lemma open_sector_same: "same_fs w (snd (flog_open_sector cf b s w))"
  by (simp add: same_fs_def flog_open_sector_def flog_open_page_def flash_open_page_def
      Let_def split: prod.splits)

section \<open>The allocator\<close>

lemma flash_ready_head [simp]: "flash_ready cf (w \<lparr> allocate_head := h \<rparr>) = flash_ready cf w"
  by (simp add: flash_ready_def cache_coherent_def)

lemma same_fs_ready_fields:
  "same_fs w w' \<Longrightarrow> unat (allocate_head w') = unat (allocate_head w)"
  by (simp add: same_fs_fields)

lemma unat_inval_sector:
  "conf_ok cf \<Longrightarrow> unat (of_nat (FLOG_FILE_INVALIDATION_SECTOR cf) :: 16 word)
     = FLOG_FILE_INVALIDATION_SECTOR cf"
proof -
  assume ok: "conf_ok cf"
  then have "FS_SECTORS_PER_PAGE cf \<le> FS_PAGES_PER_BLOCK cf * FS_SECTORS_PER_PAGE cf"
    by (simp add: conf_ok_def)
  with ok have "FLOG_FILE_INVALIDATION_SECTOR cf < 65536"
    unfolding conf_ok_def by linarith
  then show ?thesis by (simp add: unat_of_nat)
qed

lemma iterate_spec:
  assumes ok: "conf_ok cf" and rdy: "flash_ready cf w"
  shows "\<exists>w1. same_fs w w1 \<and> flash_ready cf w1 \<and>
     flog_allocate_block_iterate cf u w =
       ((case block_candidate cf (flash w) (unat (allocate_head w)) of
           Some a \<Rightarrow> \<lparr> ba_block = allocate_head w, ba_age = a \<rparr>
         | None \<Rightarrow> \<lparr> ba_block = FLOG_BLOCK_IDX_INVALID, ba_age = u \<rparr>),
        w1 \<lparr> allocate_head := of_nat ((unat (allocate_head w) + 1) mod FS_NUM_BLOCKS cf) \<rparr>)"
proof -
  have spp: "0 < FS_SECTORS_PER_PAGE cf" using ok by (simp add: conf_ok_def)
  define w1 where "w1 = snd (flog_open_sector cf (allocate_head w) 0 w)"
  define w2 where "w2 = snd (flog_open_sector cf (allocate_head w)
                                (of_nat (FLOG_FILE_INVALIDATION_SECTOR cf)) w1)"
  have s1: "same_fs w w1" unfolding w1_def by (rule open_sector_same)
  have r1: "flash_ready cf w1" unfolding w1_def using rdy spp by (rule open_sector_ready)
  have h1: "allocate_head w1 = allocate_head w" using s1 by (simp add: same_fs_fields)
  have s12: "same_fs w1 w2" unfolding w2_def by (rule open_sector_same)
  have s2: "same_fs w w2" using s1 s12 by (rule same_fs_trans)
  have r2: "flash_ready cf w2" unfolding w2_def using r1 spp by (rule open_sector_ready)
  have h2: "allocate_head w2 = allocate_head w" using s2 by (simp add: same_fs_fields)
  have rd0: "flash_read_sector cf 0 0 (flash w1) = fl_data (flash w) (unat (allocate_head w)) 0"
    using open_sector_read [OF rdy spp, of 0 0 "allocate_head w"] by (simp add: w1_def)
  have rd1: "flash_read_sector cf (FLOG_FILE_INVALIDATION_SECTOR cf) 0 (flash w2)
     = fl_data (flash w) (unat (allocate_head w)) (FLOG_FILE_INVALIDATION_SECTOR cf)"
    using open_sector_read [OF r1 spp, of "of_nat (FLOG_FILE_INVALIDATION_SECTOR cf)" 0
        "allocate_head w"] same_fs_fields(16) [OF s1]
    by (simp add: w2_def unat_inval_sector [OF ok] h1)
  show ?thesis
  proof (cases "sector0_age (fl_data (flash w) (unat (allocate_head w)) 0) = FLOG_BLOCK_AGE_INVALID")
    case True
    then have "flog_allocate_block_iterate cf u w =
       (\<lparr> ba_block = allocate_head w, ba_age = 0 \<rparr>,
        w1 \<lparr> allocate_head := of_nat ((unat (allocate_head w) + 1) mod FS_NUM_BLOCKS cf) \<rparr>)"
      unfolding flog_allocate_block_iterate_def
      by (simp add: Let_def w1_def [symmetric] rd0 h1)
    with True s1 r1 show ?thesis by (auto simp: block_candidate_def)
  next
    case False
    then have "flog_allocate_block_iterate cf u w =
       ((case block_candidate cf (flash w) (unat (allocate_head w)) of
           Some a \<Rightarrow> \<lparr> ba_block = allocate_head w, ba_age = a \<rparr>
         | None \<Rightarrow> \<lparr> ba_block = FLOG_BLOCK_IDX_INVALID, ba_age = u \<rparr>),
        w2 \<lparr> allocate_head := of_nat ((unat (allocate_head w) + 1) mod FS_NUM_BLOCKS cf) \<rparr>)"
      unfolding flog_allocate_block_iterate_def
      by (simp add: Let_def w1_def [symmetric] w2_def [symmetric] rd0 rd1 h1 h2 block_candidate_def)
    with s2 r2 show ?thesis by blast
  qed
qed


lemma unat_head_step:
  "conf_ok cf \<Longrightarrow> unat (of_nat (k mod FS_NUM_BLOCKS cf) :: 16 word) = k mod FS_NUM_BLOCKS cf"
proof -
  assume ok: "conf_ok cf"
  then have "k mod FS_NUM_BLOCKS cf < FS_NUM_BLOCKS cf" by (simp add: conf_ok_def)
  with ok have "k mod FS_NUM_BLOCKS cf < 65536" unfolding conf_ok_def by linarith
  then show ?thesis by (simp add: unat_of_nat)
qed

lemma search_none:
  assumes ok: "conf_ok cf"
  shows "flash_ready cf w \<Longrightarrow>
     \<forall>j<i. block_candidate cf (flash w) ((unat (allocate_head w) + j) mod FS_NUM_BLOCKS cf) = None \<Longrightarrow>
     unat (allocate_head w) < FS_NUM_BLOCKS cf \<Longrightarrow>
     \<exists>w1 b. same_fs w w1 \<and> flash_ready cf w1 \<and> (0 < i \<longrightarrow> ba_block b = FLOG_BLOCK_IDX_INVALID) \<and>
        (i = 0 \<longrightarrow> b = blk) \<and>
        allocate_search cf u blk w i =
          (b, w1 \<lparr> allocate_head := of_nat ((unat (allocate_head w) + i) mod FS_NUM_BLOCKS cf) \<rparr>)"
proof (induction i arbitrary: w blk)
  case 0
  have "w = w \<lparr> allocate_head := of_nat (unat (allocate_head w) mod FS_NUM_BLOCKS cf) \<rparr>"
    using 0 by simp
  then show ?case using 0 same_fs_refl [of w] by auto
next
  case (Suc i)
  let ?h = "unat (allocate_head w)"
  from Suc.prems(2) have c0: "block_candidate cf (flash w) ?h = None"
    using Suc.prems(3) by (auto dest: spec [of _ 0])
  from iterate_spec [OF ok Suc.prems(1), of u] obtain w1 where
    w1: "same_fs w w1" "flash_ready cf w1"
    "flog_allocate_block_iterate cf u w =
       (\<lparr> ba_block = FLOG_BLOCK_IDX_INVALID, ba_age = u \<rparr>,
        w1 \<lparr> allocate_head := of_nat ((?h + 1) mod FS_NUM_BLOCKS cf) \<rparr>)"
    using c0 by auto
  let ?w' = "w1 \<lparr> allocate_head := of_nat ((?h + 1) mod FS_NUM_BLOCKS cf) \<rparr>"
  have hd': "unat (allocate_head ?w') = (?h + 1) mod FS_NUM_BLOCKS cf"
    by (simp add: unat_head_step [OF ok])
  have fl: "flash ?w' = flash w1" by simp
  have cand: "block_candidate cf (flash ?w') = block_candidate cf (flash w)"
    by (rule ext) (simp add: block_candidate_def same_fs_fields(16) [OF w1(1)])
  have "\<forall>j<i. block_candidate cf (flash ?w') ((unat (allocate_head ?w') + j) mod FS_NUM_BLOCKS cf) = None"
  proof (intro allI impI)
    fix j assume "j < i"
    then have "block_candidate cf (flash w) ((?h + Suc j) mod FS_NUM_BLOCKS cf) = None"
      using Suc.prems(2) by auto
    moreover have "((?h + 1) mod FS_NUM_BLOCKS cf + j) mod FS_NUM_BLOCKS cf
        = (?h + Suc j) mod FS_NUM_BLOCKS cf"
      by (simp add: mod_add_left_eq)
    ultimately show "block_candidate cf (flash ?w') ((unat (allocate_head ?w') + j) mod FS_NUM_BLOCKS cf) = None"
      by (simp only: cand hd')
  qed
  moreover have "flash_ready cf ?w'" using w1(2) by simp
  moreover have "unat (allocate_head ?w') < FS_NUM_BLOCKS cf"
    by (subst hd') (use ok in \<open>simp add: conf_ok_def\<close>)
  ultimately obtain w2 b where w2: "same_fs ?w' w2" "flash_ready cf w2"
     "0 < i \<longrightarrow> ba_block b = FLOG_BLOCK_IDX_INVALID"
     "i = 0 \<longrightarrow> b = \<lparr> ba_block = FLOG_BLOCK_IDX_INVALID, ba_age = u \<rparr>"
     "allocate_search cf u \<lparr> ba_block = FLOG_BLOCK_IDX_INVALID, ba_age = u \<rparr> ?w' i =
       (b, w2 \<lparr> allocate_head := of_nat ((unat (allocate_head ?w') + i) mod FS_NUM_BLOCKS cf) \<rparr>)"
    using Suc.IH [of ?w' "\<lparr> ba_block = FLOG_BLOCK_IDX_INVALID, ba_age = u \<rparr>"] by blast
  have hh: "(unat (allocate_head ?w') + i) mod FS_NUM_BLOCKS cf = (?h + Suc i) mod FS_NUM_BLOCKS cf"
    by (simp add: unat_head_step [OF ok] mod_add_left_eq)
  let ?w3 = "w2 \<lparr> allocate_head := allocate_head w \<rparr>"
  have "same_fs w ?w3" using w1(1) w2(1) unfolding same_fs_def
    by (cases w, cases w1, cases w2) simp
  moreover have "flash_ready cf ?w3" using w2(2) by simp
  moreover have "ba_block b = FLOG_BLOCK_IDX_INVALID" using w2(3,4) by (cases i) auto
  moreover have "allocate_search cf u blk w (Suc i) =
      (b, ?w3 \<lparr> allocate_head := of_nat ((?h + Suc i) mod FS_NUM_BLOCKS cf) \<rparr>)"
    using w1(3) w2(5) [unfolded hh] by simp
  ultimately show ?case by blast
qed

lemma head_not_invalid:
  assumes "conf_ok cf" "unat (h :: 16 word) < FS_NUM_BLOCKS cf"
  shows "h \<noteq> FLOG_BLOCK_IDX_INVALID"
proof
  assume "h = FLOG_BLOCK_IDX_INVALID"
  then have "unat h = 65535" by (simp add: FLOG_BLOCK_IDX_INVALID_def unsigned_minus_1_eq_mask mask_eq_exp_minus_1)
  with assms show False by (simp add: conf_ok_def)
qed

lemma search_found:
  assumes ok: "conf_ok cf"
  shows "flash_ready cf w \<Longrightarrow> k < i \<Longrightarrow>
     \<forall>j<k. block_candidate cf (flash w) ((unat (allocate_head w) + j) mod FS_NUM_BLOCKS cf) = None \<Longrightarrow>
     block_candidate cf (flash w) ((unat (allocate_head w) + k) mod FS_NUM_BLOCKS cf) = Some a \<Longrightarrow>
     unat (allocate_head w) < FS_NUM_BLOCKS cf \<Longrightarrow>
     \<exists>w1. same_fs w w1 \<and> flash_ready cf w1 \<and>
        allocate_search cf u blk w i =
          (\<lparr> ba_block = of_nat ((unat (allocate_head w) + k) mod FS_NUM_BLOCKS cf), ba_age = a \<rparr>,
           w1 \<lparr> allocate_head := of_nat ((unat (allocate_head w) + k + 1) mod FS_NUM_BLOCKS cf) \<rparr>)"
proof (induction k arbitrary: w blk i)
  case 0
  let ?h = "unat (allocate_head w)"
  from 0 obtain i' where i: "i = Suc i'" by (cases i) auto
  from 0 have c0: "block_candidate cf (flash w) ?h = Some a" by simp
  from iterate_spec [OF ok "0.prems"(1), of u] obtain w1 where
    w1: "same_fs w w1" "flash_ready cf w1"
    "flog_allocate_block_iterate cf u w =
       (\<lparr> ba_block = allocate_head w, ba_age = a \<rparr>,
        w1 \<lparr> allocate_head := of_nat ((?h + 1) mod FS_NUM_BLOCKS cf) \<rparr>)"
    using c0 by auto
  have "allocate_head w \<noteq> FLOG_BLOCK_IDX_INVALID"
    using ok "0.prems"(5) by (rule head_not_invalid)
  moreover have "of_nat ((?h + 0) mod FS_NUM_BLOCKS cf) = allocate_head w"
    using "0.prems"(5) by simp
  ultimately have "allocate_search cf u blk w i =
     (\<lparr> ba_block = of_nat ((?h + 0) mod FS_NUM_BLOCKS cf), ba_age = a \<rparr>,
        w1 \<lparr> allocate_head := of_nat ((?h + 0 + 1) mod FS_NUM_BLOCKS cf) \<rparr>)"
    using w1(3) by (simp add: i)
  with w1(1,2) show ?case by blast
next
  case (Suc k)
  let ?h = "unat (allocate_head w)"
  from Suc.prems obtain i' where i: "i = Suc i'" "k < i'" by (cases i) auto
  from Suc.prems(3) have c0: "block_candidate cf (flash w) ?h = None"
    using Suc.prems(5) by (auto dest: spec [of _ 0])
  from iterate_spec [OF ok Suc.prems(1), of u] obtain w1 where
    w1: "same_fs w w1" "flash_ready cf w1"
    "flog_allocate_block_iterate cf u w =
       (\<lparr> ba_block = FLOG_BLOCK_IDX_INVALID, ba_age = u \<rparr>,
        w1 \<lparr> allocate_head := of_nat ((?h + 1) mod FS_NUM_BLOCKS cf) \<rparr>)"
    using c0 by auto
  let ?w' = "w1 \<lparr> allocate_head := of_nat ((?h + 1) mod FS_NUM_BLOCKS cf) \<rparr>"
  have hd': "unat (allocate_head ?w') = (?h + 1) mod FS_NUM_BLOCKS cf"
    by (simp add: unat_head_step [OF ok])
  have cand: "block_candidate cf (flash ?w') = block_candidate cf (flash w)"
    by (rule ext) (simp add: block_candidate_def same_fs_fields(16) [OF w1(1)])
  have shift: "\<And>j. (unat (allocate_head ?w') + j) mod FS_NUM_BLOCKS cf
        = (?h + Suc j) mod FS_NUM_BLOCKS cf"
    by (simp add: unat_head_step [OF ok] mod_add_left_eq)
  have "\<forall>j<k. block_candidate cf (flash ?w') ((unat (allocate_head ?w') + j) mod FS_NUM_BLOCKS cf) = None"
    using Suc.prems(3) by (simp only: cand shift) auto
  moreover have "block_candidate cf (flash ?w') ((unat (allocate_head ?w') + k) mod FS_NUM_BLOCKS cf) = Some a"
    using Suc.prems(4) by (simp only: cand shift)
  moreover have "flash_ready cf ?w'" using w1(2) by simp
  moreover have "unat (allocate_head ?w') < FS_NUM_BLOCKS cf"
    by (subst hd') (use ok in \<open>simp add: conf_ok_def\<close>)
  ultimately obtain w2 where w2: "same_fs ?w' w2" "flash_ready cf w2"
     "allocate_search cf u \<lparr> ba_block = FLOG_BLOCK_IDX_INVALID, ba_age = u \<rparr> ?w' i' =
       (\<lparr> ba_block = of_nat ((unat (allocate_head ?w') + k) mod FS_NUM_BLOCKS cf), ba_age = a \<rparr>,
        w2 \<lparr> allocate_head := of_nat ((unat (allocate_head ?w') + k + 1) mod FS_NUM_BLOCKS cf) \<rparr>)"
    using Suc.IH [of ?w' i' "\<lparr> ba_block = FLOG_BLOCK_IDX_INVALID, ba_age = u \<rparr>"] i(2) by blast
  have shift1: "(unat (allocate_head ?w') + k + 1) mod FS_NUM_BLOCKS cf
      = (?h + Suc k + 1) mod FS_NUM_BLOCKS cf"
    using shift [of "k + 1"] by (simp add: add.assoc)
  let ?w3 = "w2 \<lparr> allocate_head := allocate_head w \<rparr>"
  have "same_fs w ?w3" using w1(1) w2(1) unfolding same_fs_def
    by (cases w, cases w1, cases w2) simp
  moreover have "flash_ready cf ?w3" using w2(2) by simp
  moreover have "allocate_search cf u blk w i =
      (\<lparr> ba_block = of_nat ((?h + Suc k) mod FS_NUM_BLOCKS cf), ba_age = a \<rparr>,
       ?w3 \<lparr> allocate_head := of_nat ((?h + Suc k + 1) mod FS_NUM_BLOCKS cf) \<rparr>)"
    using w1(3) w2(3) [unfolded shift shift1] by (simp add: i)
  ultimately show ?case by blast
qed

lemma shift_forward_nth:
  "i + k < length bs \<Longrightarrow> j < length bs \<Longrightarrow>
   shift_forward bs i k ! j = (if i \<le> j \<and> j < i + k then bs ! Suc j else bs ! j)"
proof (induction k arbitrary: bs i)
  case 0
  then show ?case by auto
next
  case (Suc k)
  then show ?case by (auto simp: nth_list_update)
qed

lemmas world_defs = world_formatted_def world_prealloc_def world_reset_def flash_formatted_def
  flash_erased_def

lemma flash_ready_prealloc: "flash_ready cf (w \<lparr> prealloc := p \<rparr>) = flash_ready cf w"
  by (simp add: flash_ready_def cache_coherent_def)

lemma allocate_search_unfold:
  "allocate_search cf u block w i =
     (if i = 0 then (block, w)
      else (let (block', w') = flog_allocate_block_iterate cf u w
            in if ba_block block' \<noteq> FLOG_BLOCK_IDX_INVALID then (block', w')
               else allocate_search cf u block' w' (i - 1)))"
  by (cases i) (auto split: prod.splits)

lemma replicate_4: "replicate 4 x = [x, x, x, x]"
  by (simp add: numeral_eq_Suc)

lemmas driver_defs = flash_open_page_def flash_block_is_bad_def flash_read_spare_def
  flash_read_sector_def flash_write_sector_def flash_write_spare_def flash_commit_def
  flash_erase_block_def flog_open_sector_def flog_open_page_def

lemmas field_defs = spare_type_id_def spare_inode_index_def spare_nbytes_def
  invalidation_timestamp_def sector0_age_def tail_next_block_def tail_timestamp_def
  alloc_file_id_def ld32_def ld16_def FLOG_TIMESTAMP_INVALID_def
  FLOG_BLOCK_TYPE_UNALLOCATED_def FLOG_BLOCK_TYPE_INODE_def FLOG_BLOCK_TYPE_FILE_def
  FLOG_BLOCK_IDX_INVALID_def FLOG_FILE_ID_INVALID_def FLOG_BLOCK_AGE_INVALID_def

text \<open>
  Claim C2, as stated, makes every call with free blocks and a non-empty preallocation
  list return the entry at index 0.  The code returns that entry only when it holds a
  block index.  In \<open>world_sentinel\<close> the list has one entry and the entry holds the invalid
  sentinel, as \<^verbatim>\<open>flog_prealloc_iterate\<close> leaves it on the formatted device, where the block
  at the head is in use.  \<^verbatim>\<open>flog_allocate_block\<close> pops the entry, finds the sentinel in it
  and goes on to the scan, which returns block 1 with age 0: the list is left empty and
  the result is not the entry that was at index 0.
\<close>

theorem flog_allocate_block_sentinel_entry:
  "prealloc (flog_prealloc_iterate conf0 9 world_formatted) = prealloc world_sentinel
   \<and> num_free_blocks world_sentinel = 15
   \<and> pa_n (prealloc world_sentinel) = 1
   \<and> pa_blocks (prealloc world_sentinel) ! 0 = \<lparr> ba_block = FLOG_BLOCK_IDX_INVALID, ba_age = 9 \<rparr>
   \<and> fst (flog_allocate_block conf0 0 world_sentinel) = \<lparr> ba_block = 1, ba_age = 0 \<rparr>
   \<and> pa_n (prealloc (snd (flog_allocate_block conf0 0 world_sentinel))) = 0
   \<and> allocate_head (snd (flog_allocate_block conf0 0 world_sentinel)) = 2"
proof -
  have it: "prealloc (flog_prealloc_iterate conf0 9 world_formatted) = prealloc world_sentinel"
    by (simp add: flog_prealloc_iterate_def flog_allocate_block_iterate_def
        flog_prealloc_push_def world_sentinel_def world_defs driver_defs field_defs Let_def
        conf0_def replicate_4)
  have st: "num_free_blocks world_sentinel = 15" "pa_n (prealloc world_sentinel) = 1"
    "pa_blocks (prealloc world_sentinel) ! 0 = \<lparr> ba_block = FLOG_BLOCK_IDX_INVALID, ba_age = 9 \<rparr>"
    by (simp_all add: world_sentinel_def world_defs)
  have al: "flog_allocate_block conf0 0 world_sentinel =
      allocate_search conf0 0 \<lparr> ba_block = FLOG_BLOCK_IDX_INVALID, ba_age = 9 \<rparr>
        (world_sentinel \<lparr> prealloc := (prealloc world_sentinel) \<lparr> pa_n := 0 \<rparr> \<rparr>) 16"
    by (simp add: flog_allocate_block_def flog_prealloc_pop_def world_sentinel_def world_defs
        conf0_def)
  have sc: "allocate_search conf0 0 \<lparr> ba_block = FLOG_BLOCK_IDX_INVALID, ba_age = 9 \<rparr>
        (world_sentinel \<lparr> prealloc := (prealloc world_sentinel) \<lparr> pa_n := 0 \<rparr> \<rparr>) 16
      = (\<lparr> ba_block = 1, ba_age = 0 \<rparr>,
         world_sentinel \<lparr> prealloc := (prealloc world_sentinel) \<lparr> pa_n := 0 \<rparr>,
            allocate_head := 2, page_open := True, page_open_result := FLOG_SUCCESS,
            current_open_block := 1, current_open_page := 0,
            flash := flash_formatted \<lparr> fl_block := 1 \<rparr> \<rparr>)"
    apply (subst allocate_search_unfold)
    apply (simp add: flog_allocate_block_iterate_def world_sentinel_def world_defs driver_defs
        field_defs Let_def conf0_def)
    apply (subst allocate_search_unfold)
    apply (simp add: flog_allocate_block_iterate_def world_sentinel_def world_defs driver_defs
        field_defs Let_def conf0_def)
    done
  show ?thesis
    unfolding al sc using it st by simp
qed

text \<open>
  Claim C2, amended.  \<^verbatim>\<open>flog_allocate_block\<close> returns the invalid sentinel when
  \<open>num_free_blocks\<close> is 0.  Otherwise it pops the preallocation list.  When the list is not
  empty and its first entry holds a block index, the call returns that entry and leaves
  the list as \<^verbatim>\<open>flog_prealloc_pop\<close> leaves it: one entry shorter, the others moved one place
  forward.  When the list is empty, or when the entry that was popped holds the invalid
  sentinel, the call scans, on the state \<open>w\<^sub>0\<close> with the list as the pop has left it: with
  \<open>k\<close> the least offset below \<open>FS_NUM_BLOCKS\<close> such that the block at \<open>allocate_head + k\<close>
  (modulo \<open>FS_NUM_BLOCKS\<close>) is a candidate, that block is returned with the candidate's age
  (0 for a block whose sector-0 age is all-ones, the sector-0 age for a block whose
  invalidation timestamp is written), \<open>allocate_head\<close> has advanced \<open>k + 1\<close> times modulo
  \<open>FS_NUM_BLOCKS\<close>, and nothing else of \<open>w\<^sub>0\<close> has changed.  The blocks before the returned
  one were in use and skipped; the scan stops at the first candidate and pushes nothing
  onto the preallocation list.  When none of the \<open>FS_NUM_BLOCKS\<close> blocks is a candidate,
  the scan stops after \<open>FS_NUM_BLOCKS\<close> iterations with the invalid sentinel and
  \<open>allocate_head\<close> back where it started.
\<close>

theorem flog_allocate_block_spec:
  assumes ok: "conf_ok cf" and rdy: "flash_ready cf w"
    and hd: "unat (allocate_head w) < FS_NUM_BLOCKS cf"
  shows "(num_free_blocks w = 0 \<longrightarrow>
            flog_allocate_block cf u w = (\<lparr> ba_block = FLOG_BLOCK_IDX_INVALID, ba_age = u \<rparr>, w))
    \<and> (num_free_blocks w \<noteq> 0 \<and> pa_n (prealloc w) \<noteq> 0
          \<and> ba_block (pa_blocks (prealloc w) ! 0) \<noteq> FLOG_BLOCK_IDX_INVALID \<longrightarrow>
        flog_allocate_block cf u w =
          (pa_blocks (prealloc w) ! 0, w \<lparr> prealloc := snd (flog_prealloc_pop u (prealloc w)) \<rparr>)
        \<and> pa_n (snd (flog_prealloc_pop u (prealloc w))) = pa_n (prealloc w) - 1
        \<and> (unat (pa_n (prealloc w)) \<le> length (pa_blocks (prealloc w)) \<longrightarrow>
             (\<forall>j. Suc j < unat (pa_n (prealloc w)) \<longrightarrow>
                pa_blocks (snd (flog_prealloc_pop u (prealloc w))) ! j
                  = pa_blocks (prealloc w) ! Suc j)))
    \<and> (num_free_blocks w \<noteq> 0
          \<and> (pa_n (prealloc w) = 0
               \<or> ba_block (pa_blocks (prealloc w) ! 0) = FLOG_BLOCK_IDX_INVALID) \<longrightarrow>
         (pa_n (prealloc w) = 0 \<longrightarrow> snd (flog_prealloc_pop u (prealloc w)) = prealloc w)
         \<and> (pa_n (prealloc w) \<noteq> 0 \<longrightarrow>
               pa_n (snd (flog_prealloc_pop u (prealloc w))) = pa_n (prealloc w) - 1)
         \<and> (\<forall>k a. k < FS_NUM_BLOCKS cf
            \<and> (\<forall>j<k. block_candidate cf (flash w)
                       ((unat (allocate_head w) + j) mod FS_NUM_BLOCKS cf) = None)
            \<and> block_candidate cf (flash w)
                 ((unat (allocate_head w) + k) mod FS_NUM_BLOCKS cf) = Some a \<longrightarrow>
            fst (flog_allocate_block cf u w) =
              \<lparr> ba_block = of_nat ((unat (allocate_head w) + k) mod FS_NUM_BLOCKS cf),
                ba_age = a \<rparr>
            \<and> allocate_head (snd (flog_allocate_block cf u w)) =
                of_nat ((unat (allocate_head w) + k + 1) mod FS_NUM_BLOCKS cf)
            \<and> same_fs (w \<lparr> prealloc := snd (flog_prealloc_pop u (prealloc w)) \<rparr>)
                 (snd (flog_allocate_block cf u w) \<lparr> allocate_head := allocate_head w \<rparr>))
         \<and> ((\<forall>j<FS_NUM_BLOCKS cf. block_candidate cf (flash w)
                       ((unat (allocate_head w) + j) mod FS_NUM_BLOCKS cf) = None) \<longrightarrow>
            ba_block (fst (flog_allocate_block cf u w)) = FLOG_BLOCK_IDX_INVALID
            \<and> allocate_head (snd (flog_allocate_block cf u w)) = allocate_head w
            \<and> same_fs (w \<lparr> prealloc := snd (flog_prealloc_pop u (prealloc w)) \<rparr>)
                 (snd (flog_allocate_block cf u w))))"
proof (intro conjI impI allI)
  assume "num_free_blocks w = 0"
  then show "flog_allocate_block cf u w = (\<lparr> ba_block = FLOG_BLOCK_IDX_INVALID, ba_age = u \<rparr>, w)"
    by (simp add: flog_allocate_block_def)
next
  assume "num_free_blocks w \<noteq> 0 \<and> pa_n (prealloc w) \<noteq> 0
          \<and> ba_block (pa_blocks (prealloc w) ! 0) \<noteq> FLOG_BLOCK_IDX_INVALID"
  then show "flog_allocate_block cf u w =
          (pa_blocks (prealloc w) ! 0, w \<lparr> prealloc := snd (flog_prealloc_pop u (prealloc w)) \<rparr>)"
    by (simp add: flog_allocate_block_def flog_prealloc_pop_def)
next
  assume "num_free_blocks w \<noteq> 0 \<and> pa_n (prealloc w) \<noteq> 0
          \<and> ba_block (pa_blocks (prealloc w) ! 0) \<noteq> FLOG_BLOCK_IDX_INVALID"
  then show "pa_n (snd (flog_prealloc_pop u (prealloc w))) = pa_n (prealloc w) - 1"
    by (simp add: flog_prealloc_pop_def)
next
  fix j
  assume a: "num_free_blocks w \<noteq> 0 \<and> pa_n (prealloc w) \<noteq> 0
          \<and> ba_block (pa_blocks (prealloc w) ! 0) \<noteq> FLOG_BLOCK_IDX_INVALID"
    and len: "unat (pa_n (prealloc w)) \<le> length (pa_blocks (prealloc w))"
    and j: "Suc j < unat (pa_n (prealloc w))"
  from a have "unat (pa_n (prealloc w)) \<noteq> 0" by (simp add: unat_eq_0)
  then have n1: "unat (pa_n (prealloc w) - 1) = unat (pa_n (prealloc w)) - 1"
    by (simp add: unat_minus_one unat_eq_0)
  show "pa_blocks (snd (flog_prealloc_pop u (prealloc w))) ! j = pa_blocks (prealloc w) ! Suc j"
    using a len j by (simp add: flog_prealloc_pop_def n1 shift_forward_nth)
next
  assume "pa_n (prealloc w) = 0"
  then show "snd (flog_prealloc_pop u (prealloc w)) = prealloc w"
    by (simp add: flog_prealloc_pop_def)
next
  assume "pa_n (prealloc w) \<noteq> 0"
  then show "pa_n (snd (flog_prealloc_pop u (prealloc w))) = pa_n (prealloc w) - 1"
    by (simp add: flog_prealloc_pop_def)
next
  fix k a
  let ?blk = "fst (flog_prealloc_pop u (prealloc w))"
  let ?w0 = "w \<lparr> prealloc := snd (flog_prealloc_pop u (prealloc w)) \<rparr>"
  assume a: "num_free_blocks w \<noteq> 0
          \<and> (pa_n (prealloc w) = 0
               \<or> ba_block (pa_blocks (prealloc w) ! 0) = FLOG_BLOCK_IDX_INVALID)"
    and b: "k < FS_NUM_BLOCKS cf
            \<and> (\<forall>j<k. block_candidate cf (flash w)
                       ((unat (allocate_head w) + j) mod FS_NUM_BLOCKS cf) = None)
            \<and> block_candidate cf (flash w)
                 ((unat (allocate_head w) + k) mod FS_NUM_BLOCKS cf) = Some a"
  have n: "unat (of_nat (FS_NUM_BLOCKS cf) :: 16 word) = FS_NUM_BLOCKS cf"
    using ok by (simp add: conf_ok_def unat_of_nat)
  have inv: "ba_block ?blk = FLOG_BLOCK_IDX_INVALID"
    using a by (auto simp: flog_prealloc_pop_def)
  have eq: "flog_allocate_block cf u w = allocate_search cf u ?blk ?w0 (FS_NUM_BLOCKS cf)"
    using a inv by (simp add: flog_allocate_block_def n case_prod_beta Let_def)
  have rdy0: "flash_ready cf ?w0" using rdy by (simp add: flash_ready_prealloc)
  have b0: "k < FS_NUM_BLOCKS cf"
    "\<forall>j<k. block_candidate cf (flash ?w0)
               ((unat (allocate_head ?w0) + j) mod FS_NUM_BLOCKS cf) = None"
    "block_candidate cf (flash ?w0)
         ((unat (allocate_head ?w0) + k) mod FS_NUM_BLOCKS cf) = Some a"
    "unat (allocate_head ?w0) < FS_NUM_BLOCKS cf"
    using b hd by simp_all
  from search_found [OF ok rdy0 b0, where u = u and blk = ?blk]
  obtain w1 where w1: "same_fs ?w0 w1" "flash_ready cf w1"
    "allocate_search cf u ?blk ?w0 (FS_NUM_BLOCKS cf) =
          (\<lparr> ba_block = of_nat ((unat (allocate_head w) + k) mod FS_NUM_BLOCKS cf), ba_age = a \<rparr>,
           w1 \<lparr> allocate_head := of_nat ((unat (allocate_head w) + k + 1) mod FS_NUM_BLOCKS cf) \<rparr>)"
    by auto
  show "fst (flog_allocate_block cf u w) =
              \<lparr> ba_block = of_nat ((unat (allocate_head w) + k) mod FS_NUM_BLOCKS cf),
                ba_age = a \<rparr>"
    by (simp add: eq w1(3))
  show "allocate_head (snd (flog_allocate_block cf u w)) =
                of_nat ((unat (allocate_head w) + k + 1) mod FS_NUM_BLOCKS cf)"
    by (simp add: eq w1(3))
  have "allocate_head w1 = allocate_head w"
    using same_fs_fields(3) [OF w1(1)] by simp
  then have "w1 \<lparr> allocate_head := allocate_head w \<rparr> = w1"
    by (cases w1) simp
  then show "same_fs ?w0 (snd (flog_allocate_block cf u w) \<lparr> allocate_head := allocate_head w \<rparr>)"
    using w1(1) by (simp add: eq w1(3))
next
  let ?blk = "fst (flog_prealloc_pop u (prealloc w))"
  let ?w0 = "w \<lparr> prealloc := snd (flog_prealloc_pop u (prealloc w)) \<rparr>"
  assume a: "num_free_blocks w \<noteq> 0
          \<and> (pa_n (prealloc w) = 0
               \<or> ba_block (pa_blocks (prealloc w) ! 0) = FLOG_BLOCK_IDX_INVALID)"
    and b: "\<forall>j<FS_NUM_BLOCKS cf. block_candidate cf (flash w)
                       ((unat (allocate_head w) + j) mod FS_NUM_BLOCKS cf) = None"
  have n: "unat (of_nat (FS_NUM_BLOCKS cf) :: 16 word) = FS_NUM_BLOCKS cf"
    using ok by (simp add: conf_ok_def unat_of_nat)
  have inv: "ba_block ?blk = FLOG_BLOCK_IDX_INVALID"
    using a by (auto simp: flog_prealloc_pop_def)
  have eq: "flog_allocate_block cf u w = allocate_search cf u ?blk ?w0 (FS_NUM_BLOCKS cf)"
    using a inv by (simp add: flog_allocate_block_def n case_prod_beta Let_def)
  have rdy0: "flash_ready cf ?w0" using rdy by (simp add: flash_ready_prealloc)
  have b0: "\<forall>j<FS_NUM_BLOCKS cf. block_candidate cf (flash ?w0)
               ((unat (allocate_head ?w0) + j) mod FS_NUM_BLOCKS cf) = None"
    "unat (allocate_head ?w0) < FS_NUM_BLOCKS cf"
    using b hd by simp_all
  from search_none [OF ok rdy0 b0, where u = u and blk = ?blk]
  obtain w1 bb where w1: "same_fs ?w0 w1" "flash_ready cf w1"
    "0 < FS_NUM_BLOCKS cf \<longrightarrow> ba_block bb = FLOG_BLOCK_IDX_INVALID"
    "allocate_search cf u ?blk ?w0 (FS_NUM_BLOCKS cf) =
          (bb, w1 \<lparr> allocate_head := of_nat ((unat (allocate_head w) + FS_NUM_BLOCKS cf) mod FS_NUM_BLOCKS cf) \<rparr>)"
    by auto
  have hback: "of_nat ((unat (allocate_head w) + FS_NUM_BLOCKS cf) mod FS_NUM_BLOCKS cf)
     = allocate_head w" using hd by simp
  have "allocate_head w1 = allocate_head w"
    using same_fs_fields(3) [OF w1(1)] by simp
  then have w1': "w1 \<lparr> allocate_head := allocate_head w \<rparr> = w1"
    by (cases w1) simp
  show "ba_block (fst (flog_allocate_block cf u w)) = FLOG_BLOCK_IDX_INVALID"
    using w1(3) ok by (simp add: eq w1(4) conf_ok_def)
  show "allocate_head (snd (flog_allocate_block cf u w)) = allocate_head w"
    using hd by (simp add: eq w1(4))
  show "same_fs ?w0 (snd (flog_allocate_block cf u w))"
    using w1(1) hd w1' by (simp add: eq w1(4))
qed

theorem flog_allocate_block_spec_witness:
  "conf_ok conf0
   \<and> flash_ready conf0 world_formatted
   \<and> unat (allocate_head world_formatted) < FS_NUM_BLOCKS conf0
   \<and> ba_block (fst (flog_allocate_block conf0 0 (world_formatted \<lparr> num_free_blocks := 0 \<rparr>)))
       = FLOG_BLOCK_IDX_INVALID
   \<and> fst (flog_allocate_block conf0 0 world_prealloc) = \<lparr> ba_block = 5, ba_age = 2 \<rparr>
   \<and> fst (flog_allocate_block conf0 0 world_formatted) = \<lparr> ba_block = 1, ba_age = 0 \<rparr>
   \<and> allocate_head (snd (flog_allocate_block conf0 0 world_formatted)) = 2
   \<and> fst (flog_allocate_block conf0 0 world_sentinel) = \<lparr> ba_block = 1, ba_age = 0 \<rparr>
   \<and> allocate_head (snd (flog_allocate_block conf0 0 world_sentinel)) = 2"
proof -
  let ?wA = "world_formatted \<lparr> num_free_blocks := 0 \<rparr>"
  have ok: "conf_ok conf0" by (simp add: conf_ok_def conf0_def)
  have N: "FS_NUM_BLOCKS conf0 = 16" by (simp add: conf0_def)
  have rA: "flash_ready conf0 ?wA"
    by (simp add: flash_ready_def cache_coherent_def world_defs)
  have rB: "flash_ready conf0 world_prealloc"
    by (simp add: flash_ready_def cache_coherent_def world_defs)
  have rC: "flash_ready conf0 world_formatted"
    by (simp add: flash_ready_def cache_coherent_def world_defs)
  have rD: "flash_ready conf0 world_sentinel"
    by (simp add: flash_ready_def cache_coherent_def world_sentinel_def world_defs)
  have hA: "unat (allocate_head ?wA) < FS_NUM_BLOCKS conf0"
    by (simp add: world_defs N)
  have hB: "unat (allocate_head world_prealloc) < FS_NUM_BLOCKS conf0"
    by (simp add: world_defs N)
  have hC: "unat (allocate_head world_formatted) < FS_NUM_BLOCKS conf0"
    by (simp add: world_defs N)
  have hD: "unat (allocate_head world_sentinel) < FS_NUM_BLOCKS conf0"
    by (simp add: world_sentinel_def world_defs N)
  have c0: "block_candidate conf0 (flash world_formatted) 0 = None"
    by (simp add: block_candidate_def world_defs
        conf0_def sector0_age_def invalidation_timestamp_def ld32_def
        FLOG_BLOCK_AGE_INVALID_def FLOG_TIMESTAMP_INVALID_def)
  have c1: "block_candidate conf0 (flash world_formatted) (Suc 0) = Some 0"
    by (simp add: block_candidate_def world_defs
        conf0_def sector0_age_def invalidation_timestamp_def ld32_def
        FLOG_BLOCK_AGE_INVALID_def FLOG_TIMESTAMP_INVALID_def)
  have A: "ba_block (fst (flog_allocate_block conf0 0 ?wA)) = FLOG_BLOCK_IDX_INVALID"
    using flog_allocate_block_spec [OF ok rA hA, of 0] by simp
  have B0: "num_free_blocks world_prealloc \<noteq> 0 \<and> pa_n (prealloc world_prealloc) \<noteq> 0
          \<and> ba_block (pa_blocks (prealloc world_prealloc) ! 0) \<noteq> FLOG_BLOCK_IDX_INVALID"
     "pa_blocks (prealloc world_prealloc) ! 0 = \<lparr> ba_block = 5, ba_age = 2 \<rparr>"
    by (simp_all add: world_defs FLOG_BLOCK_IDX_INVALID_def)
  have B: "fst (flog_allocate_block conf0 0 world_prealloc) = \<lparr> ba_block = 5, ba_age = 2 \<rparr>"
    using flog_allocate_block_spec [OF ok rB hB, of 0, THEN conjunct2, THEN conjunct1,
        THEN mp, OF B0(1), THEN conjunct1]
    by (simp add: B0(2))
  have C0: "allocate_head world_formatted = 0"
    "num_free_blocks world_formatted \<noteq> 0
       \<and> (pa_n (prealloc world_formatted) = 0
            \<or> ba_block (pa_blocks (prealloc world_formatted) ! 0) = FLOG_BLOCK_IDX_INVALID)"
    by (simp_all add: world_defs)
  have C: "fst (flog_allocate_block conf0 0 world_formatted) = \<lparr> ba_block = 1, ba_age = 0 \<rparr>
     \<and> allocate_head (snd (flog_allocate_block conf0 0 world_formatted)) = 2"
    using flog_allocate_block_spec [OF ok rC hC, of 0, THEN conjunct2, THEN conjunct2,
        THEN mp, OF C0(2), THEN conjunct2, THEN conjunct2, THEN conjunct1,
        THEN spec, THEN spec, of 1 0] c0 c1
    by (simp add: C0(1) N)
  have D0: "allocate_head world_sentinel = 0" "flash world_sentinel = flash world_formatted"
    "num_free_blocks world_sentinel \<noteq> 0
       \<and> (pa_n (prealloc world_sentinel) = 0
            \<or> ba_block (pa_blocks (prealloc world_sentinel) ! 0) = FLOG_BLOCK_IDX_INVALID)"
    by (simp_all add: world_sentinel_def world_defs)
  have D: "fst (flog_allocate_block conf0 0 world_sentinel) = \<lparr> ba_block = 1, ba_age = 0 \<rparr>
     \<and> allocate_head (snd (flog_allocate_block conf0 0 world_sentinel)) = 2"
    using flog_allocate_block_spec [OF ok rD hD, of 0, THEN conjunct2, THEN conjunct2,
        THEN mp, OF D0(3), THEN conjunct2, THEN conjunct2, THEN conjunct1,
        THEN spec, THEN spec, of 1 0] c0 c1
    by (simp add: D0(1,2) N)
  from ok rC hC A B C D show ?thesis by blast
qed

section \<open>The preallocation list\<close>

lemma flog_prealloc_push_single:
  "pa_n p = 1 \<Longrightarrow> flog_prealloc_push cf block age p = p"
  by (simp add: flog_prealloc_push_def)

lemma prealloc_reachable_n:
  "prealloc_reachable cf p \<Longrightarrow> pa_n p = 0 \<or> pa_n p = 1"
  by (induction rule: prealloc_reachable.induct) (auto simp: flog_prealloc_push_def)

text \<open>
  Claim C3.  \<^verbatim>\<open>flog_prealloc_push\<close> is to insert every pushed pair at its sorted position.
  The code does not: the search loop \<^verbatim>\<open>for(i = n - 1; i; i--)\<close> never looks at index 0,
  so a push onto a list of one entry changes nothing.  Here the empty list receives block 3
  of age 5 and then block 7 of age 2; the younger block 7 is not inserted and the list is
  left with block 3 alone.
\<close>

theorem flog_prealloc_push_second_entry_lost:
  "flog_prealloc_push conf0 3 5 (prealloc (world_reset conf0 flash_erased)) =
     \<lparr> pa_blocks = [\<lparr> ba_block = 3, ba_age = 5 \<rparr>, \<lparr> ba_block = 0, ba_age = 0 \<rparr>,
                     \<lparr> ba_block = 0, ba_age = 0 \<rparr>, \<lparr> ba_block = 0, ba_age = 0 \<rparr>],
        pa_n = 1, pa_age_sum = 5 \<rparr>
   \<and> flog_prealloc_push conf0 7 2
         (flog_prealloc_push conf0 3 5 (prealloc (world_reset conf0 flash_erased))) =
     \<lparr> pa_blocks = [\<lparr> ba_block = 3, ba_age = 5 \<rparr>, \<lparr> ba_block = 0, ba_age = 0 \<rparr>,
                     \<lparr> ba_block = 0, ba_age = 0 \<rparr>, \<lparr> ba_block = 0, ba_age = 0 \<rparr>],
        pa_n = 1, pa_age_sum = 5 \<rparr>"
  by (simp add: flog_prealloc_push_def world_reset_def conf0_def numeral_eq_Suc)

lemma flash_ready_same:
  "flash_ready cf w \<Longrightarrow> 0 < FS_SECTORS_PER_PAGE cf \<Longrightarrow>
   flash_ready cf (snd (flog_open_sector cf b s w))
   \<and> same_fs w (snd (flog_open_sector cf b s w))"
  by (simp add: open_sector_ready open_sector_same)

lemma unat_small_sector:
  assumes "conf_ok cf" "s < FS_SECTORS_PER_PAGE cf"
  shows "unat (of_nat s :: 16 word) = s"
proof -
  from assms have "FS_SECTORS_PER_PAGE cf \<le> FS_PAGES_PER_BLOCK cf * FS_SECTORS_PER_PAGE cf"
    by (simp add: conf_ok_def)
  with assms have "s < 65536" unfolding conf_ok_def by linarith
  then show ?thesis by (simp add: unat_of_nat)
qed

lemma same_fs_pure:
  assumes "same_fs w w'"
  shows "inode_succ cf (flash w') = inode_succ cf (flash w)"
    "entry_kind cf (flash w') = entry_kind cf (flash w)"
    "entry_allocation (flash w') = entry_allocation (flash w)"
    "entry_invalidation (flash w') = entry_invalidation (flash w)"
    "inode_first cf (flash w') = inode_first cf (flash w)"
  by (simp_all add: fun_eq_iff inode_succ_def entry_kind_def entry_allocation_def
      entry_invalidation_def inode_first_def same_fs_fields [OF assms] Let_def)

lemma get_next_block_spec:
  assumes ok: "conf_ok cf" and rdy: "flash_ready cf w"
  shows "\<exists>w'. same_fs w w' \<and> flash_ready cf w' \<and>
     flog_universal_get_next_block cf b w =
       ((if b = FLOG_BLOCK_IDX_INVALID then b
         else tail_next_block (fl_data (flash w) (unat b) (FLOG_FILE_TAIL_SECTOR cf))), w')"
proof (cases "b = FLOG_BLOCK_IDX_INVALID")
  case True
  then show ?thesis using rdy same_fs_refl by (auto simp: flog_universal_get_next_block_def)
next
  case False
  have spp: "0 < FS_SECTORS_PER_PAGE cf" using ok by (simp add: conf_ok_def)
  have t: "unat (of_nat (FLOG_FILE_TAIL_SECTOR cf) :: 16 word) = FLOG_FILE_TAIL_SECTOR cf"
    by (rule unat_small_sector [OF ok]) (use ok in \<open>simp add: conf_ok_def\<close>)
  let ?w1 = "snd (flog_open_sector cf b (of_nat (FLOG_FILE_TAIL_SECTOR cf)) w)"
  have "flash_read_sector cf (FLOG_FILE_TAIL_SECTOR cf) 0 (flash ?w1)
      = fl_data (flash w) (unat b) (FLOG_FILE_TAIL_SECTOR cf)"
    using open_sector_read [OF rdy spp, of "of_nat (FLOG_FILE_TAIL_SECTOR cf)" 0 b]
    by (simp add: t)
  then show ?thesis
    using False flash_ready_same [OF rdy spp, of b "of_nat (FLOG_FILE_TAIL_SECTOR cf)"]
    by (auto simp: flog_universal_get_next_block_def Let_def)
qed

lemma iterator_next_spec:
  assumes ok: "conf_ok cf" and rdy: "flash_ready cf w"
  shows "\<exists>w'. same_fs w w' \<and> flash_ready cf w' \<and>
     flog_inode_iterator_next cf iter w = (inode_succ cf (flash w) iter, w')"
proof -
  let ?nb = "it_next_block iter"
  from get_next_block_spec [OF ok rdy, of ?nb] obtain w' where
    w': "same_fs w w'" "flash_ready cf w'"
      "flog_universal_get_next_block cf ?nb w =
       ((if ?nb = FLOG_BLOCK_IDX_INVALID then ?nb
         else tail_next_block (fl_data (flash w) (unat ?nb) (FLOG_FILE_TAIL_SECTOR cf))), w')"
    by auto
  show ?thesis
  proof (cases "FS_SECTORS_PER_BLOCK cf \<le> unat (it_sector iter + 2)
                 \<and> ?nb \<noteq> FLOG_BLOCK_IDX_INVALID")
    case True
    then have "flog_inode_iterator_next cf iter w = (inode_succ cf (flash w) iter, w')"
      by (simp add: flog_inode_iterator_next_def inode_succ_def Let_def w'(3))
    with w'(1,2) show ?thesis by blast
  next
    case False
    then have "flog_inode_iterator_next cf iter w = (inode_succ cf (flash w) iter, w)"
      by (auto simp: flog_inode_iterator_next_def inode_succ_def Let_def)
    with rdy same_fs_refl show ?thesis by blast
  qed
qed

lemma iterator_init_spec:
  assumes ok: "conf_ok cf" and rdy: "flash_ready cf w"
  shows "\<exists>w'. same_fs w w' \<and> flash_ready cf w' \<and>
     flog_inode_iterator_init cf b w = (inode_first cf (flash w) b, w')"
proof -
  have spp: "0 < FS_SECTORS_PER_PAGE cf" using ok by (simp add: conf_ok_def)
  have t: "unat (of_nat (FLOG_INODE_TAIL_SECTOR cf) :: 16 word) = FLOG_INODE_TAIL_SECTOR cf"
    by (rule unat_small_sector [OF ok]) (use ok in \<open>simp add: conf_ok_def\<close>)
  let ?w1 = "snd (flog_open_sector cf b (of_nat (FLOG_INODE_TAIL_SECTOR cf)) w)"
  let ?w2 = "snd (flog_open_sector cf b 0 ?w1)"
  have r1: "flash_ready cf ?w1" "same_fs w ?w1"
    using flash_ready_same [OF rdy spp] by auto
  have r2: "flash_ready cf ?w2" "same_fs ?w1 ?w2"
    using flash_ready_same [OF r1(1) spp] by auto
  have a: "flash_read_sector cf (FLOG_INODE_TAIL_SECTOR cf) 0 (flash ?w1)
      = fl_data (flash w) (unat b) (FLOG_INODE_TAIL_SECTOR cf)"
    using open_sector_read [OF rdy spp, of "of_nat (FLOG_INODE_TAIL_SECTOR cf)" 0 b]
    by (simp add: t)
  have b: "flash_read_spare cf 0 (flash ?w2) = fl_spare (flash w) (unat b) 0"
    using open_sector_spare [OF r1(1) spp, of 0 b] same_fs_fields(17) [OF r1(2)]
    by simp
  have "flog_inode_iterator_init cf b w = (inode_first cf (flash w) b, ?w2)"
    by (simp add: flog_inode_iterator_init_def inode_first_def Let_def a b)
  moreover have "same_fs w ?w2" using r1(2) r2(2) by (rule same_fs_trans)
  ultimately show ?thesis using r2(1) by blast
qed

lemma find_reads:
  fixes iter :: flog_inode_iterator_t and w :: world and cf :: conf
  assumes ok: "conf_ok cf" and rdy: "flash_ready cf w"
  defines "w1 \<equiv> snd (flog_open_sector cf (it_block iter) (it_sector iter) w)"
  defines "w2 \<equiv> snd (flog_open_sector cf (it_block iter) (it_sector iter + 1) w1)"
  shows "flash_read_sector cf (unat (it_sector iter)) off (flash w1)
           = (\<lambda>i. entry_allocation (flash w) iter (off + i))"
    and "flash_read_sector cf (unat (it_sector iter + 1)) off (flash w2)
           = (\<lambda>i. entry_invalidation (flash w) iter (off + i))"
    and "same_fs w w1" "flash_ready cf w1" "same_fs w w2" "flash_ready cf w2"
proof -
  have spp: "0 < FS_SECTORS_PER_PAGE cf" using ok by (simp add: conf_ok_def)
  show s1: "same_fs w w1" and r1: "flash_ready cf w1"
    unfolding w1_def using flash_ready_same [OF rdy spp] by auto
  have s12: "same_fs w1 w2" and r2: "flash_ready cf w2"
    unfolding w2_def using flash_ready_same [OF r1 spp] by auto
  show "flash_ready cf w2" by (rule r2)
  show "same_fs w w2" using s1 s12 by (rule same_fs_trans)
  show "flash_read_sector cf (unat (it_sector iter)) off (flash w1)
           = (\<lambda>i. entry_allocation (flash w) iter (off + i))"
    unfolding w1_def entry_allocation_def by (rule open_sector_read [OF rdy spp])
  show "flash_read_sector cf (unat (it_sector iter + 1)) off (flash w2)
           = (\<lambda>i. entry_invalidation (flash w) iter (off + i))"
    unfolding w2_def entry_invalidation_def
    using open_sector_read [OF r1 spp, of "it_sector iter + 1" off "it_block iter"]
    by (simp add: same_fs_fields(16) [OF s1])
qed

lemma find_loop_end:
  assumes ok: "conf_ok cf" and rdy: "flash_ready cf w"
    and k: "entry_kind cf (flash w) filename iter = EntryEnd"
  shows "\<exists>w'. same_fs w w' \<and> flash_ready cf w' \<and>
     find_file_loop cf filename result iter w =
       Some (result \<lparr> fr_first_block := FLOG_BLOCK_IDX_INVALID \<rparr>, iter, w')"
proof -
  note rd = find_reads [OF ok rdy, of iter]
  from k have "alloc_file_id (entry_allocation (flash w) iter) = FLOG_FILE_ID_INVALID"
    by (simp add: entry_kind_def split: if_splits)
  then have "find_file_loop cf filename result iter w =
       Some (result \<lparr> fr_first_block := FLOG_BLOCK_IDX_INVALID \<rparr>, iter,
             snd (flog_open_sector cf (it_block iter) (it_sector iter) w))"
    by (subst find_file_loop.simps) (simp add: Let_def rd(1))
  with rd(3,4) show ?thesis by blast
qed

lemma find_loop_found:
  assumes ok: "conf_ok cf" and rdy: "flash_ready cf w"
    and k: "entry_kind cf (flash w) filename iter = EntryFound"
  shows "\<exists>w'. same_fs w w' \<and> flash_ready cf w' \<and>
     find_file_loop cf filename result iter w =
       Some (\<lparr> fr_file_id = alloc_file_id (entry_allocation (flash w) iter),
               fr_first_block = alloc_first_block (entry_allocation (flash w) iter) \<rparr>, iter, w')"
proof -
  note rd = find_reads [OF ok rdy, of iter]
  from k have a: "alloc_file_id (entry_allocation (flash w) iter) \<noteq> FLOG_FILE_ID_INVALID"
    "strncmp filename (\<lambda>i. entry_allocation (flash w) iter (sizeof_inode_file_allocation_header + i))
        (FLOG_MAX_FNAME_LEN cf) = 0"
    "invalidation_timestamp (entry_invalidation (flash w) iter) = FLOG_TIMESTAMP_INVALID"
    by (simp_all add: entry_kind_def split: if_splits)
  have "find_file_loop cf filename result iter w =
       Some (\<lparr> fr_file_id = alloc_file_id (entry_allocation (flash w) iter),
               fr_first_block = alloc_first_block (entry_allocation (flash w) iter) \<rparr>, iter,
             snd (flog_open_sector cf (it_block iter) (it_sector iter + 1)
               (snd (flog_open_sector cf (it_block iter) (it_sector iter) w))))"
    by (subst find_file_loop.simps) (simp add: Let_def rd(1,2) a)
  with rd(5,6) show ?thesis by blast
qed

lemma find_loop_skip:
  assumes ok: "conf_ok cf" and rdy: "flash_ready cf w"
    and k: "entry_kind cf (flash w) filename iter = EntrySkip"
  shows "\<exists>w' result'. same_fs w w' \<and> flash_ready cf w' \<and>
     find_file_loop cf filename result iter w =
       find_file_loop cf filename result' (inode_succ cf (flash w) iter) w'"
proof -
  note rd = find_reads [OF ok rdy, of iter]
  let ?w1 = "snd (flog_open_sector cf (it_block iter) (it_sector iter) w)"
  let ?w2 = "snd (flog_open_sector cf (it_block iter) (it_sector iter + 1) ?w1)"
  from k have a: "alloc_file_id (entry_allocation (flash w) iter) \<noteq> FLOG_FILE_ID_INVALID"
    by (simp add: entry_kind_def split: if_splits)
  show ?thesis
  proof (cases "strncmp filename
       (\<lambda>i. entry_allocation (flash w) iter (sizeof_inode_file_allocation_header + i))
        (FLOG_MAX_FNAME_LEN cf) = 0")
    case False
    from iterator_next_spec [OF ok rd(4), of iter] obtain w' where
      w': "same_fs ?w1 w'" "flash_ready cf w'"
        "flog_inode_iterator_next cf iter ?w1 = (inode_succ cf (flash w) iter, w')"
      by (auto simp: same_fs_pure [OF rd(3)])
    have "find_file_loop cf filename result iter w =
       find_file_loop cf filename result (inode_succ cf (flash w) iter) w'"
      by (subst find_file_loop.simps) (simp add: Let_def rd(1) a False w'(3))
    moreover have "same_fs w w'" using rd(3) w'(1) by (rule same_fs_trans)
    ultimately show ?thesis using w'(2) by blast
  next
    case True
    with k a have b: "invalidation_timestamp (entry_invalidation (flash w) iter)
        \<noteq> FLOG_TIMESTAMP_INVALID"
      by (simp add: entry_kind_def split: if_splits)
    from iterator_next_spec [OF ok rd(6), of iter] obtain w' where
      w': "same_fs ?w2 w'" "flash_ready cf w'"
        "flog_inode_iterator_next cf iter ?w2 = (inode_succ cf (flash w) iter, w')"
      by (auto simp: same_fs_pure [OF rd(5)])
    have "find_file_loop cf filename result iter w =
       find_file_loop cf filename
         \<lparr> fr_file_id = alloc_file_id (entry_allocation (flash w) iter),
           fr_first_block = alloc_first_block (entry_allocation (flash w) iter) \<rparr>
         (inode_succ cf (flash w) iter) w'"
      by (subst find_file_loop.simps) (simp add: Let_def rd(1,2) a True b w'(3))
    moreover have "same_fs w w'" using rd(5) w'(1) by (rule same_fs_trans)
    ultimately show ?thesis using w'(2) by blast
  qed
qed

lemma find_loop_walk:
  assumes ok: "conf_ok cf"
  shows "flash_ready cf w \<Longrightarrow>
    \<forall>j<k. entry_kind cf (flash w) filename ((inode_succ cf (flash w) ^^ j) iter) = EntrySkip \<Longrightarrow>
    \<exists>w' result'. same_fs w w' \<and> flash_ready cf w' \<and>
      (k = 0 \<longrightarrow> result' = result) \<and>
      find_file_loop cf filename result iter w =
        find_file_loop cf filename result' ((inode_succ cf (flash w) ^^ k) iter) w'"
proof (induction k arbitrary: w iter result)
  case 0
  then show ?case using same_fs_refl by auto
next
  case (Suc k)
  from Suc.prems(2) have k0: "entry_kind cf (flash w) filename iter = EntrySkip"
    by (auto dest: spec [of _ 0])
  from find_loop_skip [OF ok Suc.prems(1) k0, of result] obtain w1 r1 where
    w1: "same_fs w w1" "flash_ready cf w1"
      "find_file_loop cf filename result iter w =
         find_file_loop cf filename r1 (inode_succ cf (flash w) iter) w1"
    by blast
  have "\<forall>j<k. entry_kind cf (flash w1) filename
           ((inode_succ cf (flash w1) ^^ j) (inode_succ cf (flash w) iter)) = EntrySkip"
  proof (intro allI impI)
    fix j assume "j < k"
    then have "entry_kind cf (flash w) filename ((inode_succ cf (flash w) ^^ Suc j) iter) = EntrySkip"
      using Suc.prems(2) by auto
    then show "entry_kind cf (flash w1) filename
           ((inode_succ cf (flash w1) ^^ j) (inode_succ cf (flash w) iter)) = EntrySkip"
      by (simp add: same_fs_pure [OF w1(1)] funpow_swap1)
  qed
  from Suc.IH [OF w1(2) this, of r1] obtain w2 r2 where
    w2: "same_fs w1 w2" "flash_ready cf w2"
      "find_file_loop cf filename r1 (inode_succ cf (flash w) iter) w1 =
        find_file_loop cf filename r2
          ((inode_succ cf (flash w1) ^^ k) (inode_succ cf (flash w) iter)) w2"
    by blast
  have "find_file_loop cf filename result iter w =
        find_file_loop cf filename r2 ((inode_succ cf (flash w) ^^ Suc k) iter) w2"
    using w1(3) w2(3) by (simp add: same_fs_pure [OF w1(1)] funpow_swap1)
  moreover have "same_fs w w2" using w1(1) w2(1) by (rule same_fs_trans)
  ultimately show ?case using w2(2) by blast
qed

text \<open>
  Claim C6.  \<^verbatim>\<open>flog_find_file\<close> walks the inode entries from \<open>inode0\<close>; \<open>chain_pos cf w j\<close> is
  the \<open>j\<close>-th position of that walk.  It passes over every entry whose name differs from
  \<open>filename\<close> under \<^verbatim>\<open>strncmp\<close> with bound \<open>FLOG_MAX_FNAME_LEN\<close> and over every matching entry
  whose invalidation timestamp is written.  With the first \<open>k\<close> entries passed over, an
  entry \<open>k\<close> whose file id is all-ones makes it return not-found (\<open>first_block\<close> the
  invalid sentinel), and an entry \<open>k\<close> that matches and has an unwritten invalidation
  timestamp makes it return that entry's file id and first block.  In both cases the
  iterator is left at entry \<open>k\<close> and the file system is as before.
\<close>

theorem flog_find_file_spec:
  assumes ok: "conf_ok cf" and rdy: "flash_ready cf w"
    and skip: "\<forall>j<k. entry_kind cf (flash w) filename (chain_pos cf w j) = EntrySkip"
  shows "(entry_kind cf (flash w) filename (chain_pos cf w k) = EntryEnd \<longrightarrow>
           (\<exists>r w'. flog_find_file cf ur filename w = Some (r, chain_pos cf w k, w')
              \<and> fr_first_block r = FLOG_BLOCK_IDX_INVALID \<and> same_fs w w'))
       \<and> (entry_kind cf (flash w) filename (chain_pos cf w k) = EntryFound \<longrightarrow>
           (\<exists>w'. flog_find_file cf ur filename w =
              Some (\<lparr> fr_file_id = alloc_file_id (entry_allocation (flash w) (chain_pos cf w k)),
                      fr_first_block =
                        alloc_first_block (entry_allocation (flash w) (chain_pos cf w k)) \<rparr>,
                    chain_pos cf w k, w')
              \<and> same_fs w w'))"
proof -
  from iterator_init_spec [OF ok rdy, of "inode0 w"] obtain w0 where
    w0: "same_fs w w0" "flash_ready cf w0"
      "flog_inode_iterator_init cf (inode0 w) w = (inode_first cf (flash w) (inode0 w), w0)"
    by blast
  let ?it0 = "inode_first cf (flash w) (inode0 w)"
  have "\<forall>j<k. entry_kind cf (flash w0) filename ((inode_succ cf (flash w0) ^^ j) ?it0) = EntrySkip"
    using skip by (simp add: same_fs_pure [OF w0(1)] chain_pos_def)
  from find_loop_walk [OF ok w0(2) this, of ur] obtain w1 r1 where
    w1: "same_fs w0 w1" "flash_ready cf w1"
      "find_file_loop cf filename ur ?it0 w0 =
        find_file_loop cf filename r1 ((inode_succ cf (flash w0) ^^ k) ?it0) w1"
    by blast
  have s01: "same_fs w w1" using w0(1) w1(1) by (rule same_fs_trans)
  have pos: "(inode_succ cf (flash w0) ^^ k) ?it0 = chain_pos cf w k"
    by (simp add: same_fs_pure [OF w0(1)] chain_pos_def)
  have eq: "flog_find_file cf ur filename w = find_file_loop cf filename r1 (chain_pos cf w k) w1"
    by (simp add: flog_find_file_def w0(3) w1(3) pos)
  show ?thesis
  proof (intro conjI impI)
    assume "entry_kind cf (flash w) filename (chain_pos cf w k) = EntryEnd"
    then have "entry_kind cf (flash w1) filename (chain_pos cf w k) = EntryEnd"
      by (simp add: same_fs_pure [OF s01])
    from find_loop_end [OF ok w1(2) this, of r1] obtain w2 where
      "same_fs w1 w2" "find_file_loop cf filename r1 (chain_pos cf w k) w1 =
         Some (r1 \<lparr> fr_first_block := FLOG_BLOCK_IDX_INVALID \<rparr>, chain_pos cf w k, w2)"
      by blast
    moreover from this(1) s01 have "same_fs w w2" by (blast intro: same_fs_trans)
    ultimately show "\<exists>r w'. flog_find_file cf ur filename w = Some (r, chain_pos cf w k, w')
              \<and> fr_first_block r = FLOG_BLOCK_IDX_INVALID \<and> same_fs w w'"
      by (simp add: eq)
  next
    assume "entry_kind cf (flash w) filename (chain_pos cf w k) = EntryFound"
    then have "entry_kind cf (flash w1) filename (chain_pos cf w k) = EntryFound"
      by (simp add: same_fs_pure [OF s01])
    from find_loop_found [OF ok w1(2) this, of r1] obtain w2 where
      "same_fs w1 w2" "find_file_loop cf filename r1 (chain_pos cf w k) w1 =
         Some (\<lparr> fr_file_id = alloc_file_id (entry_allocation (flash w1) (chain_pos cf w k)),
                 fr_first_block = alloc_first_block (entry_allocation (flash w1) (chain_pos cf w k)) \<rparr>,
               chain_pos cf w k, w2)"
      by blast
    moreover from this(1) s01 have "same_fs w w2" by (blast intro: same_fs_trans)
    ultimately show "\<exists>w'. flog_find_file cf ur filename w =
              Some (\<lparr> fr_file_id = alloc_file_id (entry_allocation (flash w) (chain_pos cf w k)),
                      fr_first_block =
                        alloc_first_block (entry_allocation (flash w) (chain_pos cf w k)) \<rparr>,
                    chain_pos cf w k, w')
              \<and> same_fs w w'"
      by (simp add: eq same_fs_pure [OF s01])
  qed
qed

lemma strncmp_from_unfold:
  "strncmp_from s1 s2 i n =
     (if n = 0 then 0
      else if s1 i \<noteq> s2 i then int (unat (s1 i)) - int (unat (s2 i))
      else if s1 i = 0 then 0
      else strncmp_from s1 s2 (i + 1) (n - 1))"
  by (cases n) auto

lemmas one_file_defs = world_one_file_def flash_one_file_def world_reset_def
  flash_formatted_def flash_erased_def inode_entry_def name_a_def name_b_def

lemma one_file_flash: "flash world_one_file = flash_one_file"
  by (simp add: world_one_file_def world_reset_def)

lemmas one_file_flash_defs = one_file_flash flash_one_file_def
  flash_formatted_def flash_erased_def inode_entry_def name_a_def name_b_def
  file_sector0_def file_spare0_def

lemma conf0_simps:
  "FS_NUM_BLOCKS conf0 = 16" "FS_PAGES_PER_BLOCK conf0 = 64" "FS_SECTORS_PER_PAGE conf0 = 4"
  "FS_SECTOR_SIZE conf0 = 512" "FS_PREALLOCATE_SIZE conf0 = 4" "FLOG_MAX_FNAME_LEN conf0 = 32"
  "FLOG_FILE_TAIL_SECTOR conf0 = 2" "FLOG_FILE_INVALIDATION_SECTOR conf0 = 3"
  "FLOG_INODE_TAIL_SECTOR conf0 = 2" "FLOG_INODE_INVALIDATION_SECTOR conf0 = 3"
  by (simp_all add: conf0_def)

lemma conf_ok_conf0: "conf_ok conf0"
  by (simp add: conf_ok_def conf0_simps)

lemma one_file_pos0:
  "chain_pos conf0 world_one_file 0 =
     \<lparr> it_block = 0, it_next_block = 0xFFFF, it_inode_idx = 0, it_inode_block_idx = 0,
       it_sector = 4 \<rparr>"
  by (simp add: chain_pos_def inode_first_def one_file_defs conf0_simps tail_next_block_def
      spare_inode_index_def ld16_def)

lemma one_file_pos1:
  "chain_pos conf0 world_one_file (Suc 0) =
     \<lparr> it_block = 0, it_next_block = 0xFFFF, it_inode_idx = 1, it_inode_block_idx = 0,
       it_sector = 6 \<rparr>"
  using one_file_pos0
  by (simp add: chain_pos_def inode_succ_def conf0_simps FS_SECTORS_PER_BLOCK_def Let_def
      FLOG_BLOCK_IDX_INVALID_def)

lemma one_file_entry0:
  "alloc_file_id (entry_allocation (flash world_one_file) (chain_pos conf0 world_one_file 0)) = 1"
  "alloc_first_block (entry_allocation (flash world_one_file) (chain_pos conf0 world_one_file 0)) = 1"
  by (simp_all add: one_file_pos0 entry_allocation_def one_file_flash_defs alloc_file_id_def
      alloc_first_block_def ld32_def ld16_def st32_def st16_def)

lemma one_file_kinds:
  "entry_kind conf0 (flash world_one_file) name_a (chain_pos conf0 world_one_file 0) = EntryFound"
  "entry_kind conf0 (flash world_one_file) name_b (chain_pos conf0 world_one_file 0) = EntrySkip"
  "entry_kind conf0 (flash world_one_file) name_b (chain_pos conf0 world_one_file (Suc 0)) = EntryEnd"
  by (simp_all add: one_file_pos0 one_file_pos1 entry_kind_def entry_allocation_def
      entry_invalidation_def one_file_flash_defs alloc_file_id_def conf0_simps
      sizeof_inode_file_allocation_header_def invalidation_timestamp_def
      ld32_def st32_def st16_def strncmp_def strncmp_from_unfold
      FLOG_FILE_ID_INVALID_def FLOG_TIMESTAMP_INVALID_def)

theorem flog_find_file_spec_witness:
  "conf_ok conf0 \<and> flash_ready conf0 world_one_file
   \<and> (\<exists>w'. flog_find_file conf0 \<lparr> fr_file_id = 0, fr_first_block = 0 \<rparr> name_a world_one_file =
         Some (\<lparr> fr_file_id = 1, fr_first_block = 1 \<rparr>, chain_pos conf0 world_one_file 0, w'))
   \<and> entry_kind conf0 (flash world_one_file) name_b (chain_pos conf0 world_one_file 0) = EntrySkip
   \<and> (\<exists>r w'. flog_find_file conf0 \<lparr> fr_file_id = 0, fr_first_block = 0 \<rparr> name_b world_one_file =
         Some (r, chain_pos conf0 world_one_file (Suc 0), w')
         \<and> fr_first_block r = FLOG_BLOCK_IDX_INVALID)"
proof -
  have rdy: "flash_ready conf0 world_one_file"
    by (simp add: flash_ready_def cache_coherent_def one_file_defs)
  have a: "\<exists>w'. flog_find_file conf0 \<lparr> fr_file_id = 0, fr_first_block = 0 \<rparr> name_a world_one_file =
         Some (\<lparr> fr_file_id = 1, fr_first_block = 1 \<rparr>, chain_pos conf0 world_one_file 0, w')"
    using flog_find_file_spec [OF conf_ok_conf0 rdy, of 0 name_a
        "\<lparr> fr_file_id = 0, fr_first_block = 0 \<rparr>"]
    by (auto simp: one_file_kinds one_file_entry0)
  have b: "\<exists>r w'. flog_find_file conf0 \<lparr> fr_file_id = 0, fr_first_block = 0 \<rparr> name_b world_one_file =
         Some (r, chain_pos conf0 world_one_file (Suc 0), w')
         \<and> fr_first_block r = FLOG_BLOCK_IDX_INVALID"
    using flog_find_file_spec [OF conf_ok_conf0 rdy, of "Suc 0" name_b
        "\<lparr> fr_file_id = 0, fr_first_block = 0 \<rparr>"]
    by (auto simp: one_file_kinds)
  from conf_ok_conf0 rdy a b one_file_kinds(2) show ?thesis by blast
qed

lemma ls_name_same: "same_fs w w' \<Longrightarrow> ls_name cf (flash w') = ls_name cf (flash w)"
  by (simp add: fun_eq_iff ls_name_def entry_allocation_def same_fs_fields)

lemma ls_iterate_partial:
  assumes run: "flogfs_ls_iterate cf iter dst w = Some y"
  shows "conf_ok cf \<longrightarrow> flash_ready cf w \<longrightarrow> fst y = 1 \<longrightarrow>
     (\<exists>k. fst (snd y) = ls_name cf (flash w) ((inode_succ cf (flash w) ^^ k) iter) dst)"
proof (rule flogfs_ls_iterate.raw_induct [where P = "\<lambda>cf iter dst w y.
     conf_ok cf \<longrightarrow> flash_ready cf w \<longrightarrow> fst y = 1 \<longrightarrow>
     (\<exists>k. fst (snd y) = ls_name cf (flash w) ((inode_succ cf (flash w) ^^ k) iter) dst)"],
     goal_cases)
  case (1 ls cf iter dst w y)
  note IH = 1(1) and body = 1(2)
  show ?case
  proof (intro impI)
    assume ok: "conf_ok cf" and rdy: "flash_ready cf w" and one: "fst y = 1"
    have spp: "0 < FS_SECTORS_PER_PAGE cf" using ok by (simp add: conf_ok_def)
    note rd = find_reads [OF ok rdy, of iter]
    let ?w1 = "snd (flog_open_sector cf (it_block iter) (it_sector iter) w)"
    let ?w2 = "snd (flog_open_sector cf (it_block iter) (it_sector iter + 1) ?w1)"
    let ?w3 = "snd (flog_open_sector cf (it_block iter) (it_sector iter) ?w2)"
    have id: "ld32 (flash_read_sector cf (unat (it_sector iter)) 0 (flash ?w1)) 0
        = alloc_file_id (entry_allocation (flash w) iter)"
      by (simp add: rd(1) alloc_file_id_def)
    have ts: "ld32 (flash_read_sector cf (unat (it_sector iter + 1)) 0 (flash ?w2)) 0
        = invalidation_timestamp (entry_invalidation (flash w) iter)"
      by (simp add: rd(2) invalidation_timestamp_def)
    have nm: "flash_read_sector cf (unat (it_sector iter)) sizeof_inode_file_allocation_header
        (flash ?w3) = (\<lambda>i. entry_allocation (flash w) iter (sizeof_inode_file_allocation_header + i))"
      using open_sector_read [OF rd(6) spp, of "it_sector iter"
          sizeof_inode_file_allocation_header "it_block iter"]
      by (simp add: entry_allocation_def same_fs_fields(16) [OF rd(5)])
    from body one have valid:
      "alloc_file_id (entry_allocation (flash w) iter) \<noteq> FLOG_FILE_ID_INVALID"
      by (auto simp: Let_def id split: if_splits)
    show "\<exists>k. fst (snd y) = ls_name cf (flash w) ((inode_succ cf (flash w) ^^ k) iter) dst"
    proof (cases "invalidation_timestamp (entry_invalidation (flash w) iter) = FLOG_TIMESTAMP_INVALID")
      case True
      with body valid have "fst (snd y) = ls_name cf (flash w) ((inode_succ cf (flash w) ^^ 0) iter) dst"
        by (auto simp: Let_def id ts nm ls_name_def split: prod.splits)
      then show ?thesis by blast
    next
      case False
      from iterator_next_spec [OF ok rd(6), of iter] obtain w' where
        w': "same_fs ?w2 w'" "flash_ready cf w'"
          "flog_inode_iterator_next cf iter ?w2 = (inode_succ cf (flash w) iter, w')"
        by (auto simp: same_fs_pure [OF rd(5)])
      have sw: "same_fs w w'" using rd(5) w'(1) by (rule same_fs_trans)
      from body valid False
      have "ls cf (inode_succ cf (flash w) iter) dst w' = Some y"
        by (simp add: Let_def id ts w'(3))
      from IH [OF this, rule_format, OF ok w'(2) one] obtain k where
        "fst (snd y) = ls_name cf (flash w')
            ((inode_succ cf (flash w') ^^ k) (inode_succ cf (flash w) iter)) dst"
        by blast
      then have "fst (snd y) = ls_name cf (flash w) ((inode_succ cf (flash w) ^^ Suc k) iter) dst"
        by (simp add: same_fs_pure [OF sw] ls_name_same [OF sw] funpow_swap1)
      then show ?thesis by blast
    qed
  qed
next
  case 2
  show ?case by (rule run)
qed

lemma ls_iterate_live:
  assumes ok: "conf_ok cf" and rdy: "flash_ready cf w"
    and valid: "alloc_file_id (entry_allocation (flash w) iter) \<noteq> FLOG_FILE_ID_INVALID"
    and live: "invalidation_timestamp (entry_invalidation (flash w) iter) = FLOG_TIMESTAMP_INVALID"
  shows "\<exists>w'. flogfs_ls_iterate cf iter dst w =
           Some (1, ls_name cf (flash w) iter dst, inode_succ cf (flash w) iter, w')"
proof -
  have spp: "0 < FS_SECTORS_PER_PAGE cf" using ok by (simp add: conf_ok_def)
  note rd = find_reads [OF ok rdy, of iter]
  let ?w1 = "snd (flog_open_sector cf (it_block iter) (it_sector iter) w)"
  let ?w2 = "snd (flog_open_sector cf (it_block iter) (it_sector iter + 1) ?w1)"
  let ?w3 = "snd (flog_open_sector cf (it_block iter) (it_sector iter) ?w2)"
  have id: "ld32 (flash_read_sector cf (unat (it_sector iter)) 0 (flash ?w1)) 0
      = alloc_file_id (entry_allocation (flash w) iter)"
    by (simp add: rd(1) alloc_file_id_def)
  have ts: "ld32 (flash_read_sector cf (unat (it_sector iter + 1)) 0 (flash ?w2)) 0
      = invalidation_timestamp (entry_invalidation (flash w) iter)"
    by (simp add: rd(2) invalidation_timestamp_def)
  have nm: "flash_read_sector cf (unat (it_sector iter)) sizeof_inode_file_allocation_header
      (flash ?w3) i = entry_allocation (flash w) iter (sizeof_inode_file_allocation_header + i)"
    for i
    using open_sector_read [OF rd(6) spp, of "it_sector iter"
        sizeof_inode_file_allocation_header "it_block iter"]
    by (simp add: entry_allocation_def same_fs_fields(16) [OF rd(5)])
  have r3: "flash_ready cf ?w3" "same_fs ?w2 ?w3"
    using flash_ready_same [OF rd(6) spp] by auto
  have s3: "same_fs w ?w3" using rd(5) r3(2) by (rule same_fs_trans)
  from iterator_next_spec [OF ok r3(1), of iter] obtain w' where
    w': "flog_inode_iterator_next cf iter ?w3 = (inode_succ cf (flash w) iter, w')"
    by (auto simp: same_fs_pure [OF s3])
  have "flogfs_ls_iterate cf iter dst w =
           Some (1, ls_name cf (flash w) iter dst, inode_succ cf (flash w) iter, w')"
    by (subst flogfs_ls_iterate.simps)
      (simp add: Let_def id ts nm valid live w' ls_name_def cong: if_cong)
  then show ?thesis by blast
qed

text \<open>
  Claim C10.  Whenever \<^verbatim>\<open>flogfs_ls_iterate\<close> returns 1, the byte of \<open>fname_dst\<close> at index
  \<open>FLOG_MAX_FNAME_LEN - 1\<close> is the nul character, the bytes before it are the filename bytes
  of the allocation record of a live entry (the record's \<open>FLOG_MAX_FNAME_LEN\<close> bytes were
  copied and the last one overwritten), and the bytes from index \<open>FLOG_MAX_FNAME_LEN\<close> on
  are as the caller left them.  (For a length of 0 the C code would write in front of the
  buffer; the statement is about positive lengths.)
\<close>

theorem flogfs_ls_iterate_filename:
  assumes ok: "conf_ok cf" and len: "0 < FLOG_MAX_FNAME_LEN cf" and rdy: "flash_ready cf w"
    and run: "flogfs_ls_iterate cf iter dst w = Some (1, dst', iter', w')"
  shows "dst' (FLOG_MAX_FNAME_LEN cf - 1) = 0
     \<and> (\<exists>k. \<forall>i. i < FLOG_MAX_FNAME_LEN cf - 1 \<longrightarrow>
            dst' i = alloc_filename cf
                       (entry_allocation (flash w) ((inode_succ cf (flash w) ^^ k) iter)) ! i)
     \<and> (\<forall>i. FLOG_MAX_FNAME_LEN cf \<le> i \<longrightarrow> dst' i = dst i)"
proof -
  from ls_iterate_partial [OF run] ok rdy obtain k where
    k: "dst' = ls_name cf (flash w) ((inode_succ cf (flash w) ^^ k) iter) dst"
    by auto
  have "dst' (FLOG_MAX_FNAME_LEN cf - 1) = 0" by (simp add: k ls_name_def)
  moreover have "\<forall>i. i < FLOG_MAX_FNAME_LEN cf - 1 \<longrightarrow>
            dst' i = alloc_filename cf
                       (entry_allocation (flash w) ((inode_succ cf (flash w) ^^ k) iter)) ! i"
  proof (intro allI impI)
    fix i assume "i < FLOG_MAX_FNAME_LEN cf - 1"
    then have "i < FLOG_MAX_FNAME_LEN cf" "i \<noteq> FLOG_MAX_FNAME_LEN cf - 1" by simp_all
    then show "dst' i = alloc_filename cf
                       (entry_allocation (flash w) ((inode_succ cf (flash w) ^^ k) iter)) ! i"
      by (simp add: k ls_name_def alloc_filename_def)
  qed
  moreover have "\<forall>i. FLOG_MAX_FNAME_LEN cf \<le> i \<longrightarrow> dst' i = dst i"
    using len by (auto simp: k ls_name_def)
  ultimately show ?thesis by blast
qed

theorem flogfs_ls_iterate_filename_witness:
  "conf_ok conf0 \<and> 0 < FLOG_MAX_FNAME_LEN conf0 \<and> flash_ready conf0 world_one_file
   \<and> (\<exists>dst' iter' w'.
         flogfs_ls_iterate conf0 (chain_pos conf0 world_one_file 0) (\<lambda>i. 0x55) world_one_file
           = Some (1, dst', iter', w')
         \<and> dst' 31 = 0 \<and> dst' 32 = 0x55)"
proof -
  have rdy: "flash_ready conf0 world_one_file"
    by (simp add: flash_ready_def cache_coherent_def one_file_defs)
  have len: "0 < FLOG_MAX_FNAME_LEN conf0" by (simp add: conf0_simps)
  have "alloc_file_id (entry_allocation (flash world_one_file) (chain_pos conf0 world_one_file 0))
      \<noteq> FLOG_FILE_ID_INVALID"
    by (simp add: one_file_entry0 FLOG_FILE_ID_INVALID_def)
  moreover have "invalidation_timestamp
      (entry_invalidation (flash world_one_file) (chain_pos conf0 world_one_file 0))
      = FLOG_TIMESTAMP_INVALID"
    by (simp add: one_file_pos0 entry_invalidation_def one_file_flash_defs
        invalidation_timestamp_def ld32_def FLOG_TIMESTAMP_INVALID_def)
  ultimately obtain w' where run:
    "flogfs_ls_iterate conf0 (chain_pos conf0 world_one_file 0) (\<lambda>i. 0x55) world_one_file =
       Some (1, ls_name conf0 (flash world_one_file) (chain_pos conf0 world_one_file 0) (\<lambda>i. 0x55),
             inode_succ conf0 (flash world_one_file) (chain_pos conf0 world_one_file 0), w')"
    using ls_iterate_live [OF conf_ok_conf0 rdy] by blast
  from flogfs_ls_iterate_filename [OF conf_ok_conf0 len rdy run]
  have "ls_name conf0 (flash world_one_file) (chain_pos conf0 world_one_file 0) (\<lambda>i. 0x55) 31 = 0
     \<and> ls_name conf0 (flash world_one_file) (chain_pos conf0 world_one_file 0) (\<lambda>i. 0x55) 32 = 0x55"
    by (simp add: conf0_simps)
  with run conf_ok_conf0 len rdy show ?thesis by blast
qed

section \<open>Closing files\<close>

text \<open>
  Claim C7.  \<^verbatim>\<open>flogfs_close_read\<close> is to remove exactly the given descriptor and to report
  failure only when the descriptor is not in the list.  The code does neither.  With the
  descriptors 16 and 32 in the list, closing 32 unlinks it and then runs into the
  \<^verbatim>\<open>goto failure\<close> that follows the loop on every path, so the call reports failure for a
  descriptor that was found; closing 16, the head, sets the head to the null pointer
  instead of \<^verbatim>\<open>file->next\<close>, so descriptor 32 leaves the list as well.
\<close>

theorem flogfs_close_read_two_readers:
  "read_list (rfiles world_two_readers) (read_head world_two_readers) 3 = Some [16, 32]
   \<and> flogfs_close_read 32 world_two_readers =
       Some (Inr (FLOG_FAILURE,
         world_two_readers \<lparr> rfiles := (rfiles world_two_readers)
            (16 := (rfiles world_two_readers 16) \<lparr> rf_next := 0 \<rparr>) \<rparr>))
   \<and> read_list ((rfiles world_two_readers)
            (16 := (rfiles world_two_readers 16) \<lparr> rf_next := 0 \<rparr>))
         (read_head world_two_readers) 3 = Some [16]
   \<and> flogfs_close_read 16 world_two_readers =
       Some (Inr (FLOG_SUCCESS, world_two_readers \<lparr> read_head := 0 \<rparr>))
   \<and> read_list (rfiles world_two_readers) 0 3 = Some []"
  by (simp add: flogfs_close_read_def close_read_loop.simps world_two_readers_def
      rfile0_def numeral_eq_Suc)

text \<open>
  Claim C8.  \<^verbatim>\<open>flogfs_close_write\<close> is to unlink the descriptor and flush its buffered
  data, returning the result of the flush.  For a descriptor that is not the head of the
  list the code unlinks it and then takes the \<^verbatim>\<open>goto failure\<close> that follows the loop on
  every path: descriptor 32 holds 100 unwritten bytes, the call returns failure and
  leaves the flash and the descriptor's buffer as they were, while the flush that was
  skipped would have succeeded.
\<close>

theorem flogfs_close_write_second_writer:
  "write_list (wfiles world_two_writers) (write_head world_two_writers) 3 = Some [16, 32]
   \<and> flogfs_close_write conf0 0 (\<lambda>i. 0xFF) 32 world_two_writers =
       Some (Inr (FLOG_FAILURE,
         world_two_writers \<lparr> wfiles := (wfiles world_two_writers)
            (16 := (wfiles world_two_writers 16) \<lparr> wf_next := 0 \<rparr>) \<rparr>))
   \<and> returned (flog_flush_write conf0 0 (\<lambda>i. 0xFF) 32
         (world_two_writers \<lparr> wfiles := (wfiles world_two_writers)
            (16 := (wfiles world_two_writers 16) \<lparr> wf_next := 0 \<rparr>) \<rparr>))
       = Some (Inr FLOG_SUCCESS)"
proof -
  have "write_list (wfiles world_two_writers) (write_head world_two_writers) 3 = Some [16, 32]"
    by (simp add: world_two_writers_def world_formatted_def wfile0_def numeral_eq_Suc)
  moreover have "flogfs_close_write conf0 0 (\<lambda>i. 0xFF) 32 world_two_writers =
       Some (Inr (FLOG_FAILURE,
         world_two_writers \<lparr> wfiles := (wfiles world_two_writers)
            (16 := (wfiles world_two_writers 16) \<lparr> wf_next := 0 \<rparr>) \<rparr>))"
    by (simp add: flogfs_close_write_def close_write_loop.simps world_two_writers_def
        world_formatted_def wfile0_def)
  moreover have "returned (flog_flush_write conf0 0 (\<lambda>i. 0xFF) 32
         (world_two_writers \<lparr> wfiles := (wfiles world_two_writers)
            (16 := (wfiles world_two_writers 16) \<lparr> wf_next := 0 \<rparr>) \<rparr>))
       = Some (Inr FLOG_SUCCESS)"
    unfolding flog_flush_write_def returned_def
    by (subst flog_commit_file_sector.simps)
       (simp add: world_two_writers_def world_formatted_def wfile0_def conf0_simps
          commit_other_sector_def Let_def read_user_def)
  ultimately show ?thesis by blast
qed

section \<open>Writing\<close>

lemma commit_other_sector_file:
  "\<exists>w'. commit_other_sector cf us file (Some d) n w = Inr (FLOG_SUCCESS, w')
     \<and> wf_sector (wfiles w' file) = flog_increment_sector cf (wf_sector (wfiles w file))
     \<and> wf_sector_remaining_bytes (wfiles w' file) =
         of_nat (FS_SECTOR_SIZE cf) -
           (if unat (flog_increment_sector cf (wf_sector (wfiles w file))) = FLOG_FILE_TAIL_SECTOR cf
            then of_nat sizeof_file_tail_sector_header else 0)
     \<and> wf_write_head (wfiles w' file) = wf_write_head (wfiles w file) + ucast n
     \<and> num_free_blocks w' = num_free_blocks w
     \<and> dirty_block_block w' =
         (if dirty_block_file w = file then FLOG_BLOCK_IDX_INVALID else dirty_block_block w)"
  by (simp add: commit_other_sector_def Let_def read_user_def write_file_update_def
      same_fs_fields [OF open_sector_same])

lemma commit_tail_sector_no_free:
  "num_free_blocks w = 0 \<Longrightarrow> commit_tail_sector cf u us file data n w = Inr (FLOG_FAILURE, w)"
  by (simp add: commit_tail_sector_def flog_allocate_block_def)

text \<open>
  Claim C4.  \<^verbatim>\<open>flogfs_write\<close> is to return the number of bytes it accepted, which is the
  number requested unless an allocation fails.  After a sector commit the code adds
  \<^verbatim>\<open>file->sector_remaining_bytes\<close> to \<^verbatim>\<open>count\<close> and subtracts it from \<^verbatim>\<open>nbytes\<close>, but the
  commit has already set that field to the capacity of the next sector.  Here 12 bytes
  are written where 12 bytes fit: the commit of the 12 bytes succeeds, the field becomes
  496 (the payload of the tail sector), \<^verbatim>\<open>count\<close> becomes 496 and \<^verbatim>\<open>nbytes\<close> wraps around to
  \<open>2^32 - 484\<close>; the loop goes on, the tail commit fails for want of a free block, and the
  call returns 496 for a request of 12 bytes.
\<close>

theorem flogfs_write_count_after_commit:
  "returned (flogfs_write conf0 0 (\<lambda>i. 0xFF) 16 (\<lambda>i. 0x41) 12 world_last_sector)
     = Some (Inr 496)"
proof -
  let ?w = "world_last_sector"
  have f: "wf_sector (wfiles ?w 16) = 255" "wf_sector_remaining_bytes (wfiles ?w 16) = 12"
    "num_free_blocks ?w = 0" "dirty_block_block ?w = FLOG_BLOCK_IDX_INVALID"
    by (simp_all add: world_last_sector_def world_defs wfile0_def)
  have inc: "flog_increment_sector conf0 255 = 2"
    by (simp add: flog_increment_sector_def conf0_simps)
  from commit_other_sector_file [of conf0 "\<lambda>i. 0xFF" 16 "\<lambda>i. 0x41" 12 ?w]
  obtain w' where w':
    "commit_other_sector conf0 (\<lambda>i. 0xFF) 16 (Some (\<lambda>i. 0x41)) 12 ?w = Inr (FLOG_SUCCESS, w')"
    "wf_sector (wfiles w' 16) = 2" "wf_sector_remaining_bytes (wfiles w' 16) = 496"
    "num_free_blocks w' = 0" "dirty_block_block w' = FLOG_BLOCK_IDX_INVALID"
    by (auto simp: f conf0_simps inc sizeof_file_tail_sector_header_def)
  have s1: "flog_commit_file_sector conf0 0 (\<lambda>i. 0xFF) 16 (Some (\<lambda>i. 0x41)) 12 ?w
     = Some (Inr (FLOG_SUCCESS, w'))"
    by (subst flog_commit_file_sector.simps) (simp add: f conf0_simps w')
  have s2: "flog_commit_file_sector conf0 0 (\<lambda>i. 0xFF) 16 (Some d) 496 w'
     = Some (Inr (FLOG_FAILURE, w'))" for d
    by (subst flog_commit_file_sector.simps)
      (simp add: w' conf0_simps commit_tail_sector_no_free)
  show ?thesis
    unfolding flogfs_write_def returned_def
    apply (subst flogfs_write_loop.simps)
    apply (simp add: f s1 w')
    apply (subst flogfs_write_loop.simps)
    apply (simp add: w' s2)
    done
qed

section \<open>Reading\<close>

lemma unat_ucast_16_32: "unat (ucast (r :: 16 word) :: 32 word) = unat r"
proof -
  have "unat r < 2 ^ 16" using unsigned_less [of r, where 'a = nat] by simp
  then have "unat r < 2 ^ 32" by simp
  then show ?thesis by (simp add: unsigned_ucast_eq take_bit_nat_eq_self)
qed

lemma unat_min_word: "unat (min (a :: 32 word) b) = min (unat a) (unat b)"
  by (simp add: min_def word_le_nat_alt)

lemma to_read_unat:
  fixes n :: "32 word" and r :: "16 word"
  defines "t \<equiv> (ucast (min n (ucast r)) :: 16 word)"
  shows "unat t = min (unat n) (unat r)" "unat (ucast t :: 32 word) = min (unat n) (unat r)"
proof -
  have m: "unat (min n (ucast r)) = min (unat n) (unat r)"
    by (simp add: unat_min_word unat_ucast_16_32)
  moreover have "unat r < 2 ^ 16" using unsigned_less [of r, where 'a = nat] by simp
  ultimately have "unat (min n (ucast r)) < 2 ^ 16" by simp
  then show a: "unat t = min (unat n) (unat r)"
    unfolding t_def
    by (simp add: unsigned_ucast_eq take_bit_nat_eq_self m)
  then show "unat (ucast t :: 32 word) = min (unat n) (unat r)"
    by (simp add: unat_ucast_16_32)
qed

lemma read_chunk_count:
  assumes "read_chunk cf file nbytes w = (to_read, bytes, w')"
  shows "unat to_read = min (unat nbytes) (unat (rf_sector_remaining_bytes (rfiles w file)))"
    and "unat (ucast to_read :: 32 word)
           = min (unat nbytes) (unat (rf_sector_remaining_bytes (rfiles w file)))"
    and "length bytes = unat to_read"
  using assms to_read_unat [of nbytes "rf_sector_remaining_bytes (rfiles w file)"]
  by (auto simp: read_chunk_def Let_def)

lemma read_loop_count:
  assumes run: "flogfs_read_loop cf file out nbytes count w = Some y"
  shows "unat count + unat nbytes < 2 ^ 32 \<longrightarrow>
     (\<exists>k\<le>unat nbytes. unat (fst y) = unat count + k \<and> length (fst (snd y)) = length out + k)"
proof (rule flogfs_read_loop.raw_induct [where P = "\<lambda>cf file out nbytes count w y.
     unat count + unat nbytes < 2 ^ 32 \<longrightarrow>
     (\<exists>k\<le>unat nbytes. unat (fst y) = unat count + k \<and> length (fst (snd y)) = length out + k)",
     OF _ run], goal_cases)
  case (1 loop cf fd out nbytes count w y)
  note IH = 1(1) and body = 1(2)
  show ?case
  proof (intro impI)
    assume bound: "unat count + unat nbytes < 2 ^ 32"
    obtain eof w1 where adv:
      "(if rf_sector_remaining_bytes (rfiles w fd) = 0 then read_advance cf fd w
        else (False, w)) = (eof, w1)"
      by (cases "if rf_sector_remaining_bytes (rfiles w fd) = 0 then read_advance cf fd w
        else (False, w)") auto
    show "\<exists>k\<le>unat nbytes. unat (fst y) = unat count + k \<and> length (fst (snd y)) = length out + k"
    proof (cases "nbytes = 0 \<or> eof")
      case True
      with body adv have "y = (count, out, w) \<or> y = (count, out, w1)"
        by (auto split: if_splits)
      then show ?thesis by auto
    next
      case False
      obtain to_read bytes w2 where ch: "read_chunk cf fd nbytes w1 = (to_read, bytes, w2)"
        by (cases "read_chunk cf fd nbytes w1") auto
      note cnt = read_chunk_count [OF ch]
      have le: "unat (ucast to_read :: 32 word) \<le> unat nbytes" using cnt(2) by simp
      then have sub: "unat (nbytes - ucast to_read) = unat nbytes - unat (ucast to_read :: 32 word)"
        by (simp add: unat_sub word_le_nat_alt)
      have add: "unat (count + ucast to_read) = unat count + unat (ucast to_read :: 32 word)"
        using bound le by (simp add: unat_word_ariths)
      from body adv False ch
      have "loop cf fd (out @ bytes) (nbytes - ucast to_read) (count + ucast to_read) w2 = Some y"
        by (simp split: if_splits)
      from IH [OF this, rule_format] bound le obtain k where
        k: "k \<le> unat (nbytes - ucast to_read)"
           "unat (fst y) = unat (count + ucast to_read) + k"
           "length (fst (snd y)) = length (out @ bytes) + k"
        by (auto simp: sub add)
      have "unat (ucast to_read :: 32 word) + k \<le> unat nbytes" using k(1) le by (simp add: sub)
      moreover have "unat (fst y) = unat count + (unat (ucast to_read :: 32 word) + k)"
        using k(2) by (simp add: add)
      moreover have "length (fst (snd y)) = length out + (unat (ucast to_read :: 32 word) + k)"
        using k(3) cnt by simp
      ultimately show ?thesis by blast
    qed
  qed
qed

lemma read_file_update_simps [simp]:
  "flash (read_file_update a g w) = flash w"
  "flash_ready cf (read_file_update a g w) = flash_ready cf w"
  "rfiles (read_file_update a g w) a = g (rfiles w a)"
  by (simp_all add: read_file_update_def flash_ready_def cache_coherent_def)

lemma at_end_of_file_cong:
  "fl_data fl' = fl_data fl \<Longrightarrow> fl_spare fl' = fl_spare fl \<Longrightarrow>
   rf_block f' = rf_block f \<Longrightarrow> rf_sector f' = rf_sector f \<Longrightarrow> rf_id f' = rf_id f \<Longrightarrow>
   at_end_of_file cf fl' f' = at_end_of_file cf fl f"
  by (simp add: at_end_of_file_def)

lemma unat_tail_sector:
  assumes ok: "conf_ok cf"
  shows "unat (of_nat (FLOG_FILE_TAIL_SECTOR cf) :: 16 word) = FLOG_FILE_TAIL_SECTOR cf"
  by (rule unat_small_sector [OF ok]) (use ok in \<open>simp add: conf_ok_def\<close>)

lemma read_advance_eof:
  assumes ok: "conf_ok cf" and rdy: "flash_ready cf w"
    and eof: "at_end_of_file cf (flash w) (rfiles w fd)"
  shows "\<exists>w'. read_advance cf fd w = (True, w') \<and> same_fs w w' \<and> flash_ready cf w'"
proof -
  have spp: "0 < FS_SECTORS_PER_PAGE cf" using ok by (simp add: conf_ok_def)
  let ?f = "rfiles w fd"
  show ?thesis
  proof (cases "unat (rf_sector ?f) = FLOG_FILE_TAIL_SECTOR cf")
    case True
    let ?w1 = "snd (flog_open_sector cf (rf_block ?f) (of_nat (FLOG_FILE_TAIL_SECTOR cf)) w)"
    let ?nb = "tail_next_block (fl_data (flash w) (unat (rf_block ?f)) (FLOG_FILE_TAIL_SECTOR cf))"
    let ?w2 = "snd (flog_open_sector cf ?nb 0 ?w1)"
    have r1: "flash_ready cf ?w1" "same_fs w ?w1" using flash_ready_same [OF rdy spp] by auto
    have r2: "flash_ready cf ?w2" "same_fs ?w1 ?w2" using flash_ready_same [OF r1(1) spp] by auto
    have a: "flash_read_sector cf (FLOG_FILE_TAIL_SECTOR cf) 0 (flash ?w1)
        = fl_data (flash w) (unat (rf_block ?f)) (FLOG_FILE_TAIL_SECTOR cf)"
      using open_sector_read [OF rdy spp, of "of_nat (FLOG_FILE_TAIL_SECTOR cf)" 0 "rf_block ?f"]
      by (simp add: unat_tail_sector [OF ok])
    have b: "flash_read_sector cf 0 0 (flash ?w2) = fl_data (flash w) (unat ?nb) 0"
      using open_sector_read [OF r1(1) spp, of 0 0 ?nb] same_fs_fields(16) [OF r1(2)]
      by simp
    have "read_advance cf fd w = (True, ?w2)"
      using eof True by (simp add: read_advance_def Let_def a b at_end_of_file_def)
    moreover have "same_fs w ?w2" using r1(2) r2(2) by (rule same_fs_trans)
    ultimately show ?thesis using r2(1) by blast
  next
    case False
    let ?s = "flog_increment_sector cf (rf_sector ?f)"
    let ?w1 = "snd (flog_open_sector cf (rf_block ?f) ?s w)"
    have r1: "flash_ready cf ?w1" "same_fs w ?w1" using flash_ready_same [OF rdy spp] by auto
    have a: "flash_read_spare cf (unat ?s) (flash ?w1) = fl_spare (flash w) (unat (rf_block ?f)) (unat ?s)"
      by (rule open_sector_spare [OF rdy spp])
    have "read_advance cf fd w = (True, ?w1)"
      using eof False by (simp add: read_advance_def Let_def a at_end_of_file_def)
    then show ?thesis using r1 by blast
  qed
qed

lemma read_chunk_state:
  assumes ok: "conf_ok cf" and rdy: "flash_ready cf w"
  shows "\<exists>w1. same_fs w w1 \<and> flash_ready cf w1 \<and>
     snd (snd (read_chunk cf fd nbytes w)) =
       read_file_update fd
         (\<lambda>_. (rfiles w fd)
            \<lparr> rf_offset := rf_offset (rfiles w fd) + fst (read_chunk cf fd nbytes w),
              rf_sector_remaining_bytes :=
                rf_sector_remaining_bytes (rfiles w fd) - fst (read_chunk cf fd nbytes w),
              rf_read_head := rf_read_head (rfiles w fd) + ucast (fst (read_chunk cf fd nbytes w)) \<rparr>)
         w1"
proof -
  have spp: "0 < FS_SECTORS_PER_PAGE cf" using ok by (simp add: conf_ok_def)
  let ?w1 = "snd (flog_open_sector cf (rf_block (rfiles w fd)) (rf_sector (rfiles w fd)) w)"
  have "flash_ready cf ?w1" "same_fs w ?w1" using flash_ready_same [OF rdy spp] by auto
  then show ?thesis by (auto simp: read_chunk_def Let_def)
qed

lemma ucast_16_32_inj: "unat (t :: 16 word) = unat (r :: 16 word) \<Longrightarrow> t = r"
  by (simp add: word_unat_eq_iff)

lemma read_advance_next:
  assumes ok: "conf_ok cf" and rdy: "flash_ready cf w"
    and more: "\<not> at_end_of_file cf (flash w) (rfiles w fd)"
  shows "\<exists>w1. read_advance cf fd w =
            (False, read_file_update fd (\<lambda>_. read_successor cf (flash w) (rfiles w fd)) w1)
          \<and> same_fs w w1 \<and> flash_ready cf w1"
proof -
  have spp: "0 < FS_SECTORS_PER_PAGE cf" using ok by (simp add: conf_ok_def)
  let ?f = "rfiles w fd"
  show ?thesis
  proof (cases "unat (rf_sector ?f) = FLOG_FILE_TAIL_SECTOR cf")
    case True
    let ?w1 = "snd (flog_open_sector cf (rf_block ?f) (of_nat (FLOG_FILE_TAIL_SECTOR cf)) w)"
    let ?nb = "tail_next_block (fl_data (flash w) (unat (rf_block ?f)) (FLOG_FILE_TAIL_SECTOR cf))"
    let ?w2 = "snd (flog_open_sector cf ?nb 0 ?w1)"
    have r1: "flash_ready cf ?w1" "same_fs w ?w1" using flash_ready_same [OF rdy spp] by auto
    have r2: "flash_ready cf ?w2" "same_fs ?w1 ?w2" using flash_ready_same [OF r1(1) spp] by auto
    have s2: "same_fs w ?w2" using r1(2) r2(2) by (rule same_fs_trans)
    have a: "flash_read_sector cf (FLOG_FILE_TAIL_SECTOR cf) 0 (flash ?w1)
        = fl_data (flash w) (unat (rf_block ?f)) (FLOG_FILE_TAIL_SECTOR cf)"
      using open_sector_read [OF rdy spp, of "of_nat (FLOG_FILE_TAIL_SECTOR cf)" 0 "rf_block ?f"]
      by (simp add: unat_tail_sector [OF ok])
    have b: "flash_read_sector cf 0 0 (flash ?w2) = fl_data (flash w) (unat ?nb) 0"
      using open_sector_read [OF r1(1) spp, of 0 0 ?nb] same_fs_fields(16) [OF r1(2)]
      by simp
    have c: "flash_read_spare cf 0 (flash ?w2) = fl_spare (flash w) (unat ?nb) 0"
      using open_sector_spare [OF r1(1) spp, of 0 ?nb] same_fs_fields(17) [OF r1(2)]
      by simp
    have f2: "rfiles ?w2 fd = ?f" using same_fs_fields(10) [OF s2] by simp
    have "read_advance cf fd w =
        (False, read_file_update fd (\<lambda>_. read_successor cf (flash w) ?f) ?w2)"
      using more True
      by (simp add: read_advance_def read_successor_def Let_def a b c at_end_of_file_def)
    then show ?thesis using s2 r2(1) by blast
  next
    case False
    let ?s = "flog_increment_sector cf (rf_sector ?f)"
    let ?w1 = "snd (flog_open_sector cf (rf_block ?f) ?s w)"
    have r1: "flash_ready cf ?w1" "same_fs w ?w1" using flash_ready_same [OF rdy spp] by auto
    have a: "flash_read_spare cf (unat ?s) (flash ?w1) = fl_spare (flash w) (unat (rf_block ?f)) (unat ?s)"
      by (rule open_sector_spare [OF rdy spp])
    have "read_advance cf fd w =
        (False, read_file_update fd (\<lambda>_. read_successor cf (flash w) ?f) ?w1)"
      using more False
      by (simp add: read_advance_def read_successor_def Let_def a at_end_of_file_def)
    then show ?thesis using r1 by blast
  qed
qed



lemma read_successor_fields:
  assumes "fl_data fl' = fl_data fl" "fl_spare fl' = fl_spare fl"
    "rf_block f' = rf_block f" "rf_sector f' = rf_sector f" "rf_id f' = rf_id f"
  shows "rf_block (read_successor cf fl' f') = rf_block (read_successor cf fl f)"
    "rf_sector (read_successor cf fl' f') = rf_sector (read_successor cf fl f)"
    "rf_id (read_successor cf fl' f') = rf_id (read_successor cf fl f)"
    "rf_sector_remaining_bytes (read_successor cf fl' f')
       = rf_sector_remaining_bytes (read_successor cf fl f)"
  by (simp_all add: read_successor_def Let_def assms)

lemma file_ends_cong:
  "fl_data fl' = fl_data fl \<Longrightarrow> fl_spare fl' = fl_spare fl \<Longrightarrow>
   rf_block f' = rf_block f \<Longrightarrow> rf_sector f' = rf_sector f \<Longrightarrow> rf_id f' = rf_id f \<Longrightarrow>
   file_ends cf fl' f' k = file_ends cf fl f k"
proof (induction k arbitrary: f f')
  case 0
  then show ?case by (simp add: at_end_of_file_def)
next
  case (Suc k)
  have "file_ends cf fl' (read_successor cf fl' f') k = file_ends cf fl (read_successor cf fl f) k"
    by (rule Suc.IH) (simp_all add: Suc.prems read_successor_fields [OF Suc.prems])
  moreover have "at_end_of_file cf fl' f' = at_end_of_file cf fl f"
    using Suc.prems by (simp add: at_end_of_file_def)
  ultimately show ?case by simp
qed

lemma bytes_ahead_cong:
  "fl_data fl' = fl_data fl \<Longrightarrow> fl_spare fl' = fl_spare fl \<Longrightarrow>
   rf_block f' = rf_block f \<Longrightarrow> rf_sector f' = rf_sector f \<Longrightarrow> rf_id f' = rf_id f \<Longrightarrow>
   bytes_ahead cf fl' f' k + unat (rf_sector_remaining_bytes f)
     = bytes_ahead cf fl f k + unat (rf_sector_remaining_bytes f')"
proof (induction k arbitrary: f f')
  case 0
  then show ?case by simp
next
  case (Suc k)
  note sf = read_successor_fields [OF Suc.prems, of cf]
  have "bytes_ahead cf fl' (read_successor cf fl' f') k
           + unat (rf_sector_remaining_bytes (read_successor cf fl f))
      = bytes_ahead cf fl (read_successor cf fl f) k
           + unat (rf_sector_remaining_bytes (read_successor cf fl' f'))"
    by (rule Suc.IH) (simp_all add: Suc.prems sf)
  then have "bytes_ahead cf fl' (read_successor cf fl' f') k
      = bytes_ahead cf fl (read_successor cf fl f) k"
    by (simp add: sf)
  moreover have "at_end_of_file cf fl' f' = at_end_of_file cf fl f"
    using Suc.prems by (simp add: at_end_of_file_def)
  ultimately show ?case by simp
qed

lemma loop_unfold_chunk:
  assumes "nbytes \<noteq> 0" "rf_sector_remaining_bytes (rfiles w fd) \<noteq> 0"
  shows "flogfs_read_loop cf fd out nbytes count w =
     (case read_chunk cf fd nbytes w of
        (to_read, bytes, w2) \<Rightarrow>
           flogfs_read_loop cf fd (out @ bytes) (nbytes - ucast to_read)
             (count + ucast to_read) w2)"
  using assms by (subst flogfs_read_loop.simps) simp

lemma loop_unfold_advance:
  assumes "nbytes \<noteq> 0" "rf_sector_remaining_bytes (rfiles w fd) = 0"
    "read_advance cf fd w = (False, wa)"
  shows "flogfs_read_loop cf fd out nbytes count w =
     (case read_chunk cf fd nbytes wa of
        (to_read, bytes, w2) \<Rightarrow>
           flogfs_read_loop cf fd (out @ bytes) (nbytes - ucast to_read)
             (count + ucast to_read) w2)"
  using assms by (subst flogfs_read_loop.simps) simp

lemma loop_unfold_eof:
  assumes "nbytes \<noteq> 0" "rf_sector_remaining_bytes (rfiles w fd) = 0"
    "read_advance cf fd w = (True, wa)"
  shows "flogfs_read_loop cf fd out nbytes count w = Some (count, out, wa)"
  using assms by (subst flogfs_read_loop.simps) simp

lemma loop_unfold_zero:
  "flogfs_read_loop cf fd out 0 count w = Some (count, out, w)"
  by (subst flogfs_read_loop.simps) simp

lemma bytes_ahead_ge: "unat (rf_sector_remaining_bytes f) \<le> bytes_ahead cf fl f k"
  by (cases k) simp_all

lemma read_result_nonzero:
  assumes ok: "conf_ok cf"
    and Z: "\<And>w out nbytes count. flash_ready cf w \<Longrightarrow>
              file_ends cf (flash w) (rfiles w fd) k \<Longrightarrow> unat count + unat nbytes < 2 ^ 32 \<Longrightarrow>
              rf_sector_remaining_bytes (rfiles w fd) = 0 \<Longrightarrow>
              read_result cf fd k out nbytes count w"
    and rdy: "flash_ready cf w" and ends: "file_ends cf (flash w) (rfiles w fd) k"
    and bound: "unat count + unat nbytes < 2 ^ 32"
  shows "read_result cf fd k out nbytes count w"
proof (cases "rf_sector_remaining_bytes (rfiles w fd) = 0")
  case True
  then show ?thesis using Z rdy ends bound by blast
next
  case r0: False
  let ?f = "rfiles w fd"
  let ?r = "rf_sector_remaining_bytes ?f"
  let ?B = "bytes_ahead cf (flash w) ?f k"
  have ge: "unat ?r \<le> ?B" by (rule bytes_ahead_ge)
  show ?thesis
  proof (cases "nbytes = 0")
    case True
    then show ?thesis by (simp add: read_result_def loop_unfold_zero)
  next
    case n0: False
    obtain t bytes w2 where ch: "read_chunk cf fd nbytes w = (t, bytes, w2)"
      by (cases "read_chunk cf fd nbytes w") auto
    note cnt = read_chunk_count [OF ch]
    from read_chunk_state [OF ok rdy, of fd nbytes] obtain w1 where
      w1: "same_fs w w1" "flash_ready cf w1"
        "w2 = read_file_update fd
           (\<lambda>_. ?f \<lparr> rf_offset := rf_offset ?f + t,
                     rf_sector_remaining_bytes := ?r - t,
                     rf_read_head := rf_read_head ?f + ucast t \<rparr>) w1"
      by (auto simp: ch)
    have step: "flogfs_read_loop cf fd out nbytes count w =
        flogfs_read_loop cf fd (out @ bytes) (nbytes - ucast t) (count + ucast t) w2"
      using loop_unfold_chunk [OF n0 r0, of cf out count] by (simp add: ch)
    have le: "unat (ucast t :: 32 word) \<le> unat nbytes" using cnt(2) by simp
    have sub: "unat (nbytes - ucast t) = unat nbytes - unat (ucast t :: 32 word)"
      using le by (simp add: unat_sub word_le_nat_alt)
    have add: "unat (count + ucast t) = unat count + unat (ucast t :: 32 word)"
      using bound le by (simp add: unat_word_ariths)
    show ?thesis
    proof (cases "unat nbytes \<le> unat ?r")
      case True
      have tt: "unat (ucast t :: 32 word) = unat nbytes" using cnt(2) True by simp
      then have "ucast t = nbytes" by (simp add: word_unat_eq_iff)
      then have "flogfs_read_loop cf fd out nbytes count w = Some (count + ucast t, out @ bytes, w2)"
        by (simp add: step loop_unfold_zero)
      moreover have "min (unat nbytes) ?B = unat nbytes" using True ge by simp
      moreover have "length bytes = unat nbytes" using cnt(3,1) True by simp
      ultimately show ?thesis unfolding read_result_def using add tt by auto
    next
      case False
      then have "unat t = unat ?r" using cnt(1) by simp
      then have t: "t = ?r" by (rule ucast_16_32_inj)
      have tu: "unat (ucast t :: 32 word) = unat ?r" by (simp add: t unat_ucast_16_32)
      have rem2: "rf_sector_remaining_bytes (rfiles w2 fd) = 0" by (simp add: w1(3) t)
      have rdy2: "flash_ready cf w2" using w1(2) by (simp add: w1(3))
      have arr: "fl_data (flash w2) = fl_data (flash w)" "fl_spare (flash w2) = fl_spare (flash w)"
        by (simp_all add: w1(3) same_fs_fields [OF w1(1)])
      have pos: "rf_block (rfiles w2 fd) = rf_block ?f" "rf_sector (rfiles w2 fd) = rf_sector ?f"
        "rf_id (rfiles w2 fd) = rf_id ?f"
        by (simp_all add: w1(3))
      have ends2: "file_ends cf (flash w2) (rfiles w2 fd) k"
        using file_ends_cong [OF arr pos, of cf k] ends by simp
      have ba: "bytes_ahead cf (flash w2) (rfiles w2 fd) k + unat ?r = ?B"
        using bytes_ahead_cong [OF arr pos, of cf k] rem2 by simp
      have bound2: "unat (count + ucast t) + unat (nbytes - ucast t) < 2 ^ 32"
        using bound le by (simp add: sub add)
      from Z [OF rdy2 ends2 bound2 rem2, of "out @ bytes"] obtain count' out' w' where
        res: "flogfs_read_loop cf fd (out @ bytes) (nbytes - ucast t) (count + ucast t) w2
                = Some (count', (out @ bytes) @ out', w')"
          "unat count' = unat (count + ucast t)
             + min (unat (nbytes - ucast t)) (bytes_ahead cf (flash w2) (rfiles w2 fd) k)"
          "length out' = min (unat (nbytes - ucast t)) (bytes_ahead cf (flash w2) (rfiles w2 fd) k)"
        unfolding read_result_def by blast
      have m: "unat ?r + min (unat (nbytes - ucast t)) (bytes_ahead cf (flash w2) (rfiles w2 fd) k)
          = min (unat nbytes) ?B"
        using False ba by (simp add: sub tu)
      have "flogfs_read_loop cf fd out nbytes count w = Some (count', out @ (bytes @ out'), w')"
        by (simp add: step res(1))
      moreover have "unat count' = unat count + min (unat nbytes) ?B"
        using res(2) m by (simp add: add tu)
      moreover have "length (bytes @ out') = min (unat nbytes) ?B"
        using res(3) m cnt(3) by (simp add: t)
      ultimately show ?thesis unfolding read_result_def by blast
    qed
  qed
qed

lemma read_result_end:
  assumes ok: "conf_ok cf" and rdy: "flash_ready cf w"
    and eof: "at_end_of_file cf (flash w) (rfiles w fd)"
    and r0: "rf_sector_remaining_bytes (rfiles w fd) = 0"
  shows "read_result cf fd k out nbytes count w"
proof (cases "nbytes = 0")
  case True
  then show ?thesis by (simp add: read_result_def loop_unfold_zero)
next
  case False
  from read_advance_eof [OF ok rdy eof] obtain w1 where "read_advance cf fd w = (True, w1)"
    by blast
  from loop_unfold_eof [OF False r0 this, of out count]
  have "flogfs_read_loop cf fd out nbytes count w = Some (count, out, w1)" .
  moreover have "bytes_ahead cf (flash w) (rfiles w fd) k = 0"
    using eof r0 by (cases k) simp_all
  ultimately show ?thesis by (simp add: read_result_def)
qed

lemma read_result_advance:
  assumes ok: "conf_ok cf"
    and IH: "\<And>w out nbytes count. flash_ready cf w \<Longrightarrow>
              file_ends cf (flash w) (rfiles w fd) k \<Longrightarrow> unat count + unat nbytes < 2 ^ 32 \<Longrightarrow>
              read_result cf fd k out nbytes count w"
    and rdy: "flash_ready cf w" and ends: "file_ends cf (flash w) (rfiles w fd) (Suc k)"
    and bound: "unat count + unat nbytes < 2 ^ 32"
    and r0: "rf_sector_remaining_bytes (rfiles w fd) = 0"
  shows "read_result cf fd (Suc k) out nbytes count w"
proof (cases "nbytes = 0 \<or> at_end_of_file cf (flash w) (rfiles w fd)")
  case True
  then show ?thesis
  proof
    assume "nbytes = 0"
    then show ?thesis by (simp add: read_result_def loop_unfold_zero)
  next
    assume "at_end_of_file cf (flash w) (rfiles w fd)"
    then show ?thesis by (rule read_result_end [OF ok rdy _ r0])
  qed
next
  case False
  then have n0: "nbytes \<noteq> 0" and more: "\<not> at_end_of_file cf (flash w) (rfiles w fd)" by auto
  let ?f = "rfiles w fd"
  let ?g = "read_successor cf (flash w) ?f"
  from read_advance_next [OF ok rdy more] obtain w1 where
    adv: "read_advance cf fd w = (False, read_file_update fd (\<lambda>_. ?g) w1)"
    and w1: "same_fs w w1" "flash_ready cf w1"
    by blast
  let ?wa = "read_file_update fd (\<lambda>_. ?g) w1"
  have rdya: "flash_ready cf ?wa" using w1(2) by simp
  have arra: "fl_data (flash ?wa) = fl_data (flash w)" "fl_spare (flash ?wa) = fl_spare (flash w)"
    by (simp_all add: same_fs_fields [OF w1(1)])
  have fa: "rfiles ?wa fd = ?g" by simp
  have endsg: "file_ends cf (flash w) ?g k" using ends more by simp
  have endsa: "file_ends cf (flash ?wa) (rfiles ?wa fd) k"
    using file_ends_cong [OF arra, of "rfiles ?wa fd" ?g cf k] endsg by (simp add: fa)
  have B: "bytes_ahead cf (flash w) ?f (Suc k) = bytes_ahead cf (flash w) ?g k"
    using more r0 by simp
  have Ba: "bytes_ahead cf (flash ?wa) (rfiles ?wa fd) k = bytes_ahead cf (flash w) ?g k"
    using bytes_ahead_cong [OF arra, of "rfiles ?wa fd" ?g cf k] by (simp add: fa)
  note step = loop_unfold_advance [OF n0 r0 adv, of out count]
  show ?thesis
  proof (cases "rf_sector_remaining_bytes ?g = 0")
    case False
    then have "rf_sector_remaining_bytes (rfiles ?wa fd) \<noteq> 0" by (simp add: fa)
    from loop_unfold_chunk [OF n0 this, of cf out count] step
    have same: "flogfs_read_loop cf fd out nbytes count w
        = flogfs_read_loop cf fd out nbytes count ?wa"
      by simp
    from IH [OF rdya endsa bound, of out] show ?thesis
      unfolding read_result_def same by (simp only: B Ba)
  next
    case True
    obtain t bytes w2 where ch: "read_chunk cf fd nbytes ?wa = (t, bytes, w2)"
      by (cases "read_chunk cf fd nbytes ?wa") auto
    note cnt = read_chunk_count [OF ch]
    have "unat t = 0" using cnt(1) True by (simp add: fa)
    then have t: "t = 0" by (simp add: unat_eq_0)
    have bytes: "bytes = []" using cnt(3) t by simp
    from read_chunk_state [OF ok rdya, of fd nbytes] obtain w3 where
      w3: "same_fs ?wa w3" "flash_ready cf w3"
        "w2 = read_file_update fd
           (\<lambda>_. (rfiles ?wa fd) \<lparr> rf_offset := rf_offset (rfiles ?wa fd) + t,
                     rf_sector_remaining_bytes := rf_sector_remaining_bytes (rfiles ?wa fd) - t,
                     rf_read_head := rf_read_head (rfiles ?wa fd) + ucast t \<rparr>) w3"
      by (auto simp: ch)
    have same: "flogfs_read_loop cf fd out nbytes count w
        = flogfs_read_loop cf fd out nbytes count w2"
      using step by (simp add: ch t bytes)
    have rdy2: "flash_ready cf w2" using w3(2) by (simp add: w3(3))
    have arr2: "fl_data (flash w2) = fl_data (flash w)" "fl_spare (flash w2) = fl_spare (flash w)"
      using arra by (simp_all add: w3(3) same_fs_fields [OF w3(1)])
    have pos2: "rf_block (rfiles w2 fd) = rf_block ?g" "rf_sector (rfiles w2 fd) = rf_sector ?g"
      "rf_id (rfiles w2 fd) = rf_id ?g"
      "rf_sector_remaining_bytes (rfiles w2 fd) = rf_sector_remaining_bytes ?g"
      by (simp_all add: w3(3) t)
    have ends2: "file_ends cf (flash w2) (rfiles w2 fd) k"
      using file_ends_cong [OF arr2 pos2(1,2,3), of cf k] endsg by simp
    have B2: "bytes_ahead cf (flash w2) (rfiles w2 fd) k = bytes_ahead cf (flash w) ?g k"
      using bytes_ahead_cong [OF arr2 pos2(1,2,3), of cf k] pos2(4) by simp
    from IH [OF rdy2 ends2 bound, of out] show ?thesis
      unfolding read_result_def same by (simp only: B B2)
  qed
qed

lemma read_loop_total:
  assumes ok: "conf_ok cf"
  shows "flash_ready cf w \<Longrightarrow> file_ends cf (flash w) (rfiles w fd) k \<Longrightarrow>
     unat count + unat nbytes < 2 ^ 32 \<Longrightarrow> read_result cf fd k out nbytes count w"
proof (induction k arbitrary: w out nbytes count)
  case 0
  show ?case
  proof (rule read_result_nonzero [OF ok _ "0.prems"])
    fix w' :: world and out' :: "byte list" and nbytes' count' :: "32 word"
    assume "flash_ready cf w'" "file_ends cf (flash w') (rfiles w' fd) 0"
      "rf_sector_remaining_bytes (rfiles w' fd) = 0"
    then show "read_result cf fd 0 out' nbytes' count' w'"
      using read_result_end [OF ok, of w' fd 0 out' nbytes' count'] by simp
  qed
next
  case (Suc k)
  show ?case
  proof (rule read_result_nonzero [OF ok _ Suc.prems])
    fix w' :: world and out' :: "byte list" and nbytes' count' :: "32 word"
    assume a: "flash_ready cf w'" "file_ends cf (flash w') (rfiles w' fd) (Suc k)"
      "unat count' + unat nbytes' < 2 ^ 32"
      "rf_sector_remaining_bytes (rfiles w' fd) = 0"
    have IH: "read_result cf fd k out nbytes count w"
      if "flash_ready cf w" "file_ends cf (flash w) (rfiles w fd) k"
        "unat count + unat nbytes < 2 ^ 32" for w out nbytes count
      using that by (rule Suc.IH)
    show "read_result cf fd (Suc k) out' nbytes' count' w'"
      using ok IH a by (rule read_result_advance)
  qed
qed

text \<open>
  Claim C5.  For an open read file (a descriptor that is not the null pointer)
  \<^verbatim>\<open>flogfs_read\<close> has no error result: whenever it returns, it returns the number of bytes
  it copied, which is at most \<open>nbytes\<close>.  It does return, whatever the number of sectors
  and blocks it has to cross, when the end of the file lies some \<open>k\<close> sectors ahead of
  the descriptor: the count is then the number of bytes that the sectors up to the end of
  the file announce, or \<open>nbytes\<close> when that is less.  (The loop moves on through sectors
  that hold no data, so it need not return on a device whose tail headers lead through
  empty sectors back to where the walk started.)  In particular, when the descriptor
  stands at the end of the file (the spare of the next sector is unwritten or, at the tail
  sector, the next block does not carry the file's id) and more is asked for than the
  current sector has left, the call returns what the sector had left; when the current
  sector has at least \<open>nbytes\<close> left, the call returns \<open>nbytes\<close>.
\<close>

theorem flogfs_read_count:
  assumes ok: "conf_ok cf" and rdy: "flash_ready cf w" and nz: "fd \<noteq> 0"
  shows "(\<forall>r. flogfs_read cf fd nbytes w = Some r \<longrightarrow>
            (\<exists>count out w'. r = Inr (count, out, w') \<and> count \<le> nbytes \<and> length out = unat count))
     \<and> (at_end_of_file cf (flash w) (rfiles w fd)
          \<and> ucast (rf_sector_remaining_bytes (rfiles w fd)) < nbytes \<longrightarrow>
         (\<exists>out w'. flogfs_read cf fd nbytes w =
                      Some (Inr (ucast (rf_sector_remaining_bytes (rfiles w fd)), out, w'))
            \<and> length out = unat (rf_sector_remaining_bytes (rfiles w fd))))
     \<and> (nbytes \<le> ucast (rf_sector_remaining_bytes (rfiles w fd)) \<longrightarrow>
         (\<exists>out w'. flogfs_read cf fd nbytes w = Some (Inr (nbytes, out, w'))
            \<and> length out = unat nbytes))
     \<and> (file_ends cf (flash w) (rfiles w fd) k \<longrightarrow>
         (\<exists>count out w'. flogfs_read cf fd nbytes w = Some (Inr (count, out, w'))
            \<and> unat count = min (unat nbytes) (bytes_ahead cf (flash w) (rfiles w fd) k)
            \<and> length out = unat count \<and> count \<le> nbytes))"
proof (intro conjI allI impI)
  fix r assume "flogfs_read cf fd nbytes w = Some r"
  then obtain y where y: "flogfs_read_loop cf fd [] nbytes 0 w = Some y" "r = Inr y"
    using nz by (auto simp: flogfs_read_def)
  have "unat (0 :: 32 word) + unat nbytes < 2 ^ 32"
    using unsigned_less [of nbytes, where 'a = nat] by simp
  with read_loop_count [OF y(1)] obtain k where
    "k \<le> unat nbytes" "unat (fst y) = k" "length (fst (snd y)) = k"
    by auto
  then have "fst y \<le> nbytes \<and> length (fst (snd y)) = unat (fst y)"
    by (simp add: word_le_nat_alt)
  with y(2) show "\<exists>count out w'. r = Inr (count, out, w') \<and> count \<le> nbytes \<and> length out = unat count"
    by (cases y) auto
next
  let ?f = "rfiles w fd"
  let ?r = "rf_sector_remaining_bytes ?f"
  assume a: "at_end_of_file cf (flash w) ?f \<and> ucast ?r < nbytes"
  then have eof: "at_end_of_file cf (flash w) ?f" and lt: "ucast ?r < nbytes" by auto
  from lt have n0: "nbytes \<noteq> 0" by auto
  show "\<exists>out w'. flogfs_read cf fd nbytes w = Some (Inr (ucast ?r, out, w')) \<and> length out = unat ?r"
  proof (cases "?r = 0")
    case True
    from read_advance_eof [OF ok rdy eof] obtain w1 where "read_advance cf fd w = (True, w1)"
      by blast
    then have "flogfs_read_loop cf fd [] nbytes 0 w = Some (0, [], w1)"
      using True n0 by (subst flogfs_read_loop.simps) simp
    then show ?thesis using True nz by (simp add: flogfs_read_def)
  next
    case False
    obtain t bytes w2 where ch: "read_chunk cf fd nbytes w = (t, bytes, w2)"
      by (cases "read_chunk cf fd nbytes w") auto
    note cnt = read_chunk_count [OF ch]
    have lt': "unat ?r < unat nbytes"
      using lt by (simp add: word_less_nat_alt unat_ucast_16_32)
    then have t: "t = ?r" using cnt(1) by (intro ucast_16_32_inj) simp
    from read_chunk_state [OF ok rdy, of fd nbytes] obtain w1 where
      w1: "same_fs w w1" "flash_ready cf w1"
        "w2 = read_file_update fd
           (\<lambda>_. ?f \<lparr> rf_offset := rf_offset ?f + t,
                     rf_sector_remaining_bytes := ?r - t,
                     rf_read_head := rf_read_head ?f + ucast t \<rparr>) w1"
      by (auto simp: ch)
    have rem2: "rf_sector_remaining_bytes (rfiles w2 fd) = 0" by (simp add: w1(3) t)
    have rdy2: "flash_ready cf w2" using w1(2) by (simp add: w1(3))
    have "at_end_of_file cf (flash w2) (rfiles w2 fd) = at_end_of_file cf (flash w) ?f"
      by (rule at_end_of_file_cong) (simp_all add: w1(3) same_fs_fields [OF w1(1)])
    with eof have eof2: "at_end_of_file cf (flash w2) (rfiles w2 fd)" by simp
    from read_advance_eof [OF ok rdy2 eof2] obtain w3 where
      w3: "read_advance cf fd w2 = (True, w3)" by blast
    have n2: "nbytes - ucast t \<noteq> 0"
      using lt by (simp add: t)
    have step2: "flogfs_read_loop cf fd bytes (nbytes - ucast t) (ucast t) w2
        = Some (ucast t, bytes, w3)"
      using n2 rem2 w3 by (subst flogfs_read_loop.simps) simp
    have "flogfs_read_loop cf fd [] nbytes 0 w = Some (ucast t, bytes, w3)"
      using False n0 ch step2 by (subst flogfs_read_loop.simps) simp
    then show ?thesis using nz cnt(3) by (simp add: flogfs_read_def t)
  qed
next
  let ?f = "rfiles w fd"
  let ?r = "rf_sector_remaining_bytes ?f"
  assume le: "nbytes \<le> ucast ?r"
  show "\<exists>out w'. flogfs_read cf fd nbytes w = Some (Inr (nbytes, out, w')) \<and> length out = unat nbytes"
  proof (cases "nbytes = 0")
    case True
    then have "flogfs_read_loop cf fd [] nbytes 0 w = Some (0, [], w)"
      by (subst flogfs_read_loop.simps) simp
    then show ?thesis using True nz by (simp add: flogfs_read_def)
  next
    case False
    from le have le': "unat nbytes \<le> unat ?r"
      by (simp add: word_le_nat_alt unat_ucast_16_32)
    with False have r0: "?r \<noteq> 0" by (auto simp: unat_eq_0)
    obtain t bytes w2 where ch: "read_chunk cf fd nbytes w = (t, bytes, w2)"
      by (cases "read_chunk cf fd nbytes w") auto
    note cnt = read_chunk_count [OF ch]
    have "unat (ucast t :: 32 word) = unat nbytes" using cnt(2) le' by simp
    then have t: "ucast t = nbytes" by (simp add: word_unat_eq_iff)
    have step2: "flogfs_read_loop cf fd bytes (nbytes - ucast t) (ucast t) w2
        = Some (ucast t, bytes, w2)"
      by (subst flogfs_read_loop.simps) (simp add: t)
    have "flogfs_read_loop cf fd [] nbytes 0 w = Some (ucast t, bytes, w2)"
      using False r0 ch step2 by (subst flogfs_read_loop.simps) simp
    then show ?thesis using nz cnt(3,1) le' by (simp add: flogfs_read_def t)
  qed
next
  assume ends: "file_ends cf (flash w) (rfiles w fd) k"
  have "unat (0 :: 32 word) + unat nbytes < 2 ^ 32"
    using unsigned_less [of nbytes, where 'a = nat] by simp
  from read_loop_total [OF ok rdy ends this, of "[]"]
  obtain count out w' where
    res: "flogfs_read_loop cf fd [] nbytes 0 w = Some (count, out, w')"
      "unat count = min (unat nbytes) (bytes_ahead cf (flash w) (rfiles w fd) k)"
      "length out = min (unat nbytes) (bytes_ahead cf (flash w) (rfiles w fd) k)"
    unfolding read_result_def by auto
  have "count \<le> nbytes" using res(2) by (simp add: word_le_nat_alt)
  with res nz
  show "\<exists>count out w'. flogfs_read cf fd nbytes w = Some (Inr (count, out, w'))
            \<and> unat count = min (unat nbytes) (bytes_ahead cf (flash w) (rfiles w fd) k)
            \<and> length out = unat count \<and> count \<le> nbytes"
    by (simp add: flogfs_read_def)
qed

theorem flogfs_read_count_witness:
  "conf_ok conf0 \<and> flash_ready conf0 world_two_readers \<and> (16 :: addr) \<noteq> 0
   \<and> at_end_of_file conf0 (flash world_two_readers) (rfiles world_two_readers 16)
   \<and> (\<exists>out w'. flogfs_read conf0 16 200 world_two_readers = Some (Inr (108, out, w'))
          \<and> length out = 108)
   \<and> (\<exists>out w'. flogfs_read conf0 16 50 world_two_readers = Some (Inr (50, out, w'))
          \<and> length out = 50)
   \<and> flash_ready conf0 world_two_sectors
   \<and> file_ends conf0 (flash world_two_sectors) (rfiles world_two_sectors 16) 1
   \<and> (\<exists>count out w'. flogfs_read conf0 16 200 world_two_sectors = Some (Inr (count, out, w'))
          \<and> unat count = 158 \<and> length out = 158)"
proof -
  have rdy: "flash_ready conf0 world_two_readers"
    by (simp add: flash_ready_def cache_coherent_def world_two_readers_def one_file_defs)
  have nz: "(16 :: addr) \<noteq> 0" by simp
  have f: "rfiles world_two_readers 16 =
      rfile0 \<lparr> rf_id := 1, rf_block := 1, rf_offset := 8,
               rf_sector_remaining_bytes := 108, rf_next := 32 \<rparr>"
    "flash world_two_readers = flash_one_file"
    by (simp_all add: world_two_readers_def world_one_file_def world_reset_def)
  have eof: "at_end_of_file conf0 (flash world_two_readers) (rfiles world_two_readers 16)"
    by (simp add: f at_end_of_file_def rfile0_def conf0_simps flog_increment_sector_def
        flash_one_file_def flash_formatted_def flash_erased_def spare_nbytes_def ld16_def
        FLOG_SECTOR_NBYTES_INVALID_def)
  note T = flogfs_read_count [OF conf_ok_conf0 rdy nz]
  have a: "\<exists>out w'. flogfs_read conf0 16 200 world_two_readers = Some (Inr (108, out, w'))
          \<and> length out = 108"
    using T [of 200, THEN conjunct2, THEN conjunct1] eof
    by (simp add: f rfile0_def)
  have b: "\<exists>out w'. flogfs_read conf0 16 50 world_two_readers = Some (Inr (50, out, w'))
          \<and> length out = 50"
    using T [of 50, THEN conjunct2, THEN conjunct2, THEN conjunct1]
    by (simp add: f rfile0_def)
  have rdy2: "flash_ready conf0 world_two_sectors"
    by (simp add: flash_ready_def cache_coherent_def world_two_sectors_def world_reset_def
        flash_two_sectors_def flash_one_file_def flash_formatted_def flash_erased_def)
  have g: "rfiles world_two_sectors 16 =
      rfile0 \<lparr> rf_id := 1, rf_block := 1, rf_offset := 8, rf_sector_remaining_bytes := 108 \<rparr>"
    "flash world_two_sectors = flash_two_sectors"
    by (simp_all add: world_two_sectors_def world_reset_def)
  have s1: "read_successor conf0 flash_two_sectors
       (rfile0 \<lparr> rf_id := 1, rf_block := 1, rf_offset := 8, rf_sector_remaining_bytes := 108 \<rparr>)
     = rfile0 \<lparr> rf_id := 1, rf_block := 1, rf_offset := 0, rf_sector_remaining_bytes := 50,
                rf_sector := 1 \<rparr>"
    by (simp add: read_successor_def rfile0_def conf0_simps flog_increment_sector_def Let_def
        flash_two_sectors_def spare_nbytes_def ld16_def st16_def)
  have e0: "\<not> at_end_of_file conf0 flash_two_sectors
       (rfile0 \<lparr> rf_id := 1, rf_block := 1, rf_offset := 8, rf_sector_remaining_bytes := 108 \<rparr>)"
    by (simp add: at_end_of_file_def rfile0_def conf0_simps flog_increment_sector_def
        flash_two_sectors_def spare_nbytes_def ld16_def st16_def FLOG_SECTOR_NBYTES_INVALID_def)
  have e1: "at_end_of_file conf0 flash_two_sectors
       (rfile0 \<lparr> rf_id := 1, rf_block := 1, rf_offset := 0, rf_sector_remaining_bytes := 50,
                 rf_sector := 1 \<rparr>)"
    by (simp add: at_end_of_file_def rfile0_def conf0_simps flog_increment_sector_def
        flash_two_sectors_def flash_one_file_def flash_formatted_def flash_erased_def
        spare_nbytes_def ld16_def FLOG_SECTOR_NBYTES_INVALID_def)
  have ends: "file_ends conf0 (flash world_two_sectors) (rfiles world_two_sectors 16) 1"
    using e1 by (simp add: g s1)
  have ahead: "bytes_ahead conf0 (flash world_two_sectors) (rfiles world_two_sectors 16) 1 = 158"
    using e0 by (simp add: g s1)
  have c: "\<exists>count out w'. flogfs_read conf0 16 200 world_two_sectors = Some (Inr (count, out, w'))
          \<and> unat count = 158 \<and> length out = 158"
    using flogfs_read_count [OF conf_ok_conf0 rdy2 nz, of 200 1,
        THEN conjunct2, THEN conjunct2, THEN conjunct2, THEN mp, OF ends]
    unfolding ahead by auto
  from conf_ok_conf0 rdy nz eof a b rdy2 ends c show ?thesis by blast
qed

section \<open>Mounting\<close>

lemma scan_block_frame:
  assumes "mount_scan_block cf i l w = ScanDone l' w'"
  shows "fl_spare (flash w') = fl_spare (flash w)" "fl_bad (flash w') = fl_bad (flash w)"
    "fl_open_ok (flash w') = fl_open_ok (flash w)" "fs_state w' = fs_state w"
  using assms
  by (auto simp: mount_scan_block_def flash_open_page_def Let_def
      split: if_splits prod.splits flog_result_t.splits)

lemma scan_block_failure_state:
  assumes "mount_scan_block cf i l w = ScanFailure w'"
  shows "fs_state w' = fs_state w"
  using assms
  by (auto simp: mount_scan_block_def flash_open_page_def Let_def
      split: if_splits prod.splits flog_result_t.splits)

lemma scan_block_unknown:
  assumes "fl_open_ok (flash w) i 0" "\<not> fl_bad (flash w) i"
    "\<not> known_type (spare_type_id (fl_spare (flash w) i 0))"
  shows "\<exists>w'. mount_scan_block cf i l w = ScanFailure w'"
  using assms
  by (simp add: mount_scan_block_def flash_open_page_def Let_def flash_block_is_bad_def
      flash_read_spare_def known_type_def)

lemma mount_scan_unknown:
  "j \<le> i \<Longrightarrow> i < j + k \<Longrightarrow> fl_open_ok (flash w) i 0 \<Longrightarrow> \<not> fl_bad (flash w) i \<Longrightarrow>
   \<not> known_type (spare_type_id (fl_spare (flash w) i 0)) \<Longrightarrow>
   \<exists>w'. mount_scan cf j k l w = ScanFailure w' \<and> fs_state w' = fs_state w"
proof (induction k arbitrary: j l w)
  case 0
  then show ?case by simp
next
  case (Suc k)
  show ?case
  proof (cases "mount_scan_block cf j l w")
    case (ScanFailure w')
    then show ?thesis using scan_block_failure_state [OF ScanFailure] by simp
  next
    case (ScanDone l' w')
    note fr = scan_block_frame [OF ScanDone]
    have "j \<noteq> i"
      using scan_block_unknown [OF Suc.prems(3,4,5), of cf l] ScanDone by auto
    with Suc.prems have "Suc j \<le> i" "i < Suc j + k" by simp_all
    from Suc.IH [OF this, of w' l'] Suc.prems(3,4,5)
    obtain w'' where "mount_scan cf (Suc j) k l' w' = ScanFailure w''" "fs_state w'' = fs_state w'"
      by (auto simp: fr)
    then show ?thesis using ScanDone fr(4) by simp
  qed
qed

text \<open>
  Claim C9.  When the file system is not mounted yet and some block of the device opens,
  is not reported bad and carries in its sector-0 spare a type code other than INODE, FILE
  and UNALLOCATED, \<^verbatim>\<open>flogfs_mount\<close> returns failure and the state is not MOUNTED afterwards.
\<close>

theorem flogfs_mount_unknown_type:
  assumes "fs_state w \<noteq> FLOG_STATE_MOUNTED"
    and "i < FS_NUM_BLOCKS cf" and "fl_open_ok (flash w) i 0" and "\<not> fl_bad (flash w) i"
    and "\<not> known_type (spare_type_id (fl_spare (flash w) i 0))"
  shows "\<exists>w'. flogfs_mount cf ul w = Some (FLOG_FAILURE, w')
           \<and> fs_state w' \<noteq> FLOG_STATE_MOUNTED"
proof -
  let ?w0 = "w \<lparr> num_free_blocks := 0 \<rparr>"
  from mount_scan_unknown [of 0 i "FS_NUM_BLOCKS cf" ?w0 cf "mount_locals_init ul"] assms
  obtain w' where "mount_scan cf 0 (FS_NUM_BLOCKS cf) (mount_locals_init ul) ?w0 = ScanFailure w'"
    "fs_state w' = fs_state w"
    by auto
  with assms(1) show ?thesis by (simp add: flogfs_mount_def Let_def)
qed

theorem flogfs_mount_unknown_type_witness:
  "fs_state (world_reset conf0 flash_corrupt) \<noteq> FLOG_STATE_MOUNTED
   \<and> 5 < FS_NUM_BLOCKS conf0
   \<and> fl_open_ok (flash (world_reset conf0 flash_corrupt)) 5 0
   \<and> \<not> fl_bad (flash (world_reset conf0 flash_corrupt)) 5
   \<and> \<not> known_type (spare_type_id (fl_spare (flash (world_reset conf0 flash_corrupt)) 5 0))
   \<and> (\<exists>w'. flogfs_mount conf0 mount_locals0 (world_reset conf0 flash_corrupt)
            = Some (FLOG_FAILURE, w')
          \<and> fs_state w' \<noteq> FLOG_STATE_MOUNTED)"
proof -
  have h: "fs_state (world_reset conf0 flash_corrupt) \<noteq> FLOG_STATE_MOUNTED"
    "5 < FS_NUM_BLOCKS conf0"
    "fl_open_ok (flash (world_reset conf0 flash_corrupt)) 5 0"
    "\<not> fl_bad (flash (world_reset conf0 flash_corrupt)) 5"
    "\<not> known_type (spare_type_id (fl_spare (flash (world_reset conf0 flash_corrupt)) 5 0))"
    by (simp_all add: world_reset_def flash_corrupt_def flash_formatted_def flash_erased_def
        conf0_simps known_type_def spare_type_id_def FLOG_BLOCK_TYPE_INODE_def
        FLOG_BLOCK_TYPE_FILE_def FLOG_BLOCK_TYPE_UNALLOCATED_def)
  from flogfs_mount_unknown_type [OF h, of mount_locals0] h show ?thesis by blast
qed

end
